theory Spec2Isabelle
  imports Main "HOL-Library.Word"
begin

unbundle bit_operations_syntax

chapter \<open>A shallow embedding of the c0 compiler front end\<close>

text \<open>
  The development follows the packages of the repository: \<^verbatim>\<open>token\<close> (the token FIFO),
  \<^verbatim>\<open>node\<close> (the syntax tree), \<^verbatim>\<open>types\<close> (semantic types and their matching), \<^verbatim>\<open>analyze\<close>
  (scopes and the checks of the analyzer), \<^verbatim>\<open>parse\<close> (the recursive-descent parser),
  \<^verbatim>\<open>cfg\<close> (control-flow graph formation), \<^verbatim>\<open>ir\<close> and \<^verbatim>\<open>ssa\<close> (lowering to the intermediate
  representation) and \<^verbatim>\<open>vm\<close> (the toy interpreter). Go pointers to mutable objects become
  explicit state that every operation takes and returns; a Go panic becomes a value.
\<close>

section \<open>Package token\<close>

text \<open>The token kinds of \<^verbatim>\<open>token.go\<close>, in the order of the Go constant block.\<close>

datatype token_Kind =
    token_Id | token_DecNum | token_HexNum | token_StrLit | token_LibLit | token_ChrLit
  | token_LParen | token_RParen | token_LBrack | token_RBrack | token_LCurly | token_RCurly
  | token_Comma | token_Semicolon | token_Exclam | token_Worm | token_Plus | token_Minus
  | token_Star | token_Dot | token_Arrow | token_Slash | token_Percent | token_Lt | token_Gt
  | token_DLt | token_DGt | token_Le | token_Ge | token_Eq | token_Ne | token_Assign
  | token_AssignPlus | token_AssignMinus | token_AssignStar | token_AssignSlash
  | token_AssignPercent | token_AssignDLt | token_AssignDGt | token_AssignAmpersand
  | token_AssignHat | token_AssignPipe | token_Ampersand | token_Hat | token_Pipe
  | token_DAmpersand | token_DPipe | token_Quest | token_Colon | token_DPlus | token_DMinus
  | token_UseStrLit | token_UseLibLit | token_Brackets | token_True | token_False
  | token_Null | token_CommentOne | token_CommentMulti

text \<open>A token: its kind and its lexeme. The source span (line and column of both ends) is
  kept as a quadruple; no operation modelled here reads it.\<close>

record Token =
  span :: "int \<times> int \<times> int \<times> int"
  kind :: token_Kind
  val :: string

text \<open>\<^verbatim>\<open>Tokens\<close> is a FIFO over a slice. Every operation takes the slice and returns the
  slice it leaves behind; a \<^verbatim>\<open>nil\<close> result is \<open>None\<close>.\<close>

type_synonym Tokens = "Token list"

fun Pop :: "Tokens \<Rightarrow> Token option \<times> Tokens" where
  "Pop [] = (None, [])"
| "Pop [tok] = (Some tok, [])"
| "Pop (tok # rest) = (Some tok, rest)"

definition is_comment :: "Token \<Rightarrow> bool" where
  "is_comment tok \<longleftrightarrow> kind tok = token_CommentOne \<or> kind tok = token_CommentMulti"

lemma snd_Pop_length [simp]: "length (snd (Pop (tok # rest))) = length rest"
  by (cases rest) simp_all

function Peek :: "Tokens \<Rightarrow> Token option \<times> Tokens" where
  "Peek toks =
     (if length toks = 0 then (None, toks)
      else if is_comment (hd toks) then Peek (snd (Pop toks))
      else (Some (hd toks), toks))"
  by pat_completeness auto
termination
  by (relation "measure length") (auto simp: neq_Nil_conv)

declare Peek.simps [simp del]

definition PeekAll :: "Tokens \<Rightarrow> Token option" where
  "PeekAll toks = (if length toks = 0 then None else Some (hd toks))"

text \<open>\<^verbatim>\<open>Accept\<close> pops the head when it has the given kind; otherwise it returns an error and
  leaves the head (the comments \<^verbatim>\<open>Peek\<close> dropped stay dropped).\<close>

datatype token_error = token_EOT | token_Expecting token_Kind Token

definition Accept :: "Tokens \<Rightarrow> token_Kind \<Rightarrow> token_error option \<times> Tokens" where
  "Accept toks k =
     (case Peek toks of
        (None, toks1) \<Rightarrow> (Some token_EOT, toks1)
      | (Some cur, toks1) \<Rightarrow>
          if kind cur \<noteq> k then (Some (token_Expecting k cur), toks1)
          else (None, snd (Pop toks1)))"

lemma Peek_length: "length (snd (Peek toks)) \<le> length toks"
proof (induction toks rule: Peek.induct)
  case (1 toks)
  show ?case
  proof (cases toks)
    case Nil
    then show ?thesis by (simp add: Peek.simps)
  next
    case (Cons tok rest)
    with 1 show ?thesis
      by (subst Peek.simps) (auto simp: le_Suc_eq)
  qed
qed

lemma Peek_Some_length: "Peek toks = (Some tok, toks1) \<Longrightarrow> 0 < length toks1"
proof (induction toks rule: Peek.induct)
  case (1 toks)
  then show ?case
    by (subst (asm) (2) Peek.simps) (auto split: if_splits)
qed

text \<open>\<^verbatim>\<open>Find\<close> pops until the head has one of the given kinds, and returns the head without
  popping it.\<close>

function Find :: "Tokens \<Rightarrow> token_Kind list \<Rightarrow> Token option \<times> Tokens" where
  "Find toks kinds =
     (case Peek toks of
        (None, toks1) \<Rightarrow> (None, toks1)
      | (Some cur, toks1) \<Rightarrow>
          if kind cur \<in> set kinds then (Some cur, toks1)
          else Find (snd (Pop toks1)) kinds)"
  by pat_completeness auto
termination
proof (relation "measure (\<lambda>(toks, kinds). length toks)", goal_cases)
  case 1
  show ?case by simp
next
  case (2 toks kinds x1 x2 cur)
  then have P: "Peek toks = (Some cur, x2)" by simp
  from Peek_Some_length [OF P] obtain tok rest where x2: "x2 = tok # rest"
    by (cases x2) auto
  from Peek_length [of toks] P have "length x2 \<le> length toks" by simp
  with x2 show ?case by simp
qed

declare Find.simps [simp del]

section \<open>Results of operations that can panic\<close>

text \<open>A Go panic (a failed type assertion, an index out of range, an explicit
  \<^verbatim>\<open>panic(...)\<close>) ends the computation; it is the value \<open>Panic\<close> with the message.\<close>

datatype 'a res = Ok 'a | Panic string

definition bindr :: "'a res \<Rightarrow> ('a \<Rightarrow> 'b res) \<Rightarrow> 'b res" where
  "bindr r f = (case r of Panic m \<Rightarrow> Panic m | Ok x \<Rightarrow> f x)"

lemma bindr_cong [fundef_cong]:
  "r = r' \<Longrightarrow> (\<And>x. r' = Ok x \<Longrightarrow> f x = f' x) \<Longrightarrow> bindr r f = bindr r' f'"
  by (cases r') (simp_all add: bindr_def)

lemma bindr_simps [simp]: "bindr (Ok x) f = f x" "bindr (Panic m) f = Panic m"
  by (simp_all add: bindr_def)

text \<open>Assignment to a map entry: replace the value of a key that is there, add it
  otherwise.\<close>

fun assign :: "('k \<times> 'v) list \<Rightarrow> 'k \<Rightarrow> 'v \<Rightarrow> ('k \<times> 'v) list" where
  "assign [] k v = [(k, v)]"
| "assign ((k', v') # kvs) k v = (if k' = k then (k, v) # kvs else (k', v') # assign kvs k v)"

section \<open>Package node\<close>

text \<open>Node identifiers are issued by \<^verbatim>\<open>node.Store\<close> from a process-wide counter that starts
  at \<^verbatim>\<open>NODEID_INVALID = 0\<close>; the first identifier issued is 1. A node that never went
  through \<^verbatim>\<open>Store\<close> carries 0 here.\<close>

type_synonym NodeId = nat

datatype KindEnum =
  KIND_INT | KIND_BOOL | KIND_STRING | KIND_STRUCT | KIND_VOID | KIND_CHAR | KIND_TYPEDEF

datatype KindOpUn =
    OPUN_NEG | OPUN_LOGNOT | OPUN_BITNOT | OPUN_DEREF | OPUN_ADDONE | OPUN_SUBONE
  | OPUN_ADDROF | OPUN_ADDONESUFFIX | OPUN_SUBONESUFFIX

datatype KindOpBin =
    OPBIN_ADD | OPBIN_SUB | OPBIN_MUL | OPBIN_DIV | OPBIN_MOD | OPBIN_ARRSUB
  | OPBIN_FUNCALL | OPBIN_STRUCTDEC | OPBIN_STRUCTPTRDEC | OPBIN_TERNARYCOND
  | OPBIN_TERNARYVALS | OPBIN_SHIFTR | OPBIN_SHIFTL | OPBIN_LE | OPBIN_GE | OPBIN_LT
  | OPBIN_GT | OPBIN_EQ | OPBIN_NE | OPBIN_BAND | OPBIN_BOR | OPBIN_BXOR | OPBIN_AND
  | OPBIN_OR

datatype KindOpAsn =
    OPASN_PLAIN | OPASN_ADD | OPASN_SUB | OPASN_MUL | OPASN_DIV | OPASN_MOD
  | OPASN_LSHIFT | OPASN_RSHIFT | OPASN_AND | OPASN_XOR | OPASN_OR

text \<open>\<^verbatim>\<open>node.Kind\<close>: a declared type as parsed.\<close>

datatype node_Kind =
  node_Kind (Kind_id: NodeId) (Kind_Kind: KindEnum) (Kind_PointerLevel: int)
            (Kind_ArrayLevel: int) (Kind_Name: string)

datatype VarDecl = VarDecl (VarDecl_id: NodeId) (VarDecl_Kind: node_Kind) (VarDecl_Name: string)

datatype FunDecl =
  FunDecl (FunDecl_id: NodeId) (FunDecl_Name: string) (FunDecl_Returns: node_Kind)
          (FunDecl_Params: "VarDecl list")

text \<open>The syntax tree. \<open>NilNode\<close> is the \<^verbatim>\<open>nil\<close> value of the interface \<^verbatim>\<open>node.Node\<close> (an absent
  initialiser, \<^verbatim>\<open>else\<close> branch or \<^verbatim>\<open>return\<close> expression). \<^verbatim>\<open>FunDef\<close> embeds its \<^verbatim>\<open>FunDecl\<close> and
  its body \<^verbatim>\<open>Block\<close> by value: the body is the block's identifier and statements.\<close>

datatype Node =
    NilNode
  | Variable NodeId string
  | Numeric NodeId "32 word" int
  | StructForwardDecl NodeId string
  | StructNode NodeId string "VarDecl list"
  | StrLit NodeId string
  | ChrLit NodeId char
  | LibLit NodeId string
  | BoolNode NodeId bool
  | Null NodeId
  | Args NodeId "Node list"
  | OpUnary NodeId KindOpUn Node
  | OpBinary NodeId KindOpBin Node Node
  | OpAssign NodeId KindOpAsn Node Node
  | Block NodeId "Node list"
  | IfNode NodeId Node Node Node
  | For NodeId Node Node Node Node
  | While NodeId Node Node
  | Return NodeId Node
  | Assert NodeId Node
  | ErrorNode NodeId Node
  | Alloc NodeId node_Kind
  | AllocArray NodeId node_Kind Node
  | Typedef NodeId string node_Kind
  | TypedefFunc NodeId string node_Kind "VarDecl list"
  | Break NodeId
  | Continue NodeId
  | Cast NodeId node_Kind Node
  | VarDeclNode VarDecl
  | FunDeclNode FunDecl
  | FunDef NodeId FunDecl NodeId "Node list"
  | KindNode node_Kind
  | DirectiveUse NodeId bool Node "Node list"

text \<open>\<^verbatim>\<open>Common.Id\<close>.\<close>

fun Node_Id :: "Node \<Rightarrow> NodeId" where
  "Node_Id NilNode = 0"
| "Node_Id (Variable i _) = i"
| "Node_Id (Numeric i _ _) = i"
| "Node_Id (StructForwardDecl i _) = i"
| "Node_Id (StructNode i _ _) = i"
| "Node_Id (StrLit i _) = i"
| "Node_Id (ChrLit i _) = i"
| "Node_Id (LibLit i _) = i"
| "Node_Id (BoolNode i _) = i"
| "Node_Id (Null i) = i"
| "Node_Id (Args i _) = i"
| "Node_Id (OpUnary i _ _) = i"
| "Node_Id (OpBinary i _ _ _) = i"
| "Node_Id (OpAssign i _ _ _) = i"
| "Node_Id (Block i _) = i"
| "Node_Id (IfNode i _ _ _) = i"
| "Node_Id (For i _ _ _ _) = i"
| "Node_Id (While i _ _) = i"
| "Node_Id (Return i _) = i"
| "Node_Id (Assert i _) = i"
| "Node_Id (ErrorNode i _) = i"
| "Node_Id (Alloc i _) = i"
| "Node_Id (AllocArray i _ _) = i"
| "Node_Id (Typedef i _ _) = i"
| "Node_Id (TypedefFunc i _ _ _) = i"
| "Node_Id (Break i) = i"
| "Node_Id (Continue i) = i"
| "Node_Id (Cast i _ _) = i"
| "Node_Id (VarDeclNode vd) = VarDecl_id vd"
| "Node_Id (FunDeclNode fd) = FunDecl_id fd"
| "Node_Id (FunDef i _ _ _) = i"
| "Node_Id (KindNode k) = Kind_id k"
| "Node_Id (DirectiveUse i _ _ _) = i"

section \<open>Package types\<close>

datatype TypeEnum =
    TYPE_INT | TYPE_BOOL | TYPE_STRING | TYPE_STRUCT | TYPE_STRUCT_FWD | TYPE_VOID
  | TYPE_CHAR | TYPE_FUNC | TYPE_NULL

text \<open>A semantic type. \<^verbatim>\<open>Extra\<close> is an interface value: \<^verbatim>\<open>nil\<close> (\<open>NoExtra\<close>), a
  \<^verbatim>\<open>*Function\<close>, a \<^verbatim>\<open>*Struct\<close> or a \<^verbatim>\<open>*StructForward\<close> (which holds a name only).\<close>

datatype Type =
  Type (Type_Type: TypeEnum) (Type_PointerLevel: int) (Type_ArrayLevel: int)
       (Type_Extra: ExtraType)
and ExtraType = NoExtra | ExtraFunction Function | ExtraStruct Struct
              | ExtraStructForward string
and Function = Function (Returns: Type) (ParamTypes: "Type list")
and Struct = Struct (Struct_Name: string) (Fields: "StructField list")
and StructField = StructField (StructField_Name: string) (StructField_Type: Type)

definition NewType :: "TypeEnum \<Rightarrow> int \<Rightarrow> int \<Rightarrow> Type" where
  "NewType t pointerlevel arraylevel = Type t pointerlevel arraylevel NoExtra"

definition NewTypeExtra :: "TypeEnum \<Rightarrow> int \<Rightarrow> int \<Rightarrow> ExtraType \<Rightarrow> Type" where
  "NewTypeExtra t pointerlevel arraylevel extra = Type t pointerlevel arraylevel extra"

text \<open>
  \<^verbatim>\<open>Type.Matches\<close> and the \<^verbatim>\<open>Matches\<close> methods it calls, by recursion on the receiver.
  \<open>Extra_Matches\<close> is the \<^verbatim>\<open>switch k.Type\<close> of \<^verbatim>\<open>Type.Matches\<close> with its type assertions
  \<^verbatim>\<open>k.Extra.(*Struct)\<close>, \<^verbatim>\<open>k.Extra.(*StructForward)\<close>, \<^verbatim>\<open>k.Extra.(*Function)\<close>: an assertion on
  an \<^verbatim>\<open>Extra\<close> of another dynamic type panics. \<open>Types_Matches_loop\<close> and
  \<open>StructFields_Matches\<close> are the \<^verbatim>\<open>for i := range\<close> loops; indexing the second slice past its
  end panics. \<^verbatim>\<open>Types.Matches\<close> compares the lengths before its loop,
  \<^verbatim>\<open>StructFields.Matches\<close> does not. \<^verbatim>\<open>&&\<close> evaluates its right operand only when the left one
  is true.
\<close>

primrec Type_Matches :: "Type \<Rightarrow> Type \<Rightarrow> bool res"
and Extra_Matches :: "ExtraType \<Rightarrow> TypeEnum \<Rightarrow> ExtraType \<Rightarrow> bool res"
and Function_Matches :: "Function \<Rightarrow> Function \<Rightarrow> bool res"
and Struct_Matches :: "Struct \<Rightarrow> Struct \<Rightarrow> bool res"
and Types_Matches_loop :: "Type list \<Rightarrow> Type list \<Rightarrow> bool res"
and StructField_Matches :: "StructField \<Rightarrow> StructField \<Rightarrow> bool res"
and StructFields_Matches :: "StructField list \<Rightarrow> StructField list \<Rightarrow> bool res"
where
  "Type_Matches (Type t p a e) k2 =
     (if t \<noteq> Type_Type k2 \<or> p \<noteq> Type_PointerLevel k2 \<or> a \<noteq> Type_ArrayLevel k2
      then Ok False
      else Extra_Matches e t (Type_Extra k2))"
| "Extra_Matches NoExtra t e2 =
     (if t = TYPE_STRUCT \<or> t = TYPE_STRUCT_FWD \<or> t = TYPE_FUNC
      then Panic ''interface conversion'' else Ok True)"
| "Extra_Matches (ExtraStruct s) t e2 =
     (if t = TYPE_STRUCT then
        (case e2 of ExtraStruct s2 \<Rightarrow> Struct_Matches s s2
         | _ \<Rightarrow> Panic ''interface conversion'')
      else if t = TYPE_STRUCT_FWD \<or> t = TYPE_FUNC then Panic ''interface conversion''
      else Ok True)"
| "Extra_Matches (ExtraStructForward sf) t e2 =
     (if t = TYPE_STRUCT_FWD then
        (case e2 of ExtraStructForward sf2 \<Rightarrow> Ok (sf = sf2)
         | _ \<Rightarrow> Panic ''interface conversion'')
      else if t = TYPE_STRUCT \<or> t = TYPE_FUNC then Panic ''interface conversion''
      else Ok True)"
| "Extra_Matches (ExtraFunction f) t e2 =
     (if t = TYPE_FUNC then
        (case e2 of ExtraFunction f2 \<Rightarrow> Function_Matches f f2
         | _ \<Rightarrow> Panic ''interface conversion'')
      else if t = TYPE_STRUCT \<or> t = TYPE_STRUCT_FWD then Panic ''interface conversion''
      else Ok True)"
| "Function_Matches (Function r ps) f2 =
     (case Type_Matches r (Returns f2) of
        Panic m \<Rightarrow> Panic m
      | Ok b \<Rightarrow> if \<not> b then Ok False
                else if length ps \<noteq> length (ParamTypes f2) then Ok False
                else Types_Matches_loop ps (ParamTypes f2))"
| "Struct_Matches (Struct n fs) s2 =
     (if n = Struct_Name s2 then StructFields_Matches fs (Fields s2) else Ok False)"
| "Types_Matches_loop [] t2 = Ok True"
| "Types_Matches_loop (x # t) t2 =
     (case t2 of [] \<Rightarrow> Panic ''index out of range''
      | y # t2' \<Rightarrow>
          (case Type_Matches x y of
             Panic m \<Rightarrow> Panic m
           | Ok b \<Rightarrow> if \<not> b then Ok False else Types_Matches_loop t t2'))"
| "StructField_Matches (StructField n ty) sm2 =
     (if n = StructField_Name sm2 then Type_Matches ty (StructField_Type sm2) else Ok False)"
| "StructFields_Matches [] sm2 = Ok True"
| "StructFields_Matches (x # sm) sm2 =
     (case sm2 of [] \<Rightarrow> Panic ''index out of range''
      | y # sm2' \<Rightarrow>
          (case StructField_Matches x y of
             Panic m \<Rightarrow> Panic m
           | Ok b \<Rightarrow> if \<not> b then Ok False else StructFields_Matches sm sm2'))"

text \<open>\<^verbatim>\<open>Types.Matches\<close>: the length comparison, then the loop.\<close>

definition Types_Matches :: "Type list \<Rightarrow> Type list \<Rightarrow> bool res" where
  "Types_Matches t t2 = (if length t \<noteq> length t2 then Ok False else Types_Matches_loop t t2)"

text \<open>\<^verbatim>\<open>StructFields.Find\<close>.\<close>

fun StructFields_Find :: "StructField list \<Rightarrow> string \<Rightarrow> StructField option" where
  "StructFields_Find [] name = None"
| "StructFields_Find (cur # sm) name =
     (if StructField_Name cur = name then Some cur else StructFields_Find sm name)"

text \<open>\<^verbatim>\<open>KindEnumToTypeEnum\<close> panics on a kind outside its table (\<^verbatim>\<open>KIND_TYPEDEF\<close>).\<close>

fun KindEnumToTypeEnum :: "KindEnum \<Rightarrow> TypeEnum res" where
  "KindEnumToTypeEnum KIND_INT = Ok TYPE_INT"
| "KindEnumToTypeEnum KIND_BOOL = Ok TYPE_BOOL"
| "KindEnumToTypeEnum KIND_STRING = Ok TYPE_STRING"
| "KindEnumToTypeEnum KIND_STRUCT = Ok TYPE_STRUCT"
| "KindEnumToTypeEnum KIND_VOID = Ok TYPE_VOID"
| "KindEnumToTypeEnum KIND_CHAR = Ok TYPE_CHAR"
| "KindEnumToTypeEnum KIND_TYPEDEF = Panic ''unrecognized kind enum''"

text \<open>The level counters: \<^verbatim>\<open>DecPtr\<close> and \<^verbatim>\<open>DecArray\<close> panic below zero.\<close>

definition DecPtr :: "Type \<Rightarrow> Type res" where
  "DecPtr t = (if Type_PointerLevel t - 1 < 0 then Panic ''PointerLevel < 0''
               else Ok (Type (Type_Type t) (Type_PointerLevel t - 1) (Type_ArrayLevel t) (Type_Extra t)))"

definition IncPtr :: "Type \<Rightarrow> Type" where
  "IncPtr t = Type (Type_Type t) (Type_PointerLevel t + 1) (Type_ArrayLevel t) (Type_Extra t)"

definition IncArray :: "Type \<Rightarrow> Type" where
  "IncArray t = Type (Type_Type t) (Type_PointerLevel t) (Type_ArrayLevel t + 1) (Type_Extra t)"

definition DecArray :: "Type \<Rightarrow> Type res" where
  "DecArray t = (if Type_ArrayLevel t - 1 < 0 then Panic ''ArrayLevel < 0''
                 else Ok (Type (Type_Type t) (Type_PointerLevel t) (Type_ArrayLevel t - 1) (Type_Extra t)))"

section \<open>Package analyze\<close>

subsection \<open>Reserved words\<close>

definition IsValidPrimitive :: "string \<Rightarrow> bool" where
  "IsValidPrimitive name \<longleftrightarrow>
     name \<in> set [''int'', ''bool'', ''char'', ''void'', ''string'', ''struct'']"

definition reserveds :: "string list" where
  "reserveds = [''if'', ''while'', ''for'', ''return'', ''assert'', ''error'', ''typedef'',
     ''struct'', ''int'', ''bool'', ''void'', ''string'', ''char'', ''NULL'', ''true'',
     ''false'', ''alloc'', ''alloc_array'', ''break'', ''continue'']"

definition IsReserved :: "string \<Rightarrow> bool" where
  "IsReserved ident \<longleftrightarrow> ident \<in> set reserveds"

subsection \<open>Diagnostics\<close>

text \<open>The sentinel errors of the package. A diagnostic built with \<^verbatim>\<open>fmt.Errorf("%w: ...")\<close>
  is recorded by the sentinel it wraps; one built from a plain format string is an
  \<open>ErrMessage\<close> with that format string.\<close>

datatype analyze_error =
    errVarAlreadyDefined
  | ErrCondType | ErrTernaryMissingCond | ErrTernaryMissingValue | ErrTernaryCondBool
  | ErrCompareNonInteger | ErrCompareTypes | ErrCompareBadType | ErrVarNotDefined
  | ErrArithNonInteger | ErrArithTypes | ErrAssignTypeMismatch | ErrAssignNotLValue
  | ErrTypedefNotFound | ErrFuncallNotFound | ErrFuncallArgType | ErrFuncallArgsAmount
  | ErrFuncallWrongPtrType | ErrVarDeclShadowsFunction | ErrVarDeclShadowsTypedef
  | ErrAllocArrayBadExpr | ErrArraySubBadExpr | ErrArraySubNotArray | ErrArraySubNotInt
  | ErrStructDecNotField | ErrStructDecFieldNotFound | ErrStructNotAccessingStruct
  | ErrStructBadType | ErrStructSizeUnknown | ErrStructOnlyForward
  | ErrContinueOutsideLoop | ErrBreakOutsideLoop | ErrReturnExprMissing
  | ErrReturnMistyped | ErrReturnMissing | ErrFuncParamStruct | ErrVarDeclVoid
  | ErrCastVoid | ErrCastVoidPointer | ErrNegateNonBool
  | ErrTypedefAlreadyDefined | ErrStructAlreadyDefined | ErrFuncDifferentType
  | ErrFuncDeclInvalid | ErrTypeUnrecognizedTypedef | ErrTypeUnrecognizedStruct
  | ErrMessage string

subsection \<open>Scopes\<close>

text \<open>A scope: its parent (\<^verbatim>\<open>nil\<close> for the root), the node that opened it and its own
  bindings. A \<^verbatim>\<open>*scope\<close> that may be \<^verbatim>\<open>nil\<close> is a \<open>scope option\<close>. The analyzer only ever
  adds to the scope it is currently in, so a child holding the value of its parent reads
  the same bindings as the Go child holding a pointer to it.\<close>

datatype scope =
  Scope (parent: "scope option") (scope_node: Node) (vars: "string \<Rightarrow> Type option")

definition newScope :: "scope option \<Rightarrow> Node \<Rightarrow> scope" where
  "newScope p from = Scope p from Map.empty"

text \<open>\<^verbatim>\<open>scope.get\<close>: the loop \<^verbatim>\<open>for cur != nil\<close> up the parent chain.\<close>

fun scope_get :: "scope option \<Rightarrow> string \<Rightarrow> Type option" where
  "scope_get None name = None"
| "scope_get (Some (Scope p n vs)) name =
     (case vs name of Some knd \<Rightarrow> Some knd | None \<Rightarrow> scope_get p name)"

text \<open>\<^verbatim>\<open>scope.add\<close> returns the error (or \<^verbatim>\<open>nil\<close>) and leaves the scope updated. On a \<^verbatim>\<open>nil\<close>
  receiver the lookup finds nothing and the write to \<^verbatim>\<open>s.vars\<close> panics.\<close>

fun scope_add :: "scope option \<Rightarrow> string \<Rightarrow> Type \<Rightarrow> (analyze_error option \<times> scope option) res"
where
  "scope_add None name knd = Panic ''nil pointer dereference''"
| "scope_add (Some s) name knd =
     (if scope_get (Some s) name \<noteq> None then Ok (Some errVarAlreadyDefined, Some s)
      else Ok (None, Some (Scope (parent s) (scope_node s) ((vars s)(name \<mapsto> knd)))))"

subsection \<open>The analyzer's state\<close>

text \<open>A \<^verbatim>\<open>*types.Function\<close> is the key of the \<^verbatim>\<open>returns\<close> map, so function descriptors carry
  the address they were allocated at; \<open>nextfunc\<close> is the next free address.\<close>

record Results =
  Functions :: "string \<Rightarrow> (nat \<times> Function) option"
  Typedefs :: "string \<Rightarrow> Type option"
  TypedefFuncs :: "string \<Rightarrow> Function option"
  Structs :: "string \<Rightarrow> Struct option"
  StructFwds :: "string \<Rightarrow> string option"
  NodeTypes :: "NodeId \<Rightarrow> Type option"

datatype ternaryCheck = ternaryCheck (tc_n: Node) (tc_seen: int)

text \<open>\<^verbatim>\<open>ternaryvals\<close> is iterated by \<^verbatim>\<open>checkTernaries\<close>, so it is kept as an association list
  in insertion order (Go iterates a map in an unspecified order).\<close>

record Analyzer =
  fn :: string
  errs :: "(Node \<times> analyze_error) list"
  res :: Results
  scope :: "scope option"
  curfunc :: "(nat \<times> Function) option"
  loops :: "Node list"
  canassign :: "NodeId set"
  ternaryvals :: "(NodeId \<times> ternaryCheck) list"
  structaccess :: "NodeId \<Rightarrow> Struct option"
  returns :: "nat \<Rightarrow> int"
  nextfunc :: nat

definition analyze_New :: "string \<Rightarrow> Analyzer" where
  "analyze_New f = \<lparr> fn = f, errs = [],
     res = \<lparr> Functions = Map.empty, Typedefs = Map.empty, TypedefFuncs = Map.empty,
             Structs = Map.empty, StructFwds = Map.empty, NodeTypes = Map.empty \<rparr>,
     scope = Some (newScope None NilNode), curfunc = None, loops = [], canassign = {},
     ternaryvals = [], structaccess = Map.empty, returns = (\<lambda>_. 0), nextfunc = 0 \<rparr>"

definition errorf :: "Analyzer \<Rightarrow> Node \<Rightarrow> analyze_error \<Rightarrow> Analyzer" where
  "errorf s n e = s\<lparr> errs := errs s @ [(n, e)] \<rparr>"

definition setAssignable :: "Analyzer \<Rightarrow> Node \<Rightarrow> Analyzer res" where
  "setAssignable s n =
     (if Node_Id n \<in> canassign s then Panic ''node is assigning too hard''
      else Ok (s\<lparr> canassign := insert (Node_Id n) (canassign s) \<rparr>))"

definition isAssignable :: "Analyzer \<Rightarrow> Node \<Rightarrow> bool" where
  "isAssignable s n \<longleftrightarrow> Node_Id n \<in> canassign s"

definition setStructAccess :: "Analyzer \<Rightarrow> Node \<Rightarrow> Struct option \<Rightarrow> Analyzer" where
  "setStructAccess s n st =
     (case st of None \<Rightarrow> s
      | Some x \<Rightarrow> s\<lparr> structaccess := (structaccess s)(Node_Id n \<mapsto> x) \<rparr>)"

definition getStructAccess :: "Analyzer \<Rightarrow> Node \<Rightarrow> Struct option" where
  "getStructAccess s n = structaccess s (Node_Id n)"

definition setType :: "Analyzer \<Rightarrow> Node \<Rightarrow> Type \<Rightarrow> Analyzer res" where
  "setType s n k =
     (if NodeTypes (res s) (Node_Id n) \<noteq> None then Panic ''nodetype defined twice''
      else Ok (s\<lparr> res := (res s)\<lparr> NodeTypes := (NodeTypes (res s))(Node_Id n \<mapsto> k) \<rparr> \<rparr>))"

definition getType :: "Analyzer \<Rightarrow> Node \<Rightarrow> Type option" where
  "getType s n = NodeTypes (res s) (Node_Id n)"

definition getFunction :: "Analyzer \<Rightarrow> string \<Rightarrow> (nat \<times> Function) option" where
  "getFunction s name = Functions (res s) name"

definition getTypedef :: "Analyzer \<Rightarrow> string \<Rightarrow> Type option" where
  "getTypedef s name = Typedefs (res s) name"

definition getTypedefFunc :: "Analyzer \<Rightarrow> string \<Rightarrow> Function option" where
  "getTypedefFunc s name = TypedefFuncs (res s) name"

definition getStruct :: "Analyzer \<Rightarrow> string \<Rightarrow> Struct option" where
  "getStruct s name = Structs (res s) name"

definition getStructFwd :: "Analyzer \<Rightarrow> string \<Rightarrow> string option" where
  "getStructFwd s name = StructFwds (res s) name"

definition setStructFwd :: "Analyzer \<Rightarrow> string \<Rightarrow> Analyzer" where
  "setStructFwd s v = s\<lparr> res := (res s)\<lparr> StructFwds := (StructFwds (res s))(v \<mapsto> v) \<rparr> \<rparr>"

definition curFunction :: "Analyzer \<Rightarrow> (nat \<times> Function) option" where
  "curFunction s = curfunc s"

definition currentLoop :: "Analyzer \<Rightarrow> Node option" where
  "currentLoop s = (if length (loops s) = 0 then None else Some (last (loops s)))"

subsection \<open>From parsed kinds to types (typebuild.go)\<close>

text \<open>\<^verbatim>\<open>KindToType\<close> returns the type or the error, and the analyzer with the diagnostic it
  recorded.\<close>

definition KindToType :: "Analyzer \<Rightarrow> node_Kind \<Rightarrow> ((Type + analyze_error) \<times> Analyzer) res" where
  "KindToType s k =
     (case Kind_Kind k of
        KIND_TYPEDEF \<Rightarrow>
          if length (Kind_Name k) = 0 then Panic ''no name for typedef''
          else (case getTypedef s (Kind_Name k) of
                  Some td \<Rightarrow>
                    Ok (Inl (Type (Type_Type td) (Kind_PointerLevel k + Type_PointerLevel td)
                               (Kind_ArrayLevel k + Type_ArrayLevel td) (Type_Extra td)), s)
                | None \<Rightarrow>
                    (case getTypedefFunc s (Kind_Name k) of
                       Some tdf \<Rightarrow>
                         Ok (Inl (Type TYPE_FUNC (Kind_PointerLevel k) (Kind_ArrayLevel k)
                                    (ExtraFunction tdf)), s)
                     | None \<Rightarrow>
                         Ok (Inr ErrTypeUnrecognizedTypedef,
                             errorf s (KindNode k) ErrTypeUnrecognizedTypedef)))
      | KIND_STRUCT \<Rightarrow>
          if length (Kind_Name k) = 0 then Panic ''no name for struct''
          else (case getStruct s (Kind_Name k) of
                  Some st \<Rightarrow>
                    Ok (Inl (Type TYPE_STRUCT (Kind_PointerLevel k) (Kind_ArrayLevel k)
                               (ExtraStruct st)), s)
                | None \<Rightarrow>
                    (case getStructFwd s (Kind_Name k) of
                       Some stf \<Rightarrow>
                         Ok (Inl (Type TYPE_STRUCT_FWD (Kind_PointerLevel k) (Kind_ArrayLevel k)
                                    (ExtraStructForward stf)), s)
                     | None \<Rightarrow>
                         Ok (Inr ErrTypeUnrecognizedStruct,
                             errorf s (KindNode k) ErrTypeUnrecognizedStruct)))
      | _ \<Rightarrow>
          bindr (KindEnumToTypeEnum (Kind_Kind k))
            (\<lambda>t. Ok (Inl (Type t (Kind_PointerLevel k) (Kind_ArrayLevel k) NoExtra), s)))"

fun StructFieldsFromVarDecls ::
  "Analyzer \<Rightarrow> VarDecl list \<Rightarrow> StructField list
     \<Rightarrow> ((StructField list \<times> analyze_error option) \<times> Analyzer) res" where
  "StructFieldsFromVarDecls s [] ret = Ok ((ret, None), s)"
| "StructFieldsFromVarDecls s (vd # vds) ret =
     (case KindToType s (VarDecl_Kind vd) of
        Panic m \<Rightarrow> Panic m
      | Ok (Inr err, s') \<Rightarrow> Ok ((ret, Some err), s')
      | Ok (Inl t, s') \<Rightarrow>
          if Type_Type t = TYPE_STRUCT_FWD \<and> Type_PointerLevel t = 0
          then Ok ((ret, Some ErrStructSizeUnknown), s')
          else StructFieldsFromVarDecls s' vds (ret @ [StructField (VarDecl_Name vd) t]))"

fun TypesFromVarDecls ::
  "Analyzer \<Rightarrow> VarDecl list \<Rightarrow> Type list \<Rightarrow> ((Type list \<times> analyze_error option) \<times> Analyzer) res"
where
  "TypesFromVarDecls s [] ret = Ok ((ret, None), s)"
| "TypesFromVarDecls s (vd # vds) ret =
     (case KindToType s (VarDecl_Kind vd) of
        Panic m \<Rightarrow> Panic m
      | Ok (Inr err, s') \<Rightarrow> Ok ((ret, Some err), s')
      | Ok (Inl t, s') \<Rightarrow> TypesFromVarDecls s' vds (ret @ [t]))"

definition StructFromNode ::
  "Analyzer \<Rightarrow> string \<Rightarrow> VarDecl list \<Rightarrow> ((Struct + analyze_error) \<times> Analyzer) res" where
  "StructFromNode s name members =
     bindr (StructFieldsFromVarDecls s members [])
       (\<lambda>((sf, err), s'). case err of Some e \<Rightarrow> Ok (Inr e, s')
                          | None \<Rightarrow> Ok (Inl (Struct name sf), s'))"

definition TypedefFromNode ::
  "Analyzer \<Rightarrow> node_Kind \<Rightarrow> ((Type + analyze_error) \<times> Analyzer) res" where
  "TypedefFromNode s k = KindToType s k"

definition FunctionFromNodeTypedefFunc ::
  "Analyzer \<Rightarrow> node_Kind \<Rightarrow> VarDecl list \<Rightarrow> ((Function + analyze_error) \<times> Analyzer) res" where
  "FunctionFromNodeTypedefFunc s rets params =
     bindr (KindToType s rets)
       (\<lambda>(r, s'). case r of Inr e \<Rightarrow> Ok (Inr e, s')
          | Inl t \<Rightarrow>
              bindr (TypesFromVarDecls s' params [])
                (\<lambda>((ts, err), s''). case err of Some e \<Rightarrow> Ok (Inr e, s'')
                                    | None \<Rightarrow> Ok (Inl (Function t ts), s'')))"

definition FunctionFromNodeFunDecl ::
  "Analyzer \<Rightarrow> FunDecl \<Rightarrow> ((Function + analyze_error) \<times> Analyzer) res" where
  "FunctionFromNodeFunDecl s n =
     bindr (TypesFromVarDecls s (FunDecl_Params n) [])
       (\<lambda>((ts, err), s'). case err of Some e \<Rightarrow> Ok (Inr e, s')
          | None \<Rightarrow>
              bindr (KindToType s' (FunDecl_Returns n))
                (\<lambda>(r, s''). case r of Inr e \<Rightarrow> Ok (Inr e, s'')
                            | Inl t \<Rightarrow> Ok (Inl (Function t ts), s'')))"

subsection \<open>The tables of functions, typedefs and structs\<close>

definition setFunction :: "Analyzer \<Rightarrow> FunDecl \<Rightarrow> (analyze_error option \<times> Analyzer) res" where
  "setFunction s fd =
     bindr (FunctionFromNodeFunDecl s fd)
       (\<lambda>(r, s'). case r of Inr e \<Rightarrow> Ok (Some e, s')
          | Inl f \<Rightarrow>
              bindr (case Functions (res s') (FunDecl_Name fd) of
                       None \<Rightarrow> Ok True
                     | Some (a, ff) \<Rightarrow> Function_Matches ff f)
                (\<lambda>same. if \<not> same then Ok (Some ErrFuncDifferentType, s')
                   else Ok (None,
                     s'\<lparr> res := (res s')\<lparr> Functions :=
                            (Functions (res s'))(FunDecl_Name fd \<mapsto> (nextfunc s', f)) \<rparr>,
                         nextfunc := nextfunc s' + 1 \<rparr>)))"

definition addTypedef :: "Analyzer \<Rightarrow> string \<Rightarrow> node_Kind \<Rightarrow> (analyze_error option \<times> Analyzer) res"
where
  "addTypedef s name k =
     (if Typedefs (res s) name \<noteq> None then Ok (Some ErrTypedefAlreadyDefined, s)
      else bindr (TypedefFromNode s k)
             (\<lambda>(r, s'). case r of Inr e \<Rightarrow> Ok (Some e, s')
                | Inl td \<Rightarrow>
                    Ok (None, s'\<lparr> res := (res s')\<lparr> Typedefs := (Typedefs (res s'))(name \<mapsto> td) \<rparr> \<rparr>)))"

definition addTypedefFunc ::
  "Analyzer \<Rightarrow> string \<Rightarrow> node_Kind \<Rightarrow> VarDecl list \<Rightarrow> (analyze_error option \<times> Analyzer) res" where
  "addTypedefFunc s name rets params =
     (if TypedefFuncs (res s) name \<noteq> None then Ok (Some ErrTypedefAlreadyDefined, s)
      else bindr (FunctionFromNodeTypedefFunc s rets params)
             (\<lambda>(r, s'). case r of Inr e \<Rightarrow> Ok (Some e, s')
                | Inl f \<Rightarrow>
                    Ok (None, s'\<lparr> res := (res s')\<lparr> TypedefFuncs :=
                                   (TypedefFuncs (res s'))(name \<mapsto> f) \<rparr> \<rparr>)))"

definition addStruct ::
  "Analyzer \<Rightarrow> string \<Rightarrow> VarDecl list \<Rightarrow> (analyze_error option \<times> Analyzer) res" where
  "addStruct s name members =
     (if Structs (res s) name \<noteq> None then Ok (Some ErrStructAlreadyDefined, s)
      else bindr (StructFromNode s name members)
             (\<lambda>(r, s'). case r of Inr e \<Rightarrow> Ok (Some e, s')
                | Inl st \<Rightarrow>
                    Ok (None, s'\<lparr> res := (res s')\<lparr> Structs := (Structs (res s'))(name \<mapsto> st) \<rparr> \<rparr>)))"

subsection \<open>The checks (scope.go)\<close>

definition typeBool :: Type where "typeBool = NewType TYPE_BOOL 0 0"
definition typeInt :: Type where "typeInt = NewType TYPE_INT 0 0"
definition typeChar :: Type where "typeChar = NewType TYPE_CHAR 0 0"
definition typeVoid :: Type where "typeVoid = NewType TYPE_VOID 0 0"

text \<open>The checks take the node they check; each is written for the node type of its Go
  parameter, and any other node is a type error in Go (here a panic).\<close>

definition checkTernaryCond :: "Analyzer \<Rightarrow> Node \<Rightarrow> Analyzer res" where
  "checkTernaryCond s tc =
     (case tc of
        OpBinary i op l r \<Rightarrow>
          (case getType s l of
             None \<Rightarrow> Ok s
           | Some k \<Rightarrow>
               bindr (Type_Matches k typeBool)
                 (\<lambda>b. let s1 = (if \<not> b then errorf s tc ErrTernaryCondBool else s) in
                    (case r of
                       OpBinary tvi tvop tvl tvr \<Rightarrow>
                         if tvop \<noteq> OPBIN_TERNARYVALS
                         then Ok (errorf s1 tc ErrTernaryMissingValue)
                         else (case map_of (ternaryvals s1) tvi of
                                 None \<Rightarrow> Ok (errorf s1 r ErrTernaryMissingValue)
                               | Some c \<Rightarrow>
                                   Ok (s1\<lparr> ternaryvals :=
                                         assign (ternaryvals s1) tvi
                                           (ternaryCheck (tc_n c) (tc_seen c + 1)) \<rparr>))
                     | _ \<Rightarrow> Ok (errorf s1 tc ErrTernaryMissingValue))))
      | _ \<Rightarrow> Panic ''not an OpBinary'')"

definition MarkTernaryVal :: "Analyzer \<Rightarrow> Node \<Rightarrow> Analyzer" where
  "MarkTernaryVal s tv =
     s\<lparr> ternaryvals := assign (ternaryvals s) (Node_Id tv) (ternaryCheck tv 1) \<rparr>"

definition checkArraySub :: "Analyzer \<Rightarrow> Node \<Rightarrow> Analyzer res" where
  "checkArraySub s b =
     (case b of
        OpBinary i op l r \<Rightarrow>
          (case getType s l of
             None \<Rightarrow> Ok (errorf s b ErrArraySubBadExpr)
           | Some tyl \<Rightarrow>
               let s1 = (if Type_ArrayLevel tyl < 1 \<or> Type_PointerLevel tyl \<noteq> 0
                         then errorf s l ErrArraySubNotArray else s) in
               (case getType s1 r of
                  None \<Rightarrow> Ok (errorf s1 b ErrArraySubBadExpr)
                | Some tyr \<Rightarrow>
                    bindr (Type_Matches tyr typeInt)
                      (\<lambda>m. let s2 = (if \<not> m then errorf s1 r ErrArraySubNotInt else s1) in
                         if Type_ArrayLevel tyl = 0 then Ok (errorf s2 l ErrArraySubNotArray)
                         else bindr (DecArray tyl)
                                (\<lambda>nt. bindr (setType s2 b nt)
                                   (\<lambda>s3. bindr (setAssignable s3 b)
                                      (\<lambda>s4. Ok (setStructAccess s4 b (getStructAccess s4 l))))))))
      | _ \<Rightarrow> Panic ''not an OpBinary'')"

definition checkComp :: "Analyzer \<Rightarrow> Node \<Rightarrow> Analyzer res" where
  "checkComp s b =
     (case b of
        OpBinary i op l r \<Rightarrow>
          bindr (setType s b typeBool)
            (\<lambda>s1. case getType s1 l of None \<Rightarrow> Ok s1
               | Some kl \<Rightarrow>
                  (case getType s1 r of None \<Rightarrow> Ok s1
                   | Some kr \<Rightarrow>
                      bindr (Type_Matches kl kr)
                        (\<lambda>m. bindr (if \<not> m then Ok True
                                     else bindr (Type_Matches kl typeInt)
                                            (\<lambda>mi. if mi then Ok False
                                                   else bindr (Type_Matches kl typeChar)
                                                          (\<lambda>mc. Ok (\<not> mc))))
                           (\<lambda>bad. if bad then Ok (errorf s1 l ErrCompareNonInteger)
                                   else if \<not> m then Ok (errorf s1 b ErrCompareTypes)
                                   else Ok s1))))
      | _ \<Rightarrow> Panic ''not an OpBinary'')"

definition checkArith :: "Analyzer \<Rightarrow> Node \<Rightarrow> Analyzer res" where
  "checkArith s b =
     (case b of
        OpBinary i op l r \<Rightarrow>
          (case getType s l of None \<Rightarrow> Ok s
           | Some kl \<Rightarrow>
              (case getType s r of None \<Rightarrow> Ok s
               | Some kr \<Rightarrow>
                  bindr (Type_Matches kl kr)
                    (\<lambda>m. bindr (if \<not> m then Ok True
                                 else bindr (Type_Matches kr typeInt) (\<lambda>mi. Ok (\<not> mi)))
                       (\<lambda>bad. if bad then Ok (errorf s l ErrArithNonInteger)
                               else let s1 = (if \<not> m then errorf s b ErrArithTypes else s)
                                    in setType s1 b kl))))
      | _ \<Rightarrow> Panic ''not an OpBinary'')"

definition checkAtom :: "Analyzer \<Rightarrow> Node \<Rightarrow> TypeEnum \<Rightarrow> Analyzer res" where
  "checkAtom s n k = setType s n (NewType k 0 0)"

definition checkAssign :: "Analyzer \<Rightarrow> Node \<Rightarrow> Analyzer res" where
  "checkAssign s n =
     (case n of
        OpAssign i op to what \<Rightarrow>
          if \<not> isAssignable s to then Ok (errorf s to ErrAssignNotLValue)
          else if what = NilNode then Ok s
          else (case getType s to of None \<Rightarrow> Ok s
                | Some kt \<Rightarrow>
                   (case getType s what of None \<Rightarrow> Ok s
                    | Some kw \<Rightarrow>
                       bindr (Type_Matches kt kw)
                         (\<lambda>m. let s1 = (if \<not> m \<and> \<not> (Type_PointerLevel kt > 0
                                                      \<and> Type_Type kw = TYPE_NULL)
                                         then errorf s n ErrAssignTypeMismatch else s)
                               in setType s1 n kt)))
      | _ \<Rightarrow> Panic ''not an OpAssign'')"

text \<open>\<^verbatim>\<open>getStructFieldType\<close> returns the field's type, or \<^verbatim>\<open>nil\<close> with the diagnostic
  recorded.\<close>

definition getStructFieldType :: "Analyzer \<Rightarrow> Node \<Rightarrow> Struct option \<Rightarrow> Type option \<times> Analyzer"
where
  "getStructFieldType s n st =
     (case st of None \<Rightarrow> (None, s)
      | Some x \<Rightarrow>
         (case n of
            Variable i v \<Rightarrow>
              (case StructFields_Find (Fields x) v of
                 None \<Rightarrow> (None, errorf s n ErrStructDecFieldNotFound)
               | Some f \<Rightarrow> (Some (StructField_Type f), s))
          | _ \<Rightarrow> (None, s)))"

definition checkVariable :: "Analyzer \<Rightarrow> Node \<Rightarrow> Analyzer res" where
  "checkVariable s n =
     (case n of
        Variable i v \<Rightarrow>
          (case getFunction s v of
             Some (a, fd) \<Rightarrow> setType s n (NewTypeExtra TYPE_FUNC 0 0 (ExtraFunction fd))
           | None \<Rightarrow>
              (case scope_get (scope s) v of
                 None \<Rightarrow> Ok (errorf s n ErrVarNotDefined)
               | Some t \<Rightarrow>
                  bindr (setType s n t)
                    (\<lambda>s1. bindr (if Type_Type t = TYPE_STRUCT
                                  then (case Type_Extra t of
                                          ExtraStruct st \<Rightarrow> Ok (setStructAccess s1 n (Some st))
                                        | _ \<Rightarrow> Panic ''interface conversion'')
                                  else Ok s1)
                             (\<lambda>s2. setAssignable s2 n))))
      | _ \<Rightarrow> Panic ''not a Variable'')"

definition isNameShadowed :: "Analyzer \<Rightarrow> Node \<Rightarrow> string \<Rightarrow> bool \<times> Analyzer" where
  "isNameShadowed s n name =
     (if getFunction s name \<noteq> None then (True, errorf s n ErrVarDeclShadowsFunction)
      else if getTypedef s name \<noteq> None then (True, errorf s n ErrVarDeclShadowsTypedef)
      else if getTypedefFunc s name \<noteq> None then (True, errorf s n ErrVarDeclShadowsTypedef)
      else (False, s))"

definition checkVarDecl :: "Analyzer \<Rightarrow> VarDecl \<Rightarrow> Analyzer res" where
  "checkVarDecl s vd =
     (let n = VarDeclNode vd; (shadowed, s1) = isNameShadowed s n (VarDecl_Name vd) in
      if shadowed then Ok s1
      else bindr (KindToType s1 (VarDecl_Kind vd))
             (\<lambda>(r, s2). case r of Inr e \<Rightarrow> Ok s2
                | Inl t \<Rightarrow>
                   bindr (scope_add (scope s2) (VarDecl_Name vd) t)
                     (\<lambda>(err, sc). let s3 = s2\<lparr> scope := sc \<rparr> in
                        if err \<noteq> None
                        then Ok (errorf s3 n (ErrMessage ''variable %q has already been defined''))
                        else if Type_Type t = TYPE_VOID \<and> Type_PointerLevel t = 0
                        then Ok (errorf s3 n ErrVarDeclVoid)
                        else if Type_Type t = TYPE_STRUCT_FWD \<and> Type_PointerLevel t = 0
                        then Ok (errorf s3 n ErrStructOnlyForward)
                        else bindr (setType s3 n t) (\<lambda>s4. setAssignable s4 n))))"

text \<open>The loop of \<^verbatim>\<open>checkFunCall\<close> over the first \<^verbatim>\<open>min(ngot, nwant)\<close> arguments. An
  argument without a type is a \<^verbatim>\<open>nil\<close> pointer and \<^verbatim>\<open>Matches\<close> dereferences it.\<close>

fun checkFunCall_args :: "Analyzer \<Rightarrow> Node \<Rightarrow> Node list \<Rightarrow> Type list \<Rightarrow> Analyzer res" where
  "checkFunCall_args s n (g # got) (typewant # want) =
     (case getType s g of
        None \<Rightarrow> Panic ''nil pointer dereference''
      | Some typegot \<Rightarrow>
          (case Type_Matches typewant typegot of
             Panic m \<Rightarrow> Panic m
           | Ok b \<Rightarrow> checkFunCall_args (if \<not> b then errorf s n ErrFuncallArgType else s)
                       n got want))"
| "checkFunCall_args s n got want = Ok s"

definition checkFunCall :: "Analyzer \<Rightarrow> Node \<Rightarrow> Analyzer res" where
  "checkFunCall s n =
     (case n of
        OpBinary i op l r \<Rightarrow>
          (let finish = (\<lambda>s0 rets want.
                 case r of
                   Args ai got \<Rightarrow>
                     (let s1 = (if length got \<noteq> length want
                                then errorf s0 n ErrFuncallArgsAmount else s0) in
                      bindr (checkFunCall_args s1 n got want) (\<lambda>s2. setType s2 n rets))
                 | _ \<Rightarrow> Panic ''invalid function parameters'') in
           case l of
             Variable vi v \<Rightarrow>
               (case getFunction s v of
                  None \<Rightarrow> Ok (errorf s n ErrFuncallNotFound)
                | Some (a, fd) \<Rightarrow> finish s (Returns fd) (ParamTypes fd))
           | _ \<Rightarrow>
               (case getType s l of
                  None \<Rightarrow> Ok s
                | Some ct \<Rightarrow>
                    if Type_Type ct \<noteq> TYPE_FUNC then Ok (errorf s l ErrFuncallWrongPtrType)
                    else (case Type_Extra ct of
                            NoExtra \<Rightarrow> Panic ''no FuncPtr''
                          | ExtraFunction f \<Rightarrow> finish s (Returns f) (ParamTypes f)
                          | _ \<Rightarrow> Panic ''interface conversion'')))
      | _ \<Rightarrow> Panic ''not an OpBinary'')"

text \<open>The parameter loop of \<^verbatim>\<open>checkFunDecl\<close>; \<open>False\<close> when \<^verbatim>\<open>KindToType\<close> failed and
  \<^verbatim>\<open>checkFunDecl\<close> returns early.\<close>

fun checkFunDecl_params :: "Analyzer \<Rightarrow> VarDecl list \<Rightarrow> (bool \<times> Analyzer) res" where
  "checkFunDecl_params s [] = Ok (True, s)"
| "checkFunDecl_params s (param # params) =
     (case KindToType s (VarDecl_Kind param) of
        Panic m \<Rightarrow> Panic m
      | Ok (Inr e, s1) \<Rightarrow> Ok (False, s1)
      | Ok (Inl pt, s1) \<Rightarrow>
          checkFunDecl_params
            (if Type_ArrayLevel pt < 1
                \<and> (Type_Type pt = TYPE_STRUCT \<or> Type_Type pt = TYPE_STRUCT_FWD)
                \<and> Type_PointerLevel pt = 0
             then errorf s1 (VarDeclNode param) ErrFuncParamStruct else s1)
            params)"

definition checkFunDecl :: "Analyzer \<Rightarrow> FunDecl \<Rightarrow> Analyzer res" where
  "checkFunDecl s fd =
     (let n = FunDeclNode fd; (shadowed, s1) = isNameShadowed s n (FunDecl_Name fd) in
      if shadowed then Ok s1
      else bindr (checkFunDecl_params s1 (FunDecl_Params fd))
             (\<lambda>(go, s2). if \<not> go then Ok s2
                else bindr (setFunction s2 fd)
                       (\<lambda>(err, s3). case err of None \<Rightarrow> Ok s3
                                     | Some e \<Rightarrow> Ok (errorf s3 n e))))"

text \<open>\<^verbatim>\<open>checkCast\<close> compares the \<^verbatim>\<open>node.KindEnum\<close> of the target with the constant
  \<^verbatim>\<open>types.TYPE_VOID\<close>, whose value is 5; the kind with the value 5 is \<^verbatim>\<open>KIND_CHAR\<close>.\<close>

definition checkCast :: "Analyzer \<Rightarrow> Node \<Rightarrow> Analyzer res" where
  "checkCast s n =
     (case n of
        Cast i kc what \<Rightarrow>
          (let s1 = (if Kind_Kind kc = KIND_CHAR \<and> Kind_PointerLevel kc < 1
                     then errorf s n ErrCastVoid else s);
               s2 = (case getType s1 what of
                       None \<Rightarrow> s1
                     | Some kw \<Rightarrow>
                        (case what of
                           Null ni \<Rightarrow> errorf s1 n (ErrMessage ''NULL cannot be cast'')
                         | _ \<Rightarrow> if Type_PointerLevel kw < 1 \<and> Kind_PointerLevel kc > 0
                                then errorf s1 n ErrCastVoidPointer else s1))
           in bindr (KindToType s2 kc)
                (\<lambda>(r, s3). case r of Inr e \<Rightarrow> Ok s3 | Inl t \<Rightarrow> setType s3 n t))
      | _ \<Rightarrow> Panic ''not a Cast'')"

definition checkUnary :: "Analyzer \<Rightarrow> Node \<Rightarrow> Analyzer res" where
  "checkUnary s n =
     (case n of
        OpUnary i op to \<Rightarrow>
          (case getType s to of
             None \<Rightarrow> Ok s
           | Some kt \<Rightarrow>
              (case op of
                 OPUN_DEREF \<Rightarrow>
                   if Type_Type kt = TYPE_NULL
                   then Ok (errorf s n (ErrMessage ''derefencing NULL''))
                   else if Type_PointerLevel kt < 1
                   then Ok (errorf s n (ErrMessage ''dereferencing non-pointer %q''))
                   else bindr (DecPtr kt)
                          (\<lambda>nt. bindr (setType s n nt)
                             (\<lambda>s1. bindr (if isAssignable s1 to then setAssignable s1 n else Ok s1)
                                (\<lambda>s2. Ok (setStructAccess s2 n (getStructAccess s2 to)))))
               | OPUN_ADDROF \<Rightarrow>
                   setType (if Type_Type kt \<noteq> TYPE_FUNC
                            then errorf s n (ErrMessage ''cannot get address of non-function %s'')
                            else s)
                     n (IncPtr kt)
               | OPUN_LOGNOT \<Rightarrow>
                   bindr (Type_Matches kt typeBool)
                     (\<lambda>m. setType (if \<not> m then errorf s n ErrNegateNonBool else s) n kt)
               | _ \<Rightarrow>
                   bindr (Type_Matches kt typeInt)
                     (\<lambda>m. setType (if \<not> m then errorf s n (ErrMessage ''integer operation for %s %s'')
                                    else s) n kt)))
      | _ \<Rightarrow> Panic ''not an OpUnary'')"

definition checkEq :: "Analyzer \<Rightarrow> Node \<Rightarrow> Analyzer res" where
  "checkEq s n =
     (case n of
        OpBinary i op l r \<Rightarrow>
          bindr (setType s n typeBool)
            (\<lambda>s1. case getType s1 l of None \<Rightarrow> Ok s1
               | Some kl \<Rightarrow>
                  (case getType s1 r of None \<Rightarrow> Ok s1
                   | Some kr \<Rightarrow>
                      (let v = (\<lambda>k. bindr (Type_Matches k typeInt)
                                  (\<lambda>mi. if mi then Ok True
                                     else bindr (Type_Matches k typeBool)
                                       (\<lambda>mb. if mb then Ok True
                                          else bindr (Type_Matches k typeChar)
                                            (\<lambda>mc. Ok (mc \<or> Type_ArrayLevel k > 0))))) in
                       bindr (v kl)
                         (\<lambda>vl. bindr (if \<not> vl then Ok True
                                       else bindr (v kr) (\<lambda>vr. Ok (\<not> vr)))
                            (\<lambda>bad. let s2 = (if bad then errorf s1 n ErrCompareBadType else s1)
                               in bindr (Type_Matches kl kr)
                                    (\<lambda>m. Ok (if \<not> m then errorf s2 n ErrCompareTypes
                                              else s2)))))))
      | _ \<Rightarrow> Panic ''not an OpBinary'')"

definition checkCond :: "Analyzer \<Rightarrow> Node \<Rightarrow> Analyzer res" where
  "checkCond s cond =
     (if cond = NilNode then Ok s
      else case getType s cond of
             None \<Rightarrow> Panic ''no type for condition''
           | Some k \<Rightarrow>
               bindr (Type_Matches k typeBool)
                 (\<lambda>m. Ok (if \<not> m then errorf s cond ErrCondType else s)))"

definition checkAllocArray :: "Analyzer \<Rightarrow> Node \<Rightarrow> Analyzer res" where
  "checkAllocArray s n =
     (case n of
        AllocArray i k cnt \<Rightarrow>
          bindr (KindToType s k)
            (\<lambda>(r, s1). case r of Inr e \<Rightarrow> Ok s1
               | Inl at \<Rightarrow>
                  bindr (setType s1 n (IncArray at))
                    (\<lambda>s2. case getType s2 cnt of
                             None \<Rightarrow> Panic ''nil pointer dereference''
                           | Some nt \<Rightarrow>
                               bindr (Type_Matches nt typeInt)
                                 (\<lambda>m. Ok (if \<not> m then errorf s2 cnt ErrAllocArrayBadExpr
                                           else s2))))
      | _ \<Rightarrow> Panic ''not an AllocArray'')"

definition checkAlloc :: "Analyzer \<Rightarrow> Node \<Rightarrow> Analyzer res" where
  "checkAlloc s n =
     (case n of
        Alloc i k \<Rightarrow>
          bindr (KindToType s k)
            (\<lambda>(r, s1). case r of Inr e \<Rightarrow> Ok s1 | Inl at \<Rightarrow> setType s1 n (IncPtr at))
      | _ \<Rightarrow> Panic ''not an Alloc'')"

definition checkBreak :: "Analyzer \<Rightarrow> Node \<Rightarrow> Analyzer" where
  "checkBreak s n = (if currentLoop s = None then errorf s n ErrBreakOutsideLoop else s)"

definition checkContinue :: "Analyzer \<Rightarrow> Node \<Rightarrow> Analyzer" where
  "checkContinue s n = (if currentLoop s = None then errorf s n ErrContinueOutsideLoop else s)"

definition checkReturn :: "Analyzer \<Rightarrow> Node \<Rightarrow> Analyzer res" where
  "checkReturn s n =
     (case n of
        Return i expr \<Rightarrow>
          (case curFunction s of
             None \<Rightarrow> Ok s
           | Some (a, cf) \<Rightarrow>
              (let s1 = s\<lparr> returns := (returns s)(a := returns s a + 1) \<rparr> in
               if expr = NilNode
               then bindr (Type_Matches (Returns cf) typeVoid)
                      (\<lambda>m. Ok (if \<not> m then errorf s1 n ErrReturnExprMissing else s1))
               else (case getType s1 expr of
                       None \<Rightarrow> Ok s1
                     | Some rt \<Rightarrow>
                         bindr (Type_Matches (Returns cf) rt)
                           (\<lambda>m. Ok (if \<not> m then errorf s1 n ErrReturnMistyped else s1)))))
      | _ \<Rightarrow> Panic ''not a Return'')"

definition checkStructFieldAccess :: "Analyzer \<Rightarrow> Node \<Rightarrow> Analyzer res" where
  "checkStructFieldAccess s n =
     (case n of
        OpBinary i op l r \<Rightarrow>
          if op \<noteq> OPBIN_STRUCTPTRDEC \<and> op \<noteq> OPBIN_STRUCTDEC then Panic ''expecting struct op''
          else (let explvl = (if op = OPBIN_STRUCTPTRDEC then 1 else 0) in
                case getType s l of
                  None \<Rightarrow> Ok s
                | Some tyl \<Rightarrow>
                   (let s1 = (if Type_PointerLevel tyl \<noteq> explvl \<or> Type_ArrayLevel tyl \<noteq> 0
                              then errorf s n ErrStructBadType else s) in
                    case r of
                      Variable vi v \<Rightarrow>
                        (case getStructAccess s1 l of
                           None \<Rightarrow> Ok (errorf s1 n ErrStructNotAccessingStruct)
                         | Some st \<Rightarrow>
                            (case getStructFieldType s1 r (Some st) of
                               (None, s2) \<Rightarrow> Ok s2
                             | (Some ft, s2) \<Rightarrow>
                                 bindr (if Type_Type ft = TYPE_STRUCT
                                        then (case Type_Extra ft of
                                                ExtraStruct fstr \<Rightarrow>
                                                  Ok (setStructAccess s2 n (Some fstr))
                                              | _ \<Rightarrow> Panic ''interface conversion'')
                                        else Ok s2)
                                   (\<lambda>s3. bindr (setType s3 n ft) (\<lambda>s4. setAssignable s4 n))))
                    | _ \<Rightarrow> Ok (errorf s1 r ErrStructDecNotField)))
      | _ \<Rightarrow> Panic ''not an OpBinary'')"

definition checkBinary :: "Analyzer \<Rightarrow> Node \<Rightarrow> Analyzer res" where
  "checkBinary s n =
     (case n of
        OpBinary i op l r \<Rightarrow>
          if op = OPBIN_TERNARYCOND then checkTernaryCond s n
          else if op = OPBIN_TERNARYVALS then Ok (MarkTernaryVal s n)
          else if op = OPBIN_ARRSUB then checkArraySub s n
          else if op = OPBIN_EQ \<or> op = OPBIN_NE then checkEq s n
          else if op = OPBIN_FUNCALL then checkFunCall s n
          else if op = OPBIN_LE \<or> op = OPBIN_GE \<or> op = OPBIN_LT \<or> op = OPBIN_GT
          then checkComp s n
          else if op = OPBIN_STRUCTDEC \<or> op = OPBIN_STRUCTPTRDEC
          then Panic ''struct decomposition should be handled elsewhere''
          else checkArith s n
      | _ \<Rightarrow> Panic ''not an OpBinary'')"

text \<open>The parameter loops of \<^verbatim>\<open>check\<close> for \<^verbatim>\<open>FunDecl\<close> and \<^verbatim>\<open>FunDef\<close>: each parameter is a
  \<^verbatim>\<open>VarDecl\<close> and goes to \<^verbatim>\<open>checkVarDecl\<close>.\<close>

fun check_params :: "Analyzer \<Rightarrow> VarDecl list \<Rightarrow> Analyzer res" where
  "check_params s [] = Ok s"
| "check_params s (param # params) =
     (case checkVarDecl s param of Panic m \<Rightarrow> Panic m | Ok s1 \<Rightarrow> check_params s1 params)"

definition popScope :: "Analyzer \<Rightarrow> Analyzer res" where
  "popScope s = (case scope s of None \<Rightarrow> Panic ''nil pointer dereference''
                 | Some sc \<Rightarrow> Ok (s\<lparr> scope := parent sc \<rparr>))"

definition pushScope :: "Analyzer \<Rightarrow> Node \<Rightarrow> Analyzer" where
  "pushScope s n = s\<lparr> scope := Some (newScope (scope s) n) \<rparr>"

definition popLoop :: "Analyzer \<Rightarrow> Analyzer res" where
  "popLoop s = (if length (loops s) = 0 then Panic ''slice bounds out of range''
                else Ok (s\<lparr> loops := butlast (loops s) \<rparr>))"

text \<open>
  \<^verbatim>\<open>check\<close>: the depth-first traversal. \<^verbatim>\<open>withScope\<close>, \<^verbatim>\<open>withLoop\<close> and \<^verbatim>\<open>withFunction\<close> are
  written out at their call sites: push, run the body, pop. \<open>check_list\<close> is the loop
  \<^verbatim>\<open>for _, x := range t.Value { a(x) }\<close> of \<^verbatim>\<open>Block\<close> and \<^verbatim>\<open>Args\<close>. The call \<^verbatim>\<open>a(&t.Body)\<close> of a
  \<^verbatim>\<open>FunDef\<close> is the \<^verbatim>\<open>Block\<close> case applied to the embedded body.
\<close>

fun check :: "Node \<Rightarrow> Analyzer \<Rightarrow> Analyzer res"
and check_list :: "Node list \<Rightarrow> Analyzer \<Rightarrow> Analyzer res"
where
  "check NilNode s = Ok s"
| "check (KindNode k) s = Ok s"
| "check (DirectiveUse i ok how ns) s = Ok s"
| "check (Variable i v) s = checkVariable s (Variable i v)"
| "check (BoolNode i b) s = checkAtom s (BoolNode i b) TYPE_BOOL"
| "check (LibLit i v) s = Panic ''unexpected liblit''"
| "check (StrLit i v) s = checkAtom s (StrLit i v) TYPE_STRING"
| "check (ChrLit i v) s = checkAtom s (ChrLit i v) TYPE_CHAR"
| "check (Numeric i v b) s = checkAtom s (Numeric i v b) TYPE_INT"
| "check (Null i) s = checkAtom s (Null i) TYPE_NULL"
| "check (StructNode i name members) s =
     bindr (addStruct s name members)
       (\<lambda>(err, s1). case err of None \<Rightarrow> Ok s1
                     | Some e \<Rightarrow> Ok (errorf s1 (StructNode i name members) e))"
| "check (StructForwardDecl i v) s = Ok (setStructFwd s v)"
| "check (Typedef i name k) s =
     bindr (addTypedef s name k)
       (\<lambda>(err, s1). case err of None \<Rightarrow> Ok s1
                     | Some e \<Rightarrow> Ok (errorf s1 (Typedef i name k) e))"
| "check (TypedefFunc i name rets params) s =
     bindr (addTypedefFunc s name rets params)
       (\<lambda>(err, s1). case err of None \<Rightarrow> Ok s1
                     | Some e \<Rightarrow> Ok (errorf s1 (TypedefFunc i name rets params) e))"
| "check (OpUnary i op to) s =
     bindr (check to s) (\<lambda>s1. checkUnary s1 (OpUnary i op to))"
| "check (OpBinary i op l r) s =
     bindr (check l s)
       (\<lambda>s1. if op = OPBIN_STRUCTDEC \<or> op = OPBIN_STRUCTPTRDEC
              then checkStructFieldAccess s1 (OpBinary i op l r)
              else bindr (check r s1) (\<lambda>s2. checkBinary s2 (OpBinary i op l r)))"
| "check (OpAssign i op to what) s =
     bindr (check what s)
       (\<lambda>s1. bindr (check to s1) (\<lambda>s2. checkAssign s2 (OpAssign i op to what)))"
| "check (VarDeclNode vd) s = checkVarDecl s vd"
| "check (Args i vs) s = check_list vs s"
| "check (FunDeclNode fd) s =
     bindr (check_params (pushScope s (FunDeclNode fd)) (FunDecl_Params fd))
       (\<lambda>s1. bindr (checkFunDecl s1 fd) popScope)"
| "check (FunDef i fd bi body) s =
     bindr (check_params (pushScope s (FunDef i fd bi body)) (FunDecl_Params fd))
       (\<lambda>s1. bindr (checkFunDecl s1 fd)
          (\<lambda>s2. bindr
             (case getFunction s2 (FunDecl_Name fd) of
                None \<Rightarrow> Ok (errorf (s2\<lparr> curfunc := None \<rparr>) (FunDef i fd bi body)
                             ErrFuncDeclInvalid)
              | Some f \<Rightarrow>
                  bindr (bindr (check_list body
                                  (pushScope (s2\<lparr> curfunc := Some f \<rparr>) (Block bi body)))
                           popScope)
                    (\<lambda>s3. case curFunction s3 of
                       None \<Rightarrow> Panic ''nil pointer dereference''
                     | Some (a, cf) \<Rightarrow>
                         bindr (Type_Matches (Returns cf) typeVoid)
                           (\<lambda>m. Ok ((if \<not> m \<and> returns s3 a = 0
                                      then errorf s3 (FunDef i fd bi body) ErrReturnMissing
                                      else s3)\<lparr> curfunc := None \<rparr>))))
             popScope))"
| "check (Block i vs) s =
     bindr (check_list vs (pushScope s (Block i vs))) popScope"
| "check (IfNode i c t f) s =
     bindr (check c s)
       (\<lambda>s1. bindr (check t s1) (\<lambda>s2. bindr (check f s2) (\<lambda>s3. checkCond s3 c)))"
| "check (For i init c oneach body) s =
     bindr (check init (s\<lparr> loops := loops s @ [For i init c oneach body] \<rparr>))
       (\<lambda>s1. bindr (check c s1)
          (\<lambda>s2. bindr (check oneach s2)
             (\<lambda>s3. bindr (check body s3)
                (\<lambda>s4. bindr (checkCond s4 c) popLoop))))"
| "check (While i c body) s =
     bindr (check c (s\<lparr> loops := loops s @ [While i c body] \<rparr>))
       (\<lambda>s1. bindr (check body s1) (\<lambda>s2. bindr (checkCond s2 c) popLoop))"
| "check (Return i e) s = bindr (check e s) (\<lambda>s1. checkReturn s1 (Return i e))"
| "check (Assert i e) s = bindr (check e s) (\<lambda>s1. checkCond s1 e)"
| "check (ErrorNode i e) s = bindr (check e s) (\<lambda>s1. Panic ''implement error check'')"
| "check (Cast i k what) s = bindr (check what s) (\<lambda>s1. checkCast s1 (Cast i k what))"
| "check (AllocArray i k cnt) s =
     bindr (check cnt s) (\<lambda>s1. checkAllocArray s1 (AllocArray i k cnt))"
| "check (Alloc i k) s = checkAlloc s (Alloc i k)"
| "check (Break i) s = Ok (checkBreak s (Break i))"
| "check (Continue i) s = Ok (checkContinue s (Continue i))"
| "check_list [] s = Ok s"
| "check_list (x # xs) s = bindr (check x s) (\<lambda>s1. check_list xs s1)"

text \<open>\<^verbatim>\<open>checkTernaries\<close> reports every entry of \<^verbatim>\<open>ternaryvals\<close> whose count is not 2.\<close>

fun checkTernaries_loop :: "(NodeId \<times> ternaryCheck) list \<Rightarrow> Analyzer \<Rightarrow> Analyzer" where
  "checkTernaries_loop [] s = s"
| "checkTernaries_loop ((i, tc) # tcs) s =
     checkTernaries_loop tcs
       (if tc_seen tc \<noteq> 2 then errorf s (tc_n tc) ErrTernaryMissingCond else s)"

definition checkTernaries :: "Analyzer \<Rightarrow> Analyzer" where
  "checkTernaries s = checkTernaries_loop (ternaryvals s) s"

text \<open>\<^verbatim>\<open>Analyze\<close>: check every top-level node, and the ternaries after each; the errors.\<close>

fun Analyze_loop :: "Node list \<Rightarrow> Analyzer \<Rightarrow> Analyzer res" where
  "Analyze_loop [] s = Ok s"
| "Analyze_loop (n # ns) s =
     (case check n s of Panic m \<Rightarrow> Panic m | Ok s1 \<Rightarrow> Analyze_loop ns (checkTernaries s1))"

definition Analyze :: "Analyzer \<Rightarrow> Node list \<Rightarrow> ((Node \<times> analyze_error) list \<times> Analyzer) res" where
  "Analyze s nodes = bindr (Analyze_loop nodes s) (\<lambda>s1. Ok (errs s1, s1))"

section \<open>Package parse\<close>

subsection \<open>State, errors and node identifiers\<close>

text \<open>An error of the parser: one of the package's sentinels, an error of the token FIFO,
  or an error built from a format string (kept without its quote characters), holding the
  error it wraps with \<^verbatim>\<open>%w\<close> if any.\<close>

datatype parse_error =
    EOT | ErrAtomTypedef | ErrUse | ErrParse
  | TokenError token_error
  | Err string "parse_error option"

text \<open>The parser's state, together with the two process-wide variables of package \<^verbatim>\<open>node\<close>
  that \<^verbatim>\<open>node.Store\<close> writes: the identifier counter \<^verbatim>\<open>globalid\<close> and the table \<^verbatim>\<open>toktags\<close>
  from identifiers to tokens. \<open>parser_errs\<close> holds each recorded \<^verbatim>\<open>ParseError\<close> with its
  token.\<close>

record Parser =
  parser_fn :: string
  parser_nodes :: "Node list"
  parser_errs :: "(Token option \<times> parse_error) list"
  parser_typedefs :: "string set"
  globalid :: NodeId
  toktags :: "NodeId \<Rightarrow> Token option"

text \<open>A parser function returns the node or the error, the parser and the tokens left. It can
  panic, and the recursive ones are defined with fuel: \<open>OutOfFuel\<close> says the fuel given
  did not suffice, and nothing about the Go function.\<close>

datatype 'a fres = Done 'a | Panicked string | OutOfFuel

definition bindf :: "'a fres \<Rightarrow> ('a \<Rightarrow> 'b fres) \<Rightarrow> 'b fres" where
  "bindf r f = (case r of Done x \<Rightarrow> f x | Panicked m \<Rightarrow> Panicked m | OutOfFuel \<Rightarrow> OutOfFuel)"

lemma bindf_cong [fundef_cong]:
  "r = r' \<Longrightarrow> (\<And>x. r' = Done x \<Longrightarrow> f x = f' x) \<Longrightarrow> bindf r f = bindf r' f'"
  by (cases r') (simp_all add: bindf_def)

lemma bindf_simps [simp]:
  "bindf (Done x) f = f x" "bindf (Panicked m) f = Panicked m" "bindf OutOfFuel f = OutOfFuel"
  by (simp_all add: bindf_def)

type_synonym 'a presult = "(('a + parse_error) \<times> Parser \<times> Tokens) fres"

definition NewFile :: "string \<Rightarrow> NodeId \<Rightarrow> (NodeId \<Rightarrow> Token option) \<Rightarrow> Parser" where
  "NewFile f gid tags = \<lparr> parser_fn = f, parser_nodes = [], parser_errs = [],
     parser_typedefs = {}, globalid = gid, toktags = tags \<rparr>"

text \<open>\<^verbatim>\<open>New\<close> of package \<^verbatim>\<open>parse\<close>, in a process that has issued no node identifier yet.\<close>

definition parse_New :: Parser where
  "parse_New = NewFile ''<stdin>'' 0 Map.empty"

text \<open>\<^verbatim>\<open>p.errorf\<close> records the error and returns it.\<close>

definition parse_errorf ::
  "Parser \<Rightarrow> Token option \<Rightarrow> string \<Rightarrow> parse_error option \<Rightarrow> parse_error \<times> Parser" where
  "parse_errorf p tok fmt wrapped =
     (Err fmt wrapped, p\<lparr> parser_errs := parser_errs p @ [(tok, Err fmt wrapped)] \<rparr>)"

text \<open>\<^verbatim>\<open>node.Store\<close> increments \<^verbatim>\<open>globalid\<close>, gives the node that identifier and tags it with
  the token. Nodes are values here, so \<open>Store\<close> returns the identifier and the caller
  builds the node with it, at the point where the Go code calls \<^verbatim>\<open>node.Store\<close>.\<close>

definition Store :: "Parser \<Rightarrow> Token \<Rightarrow> NodeId \<times> Parser" where
  "Store p tok =
     (globalid p + 1, p\<lparr> globalid := globalid p + 1,
                          toktags := (toktags p)(globalid p + 1 \<mapsto> tok) \<rparr>)"

definition IsTypedef :: "Parser \<Rightarrow> string \<Rightarrow> bool" where
  "IsTypedef p name \<longleftrightarrow> name \<in> parser_typedefs p"

definition AddTypedef :: "Parser \<Rightarrow> Token \<Rightarrow> string \<Rightarrow> parse_error option \<times> Parser" where
  "AddTypedef p tok name =
     (if IsReserved name
      then (case parse_errorf p (Some tok) ''typedef name %q is reserved'' None of
              (e, p1) \<Rightarrow> (Some e, p1))
      else if name \<in> parser_typedefs p then (Some (Err ''typedef %q already defined'' None), p)
      else (None, p\<lparr> parser_typedefs := insert name (parser_typedefs p) \<rparr>))"

subsection \<open>Types and variable declarations\<close>

text \<open>\<^verbatim>\<open>node.NewKind\<close>, the validating constructor; the identifier is set by \<^verbatim>\<open>Store\<close>.\<close>

definition NewKind :: "NodeId \<Rightarrow> KindEnum \<Rightarrow> int \<Rightarrow> int \<Rightarrow> string \<Rightarrow> node_Kind fres" where
  "NewKind i k pointerlevel arraylevel name =
     (if pointerlevel < 0 then Panicked ''pointerlevel < 0''
      else if arraylevel < 0 then Panicked ''arraylevel < 0''
      else if (k = KIND_TYPEDEF \<or> k = KIND_STRUCT) \<and> length name = 0
      then Panicked ''typedef/struct without name''
      else if \<not> (k = KIND_TYPEDEF \<or> k = KIND_STRUCT) \<and> length name > 0
      then Panicked ''atomic type with a name''
      else Done (node_Kind i k pointerlevel arraylevel name))"

text \<open>The loops of \<^verbatim>\<open>Type\<close> that count a run of \<^verbatim>\<open>*\<close> or \<^verbatim>\<open>[]\<close> tokens.\<close>

function count_run :: "token_Kind \<Rightarrow> Tokens \<Rightarrow> int \<Rightarrow> int \<times> Tokens" where
  "count_run k toks level =
     (case Peek toks of
        (None, toks1) \<Rightarrow> (level, toks1)
      | (Some t, toks1) \<Rightarrow>
          if kind t \<noteq> k then (level, toks1)
          else count_run k (snd (Pop toks1)) (level + 1))"
  by pat_completeness auto
termination
proof (relation "measure (\<lambda>(k, toks, level). length toks)", goal_cases)
  case 1
  show ?case by simp
next
  case (2 k toks level x1 x2 t)
  then have P: "Peek toks = (Some t, x2)" by simp
  from Peek_Some_length [OF P] obtain tok rest where x2: "x2 = tok # rest"
    by (cases x2) auto
  from Peek_length [of toks] P have "length x2 \<le> length toks" by simp
  with x2 show ?case by simp
qed

declare count_run.simps [simp del]

definition Type_parse :: "Parser \<Rightarrow> Tokens \<Rightarrow> node_Kind presult" where
  "Type_parse p toks =
     (case Peek toks of
        (None, toks1) \<Rightarrow> Done (Inr EOT, p, toks1)
      | (Some atom, toks1) \<Rightarrow>
          if kind atom \<noteq> token_Id
          then Done (Inr (Err ''not a type declaration'' None), p, toks1)
          else if \<not> IsValidPrimitive (val atom) \<and> val atom \<notin> parser_typedefs p
          then (case parse_errorf p (Some atom) ''typedef %q not defined'' None of
                  (e, p1) \<Rightarrow> Done (Inr e, p1, toks1))
          else
            (let toks2 = snd (Pop toks1);
                 finish = (\<lambda>k name toks3.
                    case count_run token_Star toks3 0 of
                      (pointerlevel, toks4) \<Rightarrow>
                        (case count_run token_Brackets toks4 0 of
                           (arraylevel, toks5) \<Rightarrow>
                             (case Store p atom of
                                (i, p1) \<Rightarrow>
                                  bindf (NewKind i k pointerlevel arraylevel name)
                                    (\<lambda>knd. Done (Inl knd, p1, toks5)))))
             in if val atom = ''int'' then finish KIND_INT [] toks2
                else if val atom = ''bool'' then finish KIND_BOOL [] toks2
                else if val atom = ''string'' then finish KIND_STRING [] toks2
                else if val atom = ''char'' then finish KIND_CHAR [] toks2
                else if val atom = ''void'' then finish KIND_VOID [] toks2
                else if val atom = ''struct'' then
                  (case Pop toks2 of
                     (None, toks3) \<Rightarrow> Panicked ''nil pointer dereference''
                   | (Some sid, toks3) \<Rightarrow>
                       if kind sid \<noteq> token_Id
                       then (case parse_errorf p (Some sid) ''expected struct name, got %s'' None of
                               (e, p1) \<Rightarrow> Done (Inr e, p1, toks3))
                       else finish KIND_STRUCT (val sid) toks3)
                else finish KIND_TYPEDEF (val atom) toks2))"

definition VarDecl_parse :: "Parser \<Rightarrow> Tokens \<Rightarrow> VarDecl presult" where
  "VarDecl_parse p toks =
     (case Peek toks of
        (None, toks1) \<Rightarrow> Done (Inr EOT, p, toks1)
      | (Some first, toks1) \<Rightarrow>
          bindf (Type_parse p toks1)
            (\<lambda>(r, p1, toks2). case r of
                Inr e \<Rightarrow> Done (Inr e, p1, toks2)
              | Inl knd \<Rightarrow>
                  (case Peek toks2 of
                     (None, toks3) \<Rightarrow> Done (Inr EOT, p1, toks3)
                   | (Some next, toks3) \<Rightarrow>
                       if kind next \<noteq> token_Id
                       then (case parse_errorf p1 (Some first)
                                    ''not a var declaration, expecting identifier, got %v'' None of
                               (e, p2) \<Rightarrow> Done (Inr e, p2, toks3))
                       else if IsReserved (val next)
                       then (case parse_errorf p1 (Some next)
                                    ''reserved identifier %q for variable declaration'' None of
                               (e, p2) \<Rightarrow> Done (Inr e, p2, toks3))
                       else (case Store p1 first of
                               (i, p2) \<Rightarrow>
                                 Done (Inl (VarDecl i knd (val next)), p2, snd (Pop toks3))))))"

subsection \<open>Expressions\<close>

text \<open>
  \<^verbatim>\<open>strconv.ParseInt(s, base, bitSize)\<close> of the Go standard library, for a base between 2 and
  36, as its documentation gives it: an optional sign, then at least one digit of the base
  (letters of either case stand for the digits from 10 on); a syntax error otherwise, and
  a range error when the value does not fit a signed integer of \<open>bitSize\<close> bits. Either
  error is \<open>None\<close>.
\<close>

definition digit_val :: "char \<Rightarrow> int option" where
  "digit_val c =
     (let n = (of_char c :: int) in
      if 48 \<le> n \<and> n \<le> 57 then Some (n - 48)
      else if 97 \<le> n \<and> n \<le> 122 then Some (n - 97 + 10)
      else if 65 \<le> n \<and> n \<le> 90 then Some (n - 65 + 10)
      else None)"

fun parse_digits :: "int \<Rightarrow> string \<Rightarrow> int \<Rightarrow> int option" where
  "parse_digits base [] acc = Some acc"
| "parse_digits base (c # cs) acc =
     (case digit_val c of
        None \<Rightarrow> None
      | Some d \<Rightarrow> if d \<ge> base then None else parse_digits base cs (acc * base + d))"

definition ParseInt :: "string \<Rightarrow> int \<Rightarrow> nat \<Rightarrow> int option" where
  "ParseInt s base bitSize =
     (if s = [] then None
      else let neg = (hd s = CHR ''-'');
               ds = (if hd s = CHR ''+'' \<or> hd s = CHR ''-'' then tl s else s) in
           if ds = [] then None
           else case parse_digits base ds 0 of
                  None \<Rightarrow> None
                | Some un \<Rightarrow>
                    if \<not> neg \<and> un \<ge> 2 ^ (bitSize - 1) then None
                    else if neg \<and> un > 2 ^ (bitSize - 1) then None
                    else Some (if neg then - un else un))"

text \<open>The operator tables and precedences of \<^verbatim>\<open>expr.go\<close>.\<close>

fun tok_to_unop :: "token_Kind \<Rightarrow> KindOpUn option" where
  "tok_to_unop token_Minus = Some OPUN_NEG"
| "tok_to_unop token_Exclam = Some OPUN_LOGNOT"
| "tok_to_unop token_Worm = Some OPUN_BITNOT"
| "tok_to_unop token_Star = Some OPUN_DEREF"
| "tok_to_unop token_DPlus = Some OPUN_ADDONE"
| "tok_to_unop token_DMinus = Some OPUN_SUBONE"
| "tok_to_unop token_Ampersand = Some OPUN_ADDROF"
| "tok_to_unop _ = None"

fun tok_to_binop :: "token_Kind \<Rightarrow> KindOpBin option" where
  "tok_to_binop token_Plus = Some OPBIN_ADD"
| "tok_to_binop token_Minus = Some OPBIN_SUB"
| "tok_to_binop token_Star = Some OPBIN_MUL"
| "tok_to_binop token_Slash = Some OPBIN_DIV"
| "tok_to_binop token_Percent = Some OPBIN_MOD"
| "tok_to_binop token_LBrack = Some OPBIN_ARRSUB"
| "tok_to_binop token_LParen = Some OPBIN_FUNCALL"
| "tok_to_binop token_Dot = Some OPBIN_STRUCTDEC"
| "tok_to_binop token_Arrow = Some OPBIN_STRUCTPTRDEC"
| "tok_to_binop token_Quest = Some OPBIN_TERNARYCOND"
| "tok_to_binop token_Colon = Some OPBIN_TERNARYVALS"
| "tok_to_binop token_DGt = Some OPBIN_SHIFTR"
| "tok_to_binop token_DLt = Some OPBIN_SHIFTL"
| "tok_to_binop token_Le = Some OPBIN_LE"
| "tok_to_binop token_Ge = Some OPBIN_GE"
| "tok_to_binop token_Lt = Some OPBIN_LT"
| "tok_to_binop token_Gt = Some OPBIN_GT"
| "tok_to_binop token_Eq = Some OPBIN_EQ"
| "tok_to_binop token_Ne = Some OPBIN_NE"
| "tok_to_binop token_Ampersand = Some OPBIN_BAND"
| "tok_to_binop token_Pipe = Some OPBIN_BOR"
| "tok_to_binop token_Hat = Some OPBIN_BXOR"
| "tok_to_binop token_DAmpersand = Some OPBIN_AND"
| "tok_to_binop token_DPipe = Some OPBIN_OR"
| "tok_to_binop _ = None"

definition precedenceb :: "token_Kind \<Rightarrow> int fres" where
  "precedenceb k =
     (if k = token_Quest \<or> k = token_Colon then Done 0
      else if k = token_DPipe then Done 1
      else if k = token_DAmpersand then Done 2
      else if k = token_Pipe then Done 3
      else if k = token_Hat then Done 4
      else if k = token_Ampersand then Done 5
      else if k = token_Eq \<or> k = token_Ne then Done 6
      else if k = token_Lt \<or> k = token_Gt \<or> k = token_Le \<or> k = token_Ge then Done 7
      else if k = token_DLt \<or> k = token_DGt then Done 8
      else if k = token_Plus \<or> k = token_Minus then Done 9
      else if k = token_Star \<or> k = token_Slash \<or> k = token_Percent then Done 10
      else if k = token_Arrow \<or> k = token_Dot then Done 11
      else Panicked ''invalid binary operator'')"

definition precedenceu :: "token_Kind \<Rightarrow> int fres" where
  "precedenceu k =
     (if k = token_Star \<or> k = token_Exclam \<or> k = token_Worm \<or> k = token_Minus
         \<or> k = token_DPlus \<or> k = token_DMinus \<or> k = token_Ampersand then Done 10
      else Panicked ''invalid unary operator'')"

definition isleftassocb :: "token_Kind \<Rightarrow> bool" where
  "isleftassocb k \<longleftrightarrow>
     k \<notin> set [token_Quest, token_Colon, token_Assign, token_AssignPlus, token_AssignMinus,
                token_AssignStar, token_AssignSlash, token_AssignPercent,
                token_AssignAmpersand, token_AssignHat, token_AssignPipe, token_AssignDLt,
                token_AssignDGt]"

text \<open>The branch of \<^verbatim>\<open>expratom\<close> for \<^verbatim>\<open>DecNum\<close> and \<^verbatim>\<open>HexNum\<close> tokens: \<open>this\<close> is the token
  and \<open>toks\<close> the stream \<^verbatim>\<open>Peek\<close> left, with the token at its head.\<close>

definition expratom_num :: "Parser \<Rightarrow> Token \<Rightarrow> Tokens \<Rightarrow> Node presult" where
  "expratom_num p this toks =
     (let toks1 = snd (Pop toks);
          base = (if kind this = token_HexNum then 16 else 10);
          v = (if kind this = token_HexNum \<and> val this \<noteq> ''0'' then drop 2 (val this)
               else val this) in
      if kind this = token_HexNum \<and> val this \<noteq> ''0'' \<and> length (val this) < 2
      then Panicked ''slice bounds out of range''
      else case ParseInt v base 32 of
             None \<Rightarrow>
               (case parse_errorf p (Some this) ''invalid integer: %w''
                       (Some (Err ''strconv.ParseInt'' None)) of
                  (e, p1) \<Rightarrow> Done (Inr e, p1, toks1))
           | Some n \<Rightarrow>
               (case Store p this of
                  (i, p1) \<Rightarrow> Done (Inl (Numeric i (word_of_int n) base), p1, toks1)))"

text \<open>
  \<^verbatim>\<open>expratom\<close> and \<^verbatim>\<open>exprparse\<close>. \<open>exprparse_loop\<close> is the \<^verbatim>\<open>for\<close> loop of \<^verbatim>\<open>exprparse\<close> with the
  left-hand side so far, \<open>funcall_args\<close> the argument loop of a call. The body of each
  function is written first, with the functions it calls recursively as parameters
  (\<open>exprparse'\<close>, \<open>expratom'\<close>, \<open>loop'\<close>, \<open>args'\<close>); the recursion is then tied with fuel: each
  call and each loop iteration takes one unit.
\<close>

type_synonym exprparse_fn = "Parser \<Rightarrow> Tokens \<Rightarrow> int \<Rightarrow> Node presult"
type_synonym expratom_fn = "Parser \<Rightarrow> Tokens \<Rightarrow> Node presult"
type_synonym loop_fn = "Parser \<Rightarrow> Tokens \<Rightarrow> int \<Rightarrow> Node \<Rightarrow> Node presult"
type_synonym args_fn =
  "Parser \<Rightarrow> Tokens \<Rightarrow> Token \<Rightarrow> Node list \<Rightarrow> ((Node list + parse_error) \<times> Parser \<times> Tokens) fres"

definition expratom_body :: "exprparse_fn \<Rightarrow> expratom_fn \<Rightarrow> Parser \<Rightarrow> Tokens \<Rightarrow> Node presult"
where
  "expratom_body exprparse' expratom' p toks0 =
     (case Peek toks0 of
        (None, toks) \<Rightarrow> Done (Inr EOT, p, toks)
      | (Some this, toks) \<Rightarrow>
         (case tok_to_unop (kind this) of
            Some unop \<Rightarrow>
              bindf (precedenceu (kind this))
                (\<lambda>prec. bindf (exprparse' p (snd (Pop toks)) (prec + 1))
                   (\<lambda>(r, p1, toks1). case r of
                       Inr e \<Rightarrow> Done (Inr e, p1, toks1)
                     | Inl x \<Rightarrow> (case Store p1 this of
                                   (i, p2) \<Rightarrow> Done (Inl (OpUnary i unop x), p2, toks1))))
          | None \<Rightarrow>
             if kind this = token_LParen then
               bindf (Type_parse p (snd (Pop toks)))
                 (\<lambda>(r, p1, toks1). case r of
                     Inl castkind \<Rightarrow>
                       (case Accept toks1 token_RParen of
                          (Some err, toks2) \<Rightarrow>
                            (case parse_errorf p1 (Some this) ''invalid cast: %w''
                                    (Some (TokenError err)) of
                               (e, p2) \<Rightarrow> Done (Inr e, p2, toks2))
                        | (None, toks2) \<Rightarrow>
                            bindf (expratom' p1 toks2)
                              (\<lambda>(r2, p2, toks3). case r2 of
                                  Inr e \<Rightarrow> Done (Inr e, p2, toks3)
                                | Inl castwhat \<Rightarrow>
                                    (case Store p2 this of
                                       (i, p3) \<Rightarrow>
                                         Done (Inl (Cast i castkind castwhat), p3, toks3))))
                   | Inr terr \<Rightarrow>
                       bindf (exprparse' p1 toks1 0)
                         (\<lambda>(r2, p2, toks2). case r2 of
                             Inr e \<Rightarrow> Done (Inr e, p2, toks2)
                           | Inl parexpr \<Rightarrow>
                               (case Accept toks2 token_RParen of
                                  (Some err, toks3) \<Rightarrow>
                                    (case parse_errorf p2 (Some this)
                                            ''unbalanced parentheses: %w''
                                            (Some (TokenError err)) of
                                       (e, p3) \<Rightarrow> Done (Inr e, p3, toks3))
                                | (None, toks3) \<Rightarrow> Done (Inl parexpr, p2, toks3))))
             else if kind this = token_DecNum \<or> kind this = token_HexNum then
               expratom_num p this toks
             else if kind this = token_Id then
               (let iv = val this in
                if IsTypedef p iv then Done (Inr ErrAtomTypedef, p, toks)
                else if iv = ''void''
                then Done (Inr (Err ''void not permitted in expressions'' None), p, toks)
                else if iv = ''alloc'' \<or> iv = ''alloc_array'' then
                  (case Accept (snd (Pop toks)) token_LParen of
                     (Some err, toks1) \<Rightarrow>
                       (case parse_errorf p (Some this) ''%s missing ('' None of
                          (e, p1) \<Rightarrow> Done (Inr e, p1, toks1))
                   | (None, toks1) \<Rightarrow>
                       bindf (Type_parse p toks1)
                         (\<lambda>(r, p1, toks2). case r of
                             Inr terr \<Rightarrow>
                               (case parse_errorf p1 (Some this) ''invalid type for %s: %w''
                                       (Some terr) of
                                  (e, p2) \<Rightarrow> Done (Inr e, p2, toks2))
                           | Inl ak \<Rightarrow>
                               bindf
                                 (if iv = ''alloc_array'' then
                                    (case Accept toks2 token_Comma of
                                       (Some err, toks3) \<Rightarrow>
                                         (case parse_errorf p1 (Some this)
                                                 ''alloc_array missing size expression: %w''
                                                 (Some (TokenError err)) of
                                            (e, p2) \<Rightarrow> Done (Inr e, p2, toks3))
                                     | (None, toks3) \<Rightarrow>
                                         bindf (exprparse' p1 toks3 0)
                                           (\<lambda>(r2, p2, toks4). case r2 of
                                               Inr err \<Rightarrow>
                                                 (case parse_errorf p2 (Some this)
                                                    ''invalid size expression for alloc_array: %w''
                                                    (Some err) of
                                                    (e, p3) \<Rightarrow> Done (Inr e, p3, toks4))
                                             | Inl cnt \<Rightarrow>
                                                 (case Store p2 this of
                                                    (i, p3) \<Rightarrow>
                                                      Done (Inl (AllocArray i ak cnt), p3, toks4))))
                                  else (case Store p1 this of
                                          (i, p2) \<Rightarrow> Done (Inl (Alloc i ak), p2, toks2)))
                                 (\<lambda>(r3, p4, toks5). case r3 of
                                     Inr e \<Rightarrow> Done (Inr e, p4, toks5)
                                   | Inl ret \<Rightarrow>
                                       (case Accept toks5 token_RParen of
                                          (Some err, toks6) \<Rightarrow>
                                            (case parse_errorf p4 (Some this) ''%s missing )''
                                                    None of
                                               (e, p5) \<Rightarrow> Done (Inr e, p5, toks6))
                                        | (None, toks6) \<Rightarrow> Done (Inl ret, p4, toks6)))))
                else if IsReserved iv
                then Done (Inr (Err ''reserved identifier %q in expression'' None), p, toks)
                else (case Store p this of
                        (i, p1) \<Rightarrow> Done (Inl (Variable i iv), p1, snd (Pop toks))))
             else if kind this = token_True \<or> kind this = token_False then
               (case Store p this of
                  (i, p1) \<Rightarrow>
                    Done (Inl (BoolNode i (kind this = token_True)), p1, snd (Pop toks)))
             else if kind this = token_Null then
               (case Store p this of (i, p1) \<Rightarrow> Done (Inl (Null i), p1, snd (Pop toks)))
             else if kind this = token_StrLit then
               (case Store p this of
                  (i, p1) \<Rightarrow> Done (Inl (StrLit i (val this)), p1, snd (Pop toks)))
             else if kind this = token_ChrLit then
               (if val this = [] then Panicked ''index out of range''
                else case Store p this of
                       (i, p1) \<Rightarrow> Done (Inl (ChrLit i (hd (val this))), p1, snd (Pop toks)))
             else (case parse_errorf p (Some this) ''invalid expression atom: %q'' None of
                     (e, p1) \<Rightarrow> Done (Inr e, p1, toks))))"

definition exprparse_loop_body ::
  "exprparse_fn \<Rightarrow> loop_fn \<Rightarrow> args_fn \<Rightarrow> Parser \<Rightarrow> Tokens \<Rightarrow> int \<Rightarrow> Node \<Rightarrow> Node presult"
where
  "exprparse_loop_body exprparse' loop' args' p toks0 minprec lhs =
     (case Peek toks0 of
        (None, toks) \<Rightarrow> Done (Inl lhs, p, toks)
      | (Some op, toks) \<Rightarrow>
         (case tok_to_binop (kind op) of
            None \<Rightarrow> Done (Inl lhs, p, toks)
          | Some binop \<Rightarrow>
             if kind op = token_LBrack then
               bindf (exprparse' p (snd (Pop toks)) 0)
                 (\<lambda>(r, p1, toks1). case r of
                     Inr err \<Rightarrow>
                       (case parse_errorf p1 (Some op) ''invalid function argument: %w''
                               (Some err) of
                          (e, p2) \<Rightarrow> Done (Inr e, p2, toks1))
                   | Inl index \<Rightarrow>
                       (case Accept toks1 token_RBrack of
                          (Some err, toks2) \<Rightarrow>
                            (case parse_errorf p1 (Some op) ''unbalanced array subscript: %w''
                                    (Some (TokenError err)) of
                               (e, p2) \<Rightarrow> Done (Inr e, p2, toks2))
                        | (None, toks2) \<Rightarrow>
                            (case Store p1 op of
                               (i, p2) \<Rightarrow>
                                 loop' p2 toks2 minprec (OpBinary i binop lhs index))))
             else if kind op = token_LParen then
               bindf (case Accept (snd (Pop toks)) token_RParen of
                        (None, toks1) \<Rightarrow> Done (Inl [], p, toks1)
                      | (Some err, toks1) \<Rightarrow> args' p toks1 op [])
                 (\<lambda>(r, p1, toks2). case r of
                     Inr e \<Rightarrow> Done (Inr e, p1, toks2)
                   | Inl args \<Rightarrow>
                       (case Store p1 op of
                          (i, p2) \<Rightarrow>
                            loop' p2 toks2 minprec
                              (OpBinary i binop lhs (Args 0 args))))
             else
               bindf (precedenceb (kind op))
                 (\<lambda>prec. if prec < minprec then Done (Inl lhs, p, toks)
                    else bindf (exprparse' p (snd (Pop toks))
                                  (if isleftassocb (kind op) then prec + 1 else prec))
                           (\<lambda>(r, p1, toks1). case r of
                               Inr e \<Rightarrow> Done (Inr e, p1, toks1)
                             | Inl rhs \<Rightarrow>
                                 (case Store p1 op of
                                    (i, p2) \<Rightarrow>
                                      loop' p2 toks1 minprec
                                        (OpBinary i binop lhs rhs))))))"

definition funcall_args_body ::
  "exprparse_fn \<Rightarrow> args_fn \<Rightarrow> Parser \<Rightarrow> Tokens \<Rightarrow> Token \<Rightarrow> Node list
     \<Rightarrow> ((Node list + parse_error) \<times> Parser \<times> Tokens) fres"
where
  "funcall_args_body exprparse' args' p toks0 op args =
     (case Peek toks0 of
        (None, toks) \<Rightarrow> Done (Inl args, p, toks)
      | (Some t, toks) \<Rightarrow>
          bindf (exprparse' p toks 0)
            (\<lambda>(r, p1, toks1). case r of
                Inr err \<Rightarrow>
                  (case parse_errorf p1 (Some op) ''invalid function argument: %w'' (Some err) of
                     (e, p2) \<Rightarrow> Done (Inr e, p2, toks1))
              | Inl arg \<Rightarrow>
                  (case Accept toks1 token_Comma of
                     (None, toks2) \<Rightarrow> args' p1 toks2 op (args @ [arg])
                   | (Some cerr, toks2) \<Rightarrow>
                       (case Accept toks2 token_RParen of
                          (None, toks3) \<Rightarrow> Done (Inl (args @ [arg]), p1, toks3)
                        | (Some err, toks3) \<Rightarrow>
                            (case parse_errorf p1 (Some op)
                                    ''unbalanced parentheses in function call: %w''
                                    (Some (TokenError err)) of
                               (e, p2) \<Rightarrow> Done (Inr e, p2, toks3))))))"

fun expratom :: "nat \<Rightarrow> expratom_fn"
and exprparse :: "nat \<Rightarrow> exprparse_fn"
and exprparse_loop :: "nat \<Rightarrow> loop_fn"
and funcall_args :: "nat \<Rightarrow> args_fn"
where
  "expratom 0 p toks = OutOfFuel"
| "expratom (Suc n) p toks = expratom_body (exprparse n) (expratom n) p toks"
| "exprparse 0 p toks minprec = OutOfFuel"
| "exprparse (Suc n) p toks minprec =
     bindf (expratom n p toks)
       (\<lambda>(r, p1, toks1). case r of
           Inr e \<Rightarrow> Done (Inr e, p1, toks1)
         | Inl lhs \<Rightarrow> exprparse_loop n p1 (snd (Peek toks1)) minprec lhs)"
| "exprparse_loop 0 p toks minprec lhs = OutOfFuel"
| "exprparse_loop (Suc n) p toks minprec lhs =
     exprparse_loop_body (exprparse n) (exprparse_loop n) (funcall_args n) p toks minprec lhs"
| "funcall_args 0 p toks op args = OutOfFuel"
| "funcall_args (Suc n) p toks op args =
     funcall_args_body (exprparse n) (funcall_args n) p toks op args"

definition Expr :: "nat \<Rightarrow> Parser \<Rightarrow> Tokens \<Rightarrow> Node presult" where
  "Expr n p toks = exprparse n p toks 0"

subsection \<open>Statements\<close>

fun tok_to_asnop :: "token_Kind \<Rightarrow> KindOpAsn option" where
  "tok_to_asnop token_Assign = Some OPASN_PLAIN"
| "tok_to_asnop token_AssignPlus = Some OPASN_ADD"
| "tok_to_asnop token_AssignMinus = Some OPASN_SUB"
| "tok_to_asnop token_AssignStar = Some OPASN_MUL"
| "tok_to_asnop token_AssignSlash = Some OPASN_DIV"
| "tok_to_asnop token_AssignPercent = Some OPASN_MOD"
| "tok_to_asnop token_AssignDLt = Some OPASN_LSHIFT"
| "tok_to_asnop token_AssignDGt = Some OPASN_RSHIFT"
| "tok_to_asnop token_AssignAmpersand = Some OPASN_AND"
| "tok_to_asnop token_AssignHat = Some OPASN_XOR"
| "tok_to_asnop token_AssignPipe = Some OPASN_OR"
| "tok_to_asnop _ = None"

fun tok_to_stmtsuffix :: "token_Kind \<Rightarrow> KindOpUn option" where
  "tok_to_stmtsuffix token_DPlus = Some OPUN_ADDONESUFFIX"
| "tok_to_stmtsuffix token_DMinus = Some OPUN_SUBONESUFFIX"
| "tok_to_stmtsuffix _ = None"

text \<open>\<^verbatim>\<open>SimpleStmt\<close>; \<open>n\<close> is the fuel of the expressions it parses.\<close>

definition SimpleStmt :: "nat \<Rightarrow> Parser \<Rightarrow> Tokens \<Rightarrow> Node presult" where
  "SimpleStmt n p toks0 =
     (case Peek toks0 of
        (None, toks) \<Rightarrow> Done (Inr EOT, p, toks)
      | (Some first, toks) \<Rightarrow>
          bindf (Expr n p toks)
            (\<lambda>(r, p1, toks1). case r of
                Inl lv \<Rightarrow>
                  (case Peek toks1 of
                     (None, toks2) \<Rightarrow> Done (Inl lv, p1, toks2)
                   | (Some next, toks2) \<Rightarrow>
                      (case tok_to_asnop (kind next) of
                         Some ak \<Rightarrow>
                           bindf (Expr n p1 (snd (Pop toks2)))
                             (\<lambda>(r2, p2, toks3). case r2 of
                                 Inr err \<Rightarrow>
                                   (case parse_errorf p2 (Some next) ''invalid rvalue: %w''
                                           (Some err) of
                                      (e, p3) \<Rightarrow> Done (Inr e, p3, toks3))
                               | Inl rv \<Rightarrow>
                                   (case Store p2 first of
                                      (i, p3) \<Rightarrow> Done (Inl (OpAssign i ak lv rv), p3, toks3)))
                       | None \<Rightarrow>
                          (case tok_to_stmtsuffix (kind next) of
                             Some ak \<Rightarrow>
                               (case Store p1 next of
                                  (i, p2) \<Rightarrow> Done (Inl (OpUnary i ak lv), p2, snd (Pop toks2)))
                           | None \<Rightarrow> Done (Inl lv, p1, toks2))))
              | Inr exprerr \<Rightarrow>
                  bindf (VarDecl_parse p1 toks1)
                    (\<lambda>(r2, p2, toks2). case r2 of
                        Inr e \<Rightarrow> Done (Inr exprerr, p2, toks2)
                      | Inl vd \<Rightarrow>
                         (case Peek toks2 of
                            (None, toks3) \<Rightarrow>
                              (case Store p2 first of
                                 (i, p3) \<Rightarrow>
                                   Done (Inl (OpAssign i OPASN_PLAIN (VarDeclNode vd) NilNode),
                                         p3, toks3))
                          | (Some t, toks3) \<Rightarrow>
                              if kind t = token_Assign then
                                bindf (Expr n p2 (snd (Pop toks3)))
                                  (\<lambda>(r3, p3, toks4). case r3 of
                                      Inr err \<Rightarrow>
                                        (case parse_errorf p3 (Some first)
                                                ''erroneous variable assignment: %w'' (Some err) of
                                           (e, p4) \<Rightarrow> Done (Inr e, p4, toks4))
                                    | Inl av \<Rightarrow>
                                        (case Store p3 first of
                                           (i, p4) \<Rightarrow>
                                             Done (Inl (OpAssign i OPASN_PLAIN (VarDeclNode vd) av),
                                                   p4, toks4)))
                              else (case Store p2 first of
                                      (i, p3) \<Rightarrow>
                                        Done (Inl (OpAssign i OPASN_PLAIN (VarDeclNode vd) NilNode),
                                              p3, toks3))))))"

text \<open>
  \<^verbatim>\<open>Block\<close> (here \<open>Block_parse\<close>) and \<^verbatim>\<open>Stmt\<close>. \<open>Block_loop_body\<close> is one turn of the statement loop of \<^verbatim>\<open>Block\<close>: it
  carries the statements collected so far and the flag \<^verbatim>\<open>inerror\<close>, and returns both when the
  head of the stream is \<^verbatim>\<open>nil\<close> or a \<^verbatim>\<open>}\<close>. A statement that failed is the \<^verbatim>\<open>nil\<close> node in the
  list. As for expressions, each body takes the functions it calls as parameters.
\<close>

type_synonym stmt_fn = "Parser \<Rightarrow> Tokens \<Rightarrow> Node presult"
type_synonym block_loop_fn =
  "Parser \<Rightarrow> Tokens \<Rightarrow> Node list \<Rightarrow> bool \<Rightarrow> ((Node list \<times> bool) \<times> Parser \<times> Tokens) fres"

definition Block_loop_body ::
  "stmt_fn \<Rightarrow> block_loop_fn \<Rightarrow> Parser \<Rightarrow> Tokens \<Rightarrow> Node list \<Rightarrow> bool
     \<Rightarrow> ((Node list \<times> bool) \<times> Parser \<times> Tokens) fres" where
  "Block_loop_body stmt' loop' p toks0 stmts inerror =
     (case Peek toks0 of
        (None, toks) \<Rightarrow> Done ((stmts, inerror), p, toks)
      | (Some t, toks) \<Rightarrow>
          if kind t = token_RCurly then Done ((stmts, inerror), p, toks)
          else bindf (stmt' p toks)
                 (\<lambda>(r, p1, toks1). case r of
                     Inr err \<Rightarrow>
                       loop' p1 (snd (Pop (snd (Find toks1 [token_Semicolon, token_RCurly]))))
                         (stmts @ [NilNode]) True
                   | Inl stmt \<Rightarrow> loop' p1 toks1 (stmts @ [stmt]) inerror))"

definition Block_body :: "block_loop_fn \<Rightarrow> Parser \<Rightarrow> Tokens \<Rightarrow> Node presult" where
  "Block_body loop' p toks0 =
     (case Peek toks0 of
        (None, toks) \<Rightarrow> Done (Inr EOT, p, toks)
      | (Some first, toks) \<Rightarrow>
          if kind first \<noteq> token_LCurly then Done (Inr (Err ''not a block'' None), p, toks)
          else bindf (loop' p (snd (Pop toks)) [] False)
                 (\<lambda>((stmts, inerror), p1, toks1).
                    case Accept toks1 token_RCurly of
                      (Some err, toks2) \<Rightarrow>
                        (case parse_errorf p1 (Some first) ''block not terminated: %w''
                                (Some (TokenError err)) of
                           (e, p2) \<Rightarrow> Done (Inr e, p2, toks2))
                    | (None, toks2) \<Rightarrow>
                        if inerror then Done (Inr (Err ''block contained errors'' None), p1, toks2)
                        else (case Store p1 first of
                                (i, p2) \<Rightarrow> Done (Inl (Block i stmts), p2, toks2))))"

text \<open>The branches of \<^verbatim>\<open>Stmt\<close> by keyword, entered after the keyword token \<open>first\<close> was
  popped; \<open>n\<close> is the fuel of the expressions and simple statements.\<close>

definition fail_at :: "Parser \<Rightarrow> Token \<Rightarrow> string \<Rightarrow> parse_error option \<Rightarrow> Tokens \<Rightarrow> Node presult"
where
  "fail_at p tok fmt wrapped toks =
     (case parse_errorf p (Some tok) fmt wrapped of (e, p1) \<Rightarrow> Done (Inr e, p1, toks))"

definition Stmt_if :: "nat \<Rightarrow> stmt_fn \<Rightarrow> Parser \<Rightarrow> Token \<Rightarrow> Tokens \<Rightarrow> Node presult" where
  "Stmt_if n stmt' p first toks =
     (case Accept toks token_LParen of
        (Some err, toks1) \<Rightarrow> fail_at p first ''if condition missing ('' None toks1
      | (None, toks1) \<Rightarrow>
          bindf (Expr n p toks1)
            (\<lambda>(r, p1, toks2). case r of
                Inr e \<Rightarrow> Done (Inr e, p1, toks2)
              | Inl cond \<Rightarrow>
                 (case Accept toks2 token_RParen of
                    (Some err, toks3) \<Rightarrow> fail_at p1 first ''if condition missing )'' None toks3
                  | (None, toks3) \<Rightarrow>
                      bindf (stmt' p1 toks3)
                        (\<lambda>(r2, p2, toks4). case r2 of
                            Inr e \<Rightarrow> Done (Inr e, p2, toks4)
                          | Inl bodytrue \<Rightarrow>
                             (case Store p2 first of
                                (i, p3) \<Rightarrow>
                                  (case Peek toks4 of
                                     (None, toks5) \<Rightarrow>
                                       Done (Inl (IfNode i cond bodytrue NilNode), p3, toks5)
                                   | (Some next, toks5) \<Rightarrow>
                                       if \<not> (kind next = token_Id \<and> val next = ''else'')
                                       then Done (Inl (IfNode i cond bodytrue NilNode), p3, toks5)
                                       else bindf (stmt' p3 (snd (Pop toks5)))
                                              (\<lambda>(r3, p4, toks6). case r3 of
                                                  Inr e \<Rightarrow> Done (Inr e, p4, toks6)
                                                | Inl bodyfalse \<Rightarrow>
                                                    Done (Inl (IfNode i cond bodytrue bodyfalse),
                                                          p4, toks6))))))))"

definition Stmt_while :: "nat \<Rightarrow> stmt_fn \<Rightarrow> Parser \<Rightarrow> Token \<Rightarrow> Tokens \<Rightarrow> Node presult" where
  "Stmt_while n stmt' p first toks =
     (case Accept toks token_LParen of
        (Some err, toks1) \<Rightarrow> fail_at p first ''while condition missing ('' None toks1
      | (None, toks1) \<Rightarrow>
          bindf (Expr n p toks1)
            (\<lambda>(r, p1, toks2). case r of
                Inr e \<Rightarrow> Done (Inr e, p1, toks2)
              | Inl cond \<Rightarrow>
                 (case Accept toks2 token_RParen of
                    (Some err, toks3) \<Rightarrow> fail_at p1 first ''while condition missing )'' None toks3
                  | (None, toks3) \<Rightarrow>
                      bindf (stmt' p1 toks3)
                        (\<lambda>(r2, p2, toks4). case r2 of
                            Inr e \<Rightarrow> Done (Inr e, p2, toks4)
                          | Inl body \<Rightarrow>
                             (case Store p2 first of
                                (i, p3) \<Rightarrow> Done (Inl (While i cond body), p3, toks4))))))"

definition Stmt_for :: "nat \<Rightarrow> stmt_fn \<Rightarrow> Parser \<Rightarrow> Token \<Rightarrow> Tokens \<Rightarrow> Node presult" where
  "Stmt_for n stmt' p first toks =
     (case Accept toks token_LParen of
        (Some err, toks1) \<Rightarrow> fail_at p first ''for missing ('' None toks1
      | (None, toks1) \<Rightarrow>
          bindf (SimpleStmt n p toks1)
            (\<lambda>(r, p1, toks2). case r of
                Inr e \<Rightarrow> Done (Inr e, p1, toks2)
              | Inl init \<Rightarrow>
                 (case Accept toks2 token_Semicolon of
                    (Some err, toks3) \<Rightarrow>
                      fail_at p1 first ''for missing ; after initializer'' None toks3
                  | (None, toks3) \<Rightarrow>
                      bindf (Expr n p1 toks3)
                        (\<lambda>(r2, p2, toks4). case r2 of
                            Inr e \<Rightarrow> Done (Inr e, p2, toks4)
                          | Inl cond \<Rightarrow>
                             (case Accept toks4 token_Semicolon of
                                (Some err, toks5) \<Rightarrow>
                                  fail_at p2 first ''for missing ; after condition'' None toks5
                              | (None, toks5) \<Rightarrow>
                                  bindf (SimpleStmt n p2 toks5)
                                    (\<lambda>(r3, p3, toks6). case r3 of
                                        Inr e \<Rightarrow> Done (Inr e, p3, toks6)
                                      | Inl oneach \<Rightarrow>
                                         (case Accept toks6 token_RParen of
                                            (Some err, toks7) \<Rightarrow>
                                              fail_at p3 first ''for missing )'' None toks7
                                          | (None, toks7) \<Rightarrow>
                                              bindf (stmt' p3 toks7)
                                                (\<lambda>(r4, p4, toks8). case r4 of
                                                    Inr e \<Rightarrow> Done (Inr e, p4, toks8)
                                                  | Inl body \<Rightarrow>
                                                     (case Store p4 first of
                                                        (i, p5) \<Rightarrow>
                                                          Done (Inl (For i init cond oneach body),
                                                                p5, toks8))))))))))"

definition Stmt_return :: "nat \<Rightarrow> Parser \<Rightarrow> Token \<Rightarrow> Tokens \<Rightarrow> Node presult" where
  "Stmt_return n p first toks =
     (case Accept toks token_Semicolon of
        (None, toks1) \<Rightarrow>
          (case Store p first of (i, p1) \<Rightarrow> Done (Inl (Return i NilNode), p1, toks1))
      | (Some err0, toks1) \<Rightarrow>
          bindf (Expr n p toks1)
            (\<lambda>(r, p1, toks2). case r of
                Inr err \<Rightarrow> fail_at p1 first ''invalid return expression: %w'' (Some err) toks2
              | Inl expr \<Rightarrow>
                 (case Accept toks2 token_Semicolon of
                    (Some err, toks3) \<Rightarrow> fail_at p1 first ''return missing ;'' None toks3
                  | (None, toks3) \<Rightarrow>
                      (case Store p1 first of
                         (i, p2) \<Rightarrow> Done (Inl (Return i expr), p2, toks3)))))"

definition Stmt_assert_error :: "nat \<Rightarrow> Parser \<Rightarrow> Token \<Rightarrow> Tokens \<Rightarrow> Node presult" where
  "Stmt_assert_error n p first toks =
     (case Accept toks token_LParen of
        (Some err, toks1) \<Rightarrow> fail_at p first ''%s missing ('' None toks1
      | (None, toks1) \<Rightarrow>
          bindf (Expr n p toks1)
            (\<lambda>(r, p1, toks2). case r of
                Inr err \<Rightarrow> fail_at p1 first ''invalid %s statement: %w'' (Some err) toks2
              | Inl expr \<Rightarrow>
                 (case Accept toks2 token_RParen of
                    (Some err, toks3) \<Rightarrow> fail_at p1 first ''%s statement missing )'' None toks3
                  | (None, toks3) \<Rightarrow>
                     (case Accept toks3 token_Semicolon of
                        (Some err, toks4) \<Rightarrow> fail_at p1 first ''%s statement missing ;'' None toks4
                      | (None, toks4) \<Rightarrow>
                          (case Store p1 first of
                             (i, p2) \<Rightarrow>
                               Done (Inl (if val first = ''assert'' then Assert i expr
                                          else ErrorNode i expr), p2, toks4))))))"

definition Stmt_body :: "nat \<Rightarrow> stmt_fn \<Rightarrow> stmt_fn \<Rightarrow> Parser \<Rightarrow> Tokens \<Rightarrow> Node presult" where
  "Stmt_body n block' stmt' p toks0 =
     (case Peek toks0 of
        (None, toks) \<Rightarrow> Done (Inr EOT, p, toks)
      | (Some first, toks) \<Rightarrow>
          bindf (block' p toks)
            (\<lambda>(r, p1, toks1). case r of
                Inl block \<Rightarrow> Done (Inl block, p1, toks1)
              | Inr blockerr \<Rightarrow>
                  if val first = ''if'' then Stmt_if n stmt' p1 first (snd (Pop toks1))
                  else if val first = ''while'' then Stmt_while n stmt' p1 first (snd (Pop toks1))
                  else if val first = ''for'' then Stmt_for n stmt' p1 first (snd (Pop toks1))
                  else if val first = ''return'' then Stmt_return n p1 first (snd (Pop toks1))
                  else if val first = ''assert'' \<or> val first = ''error''
                  then Stmt_assert_error n p1 first (snd (Pop toks1))
                  else if val first = ''break'' then
                    (case Accept (snd (Pop toks1)) token_Semicolon of
                       (Some err, toks2) \<Rightarrow>
                         fail_at p1 first ''break statement missing ;'' None toks2
                     | (None, toks2) \<Rightarrow>
                         (case Store p1 first of (i, p2) \<Rightarrow> Done (Inl (Break i), p2, toks2)))
                  else if val first = ''continue'' then
                    (case Accept (snd (Pop toks1)) token_Semicolon of
                       (Some err, toks2) \<Rightarrow>
                         fail_at p1 first ''continue statement missing ;'' None toks2
                     | (None, toks2) \<Rightarrow>
                         (case Store p1 first of (i, p2) \<Rightarrow> Done (Inl (Continue i), p2, toks2)))
                  else
                    bindf (SimpleStmt n p1 toks1)
                      (\<lambda>(r2, p2, toks2). case r2 of
                          Inr e \<Rightarrow> Done (Inr (Err ''not a simple statement'' None), p2, toks2)
                        | Inl ss \<Rightarrow>
                           (case Accept toks2 token_Semicolon of
                              (Some err, toks3) \<Rightarrow> fail_at p2 first ''statement missing ;'' None toks3
                            | (None, toks3) \<Rightarrow> Done (Inl ss, p2, toks3)))))"

fun Block_parse :: "nat \<Rightarrow> stmt_fn"
and Block_loop :: "nat \<Rightarrow> block_loop_fn"
and Stmt :: "nat \<Rightarrow> stmt_fn"
where
  "Block_parse 0 p toks = OutOfFuel"
| "Block_parse (Suc n) p toks = Block_body (Block_loop n) p toks"
| "Block_loop 0 p toks stmts inerror = OutOfFuel"
| "Block_loop (Suc n) p toks stmts inerror =
     Block_loop_body (Stmt n) (Block_loop n) p toks stmts inerror"
| "Stmt 0 p toks = OutOfFuel"
| "Stmt (Suc n) p toks = Stmt_body n (Block_parse n) (Stmt n) p toks"

subsection \<open>Top-level declarations and definitions\<close>

text \<open>The loop of \<^verbatim>\<open>FuncParams\<close> after the empty list \<^verbatim>\<open>()\<close> was ruled out; it ends at a \<^verbatim>\<open>)\<close>,
  which it leaves for the \<^verbatim>\<open>Accept\<close> that follows.\<close>

fun FuncParams_loop ::
  "nat \<Rightarrow> Parser \<Rightarrow> Tokens \<Rightarrow> Token \<Rightarrow> VarDecl list
     \<Rightarrow> ((VarDecl list + parse_error) \<times> Parser \<times> Tokens) fres" where
  "FuncParams_loop 0 p toks first params = OutOfFuel"
| "FuncParams_loop (Suc n) p toks first params =
     bindf (VarDecl_parse p toks)
       (\<lambda>(r, p1, toks1). case r of
           Inr err \<Rightarrow>
             (case parse_errorf p1 (Some first) ''unexpected parameter list contents: %w''
                     (Some err) of
                (e, p2) \<Rightarrow> Done (Inr e, p2, toks1))
         | Inl pdecl \<Rightarrow>
             (case Peek toks1 of
                (None, toks2) \<Rightarrow>
                  (case parse_errorf p1 (Some first) ''unexpected end of parameter list'' None of
                     (e, p2) \<Rightarrow> Done (Inr e, p2, toks2))
              | (Some parorcomma, toks2) \<Rightarrow>
                  if kind parorcomma = token_RParen then Done (Inl (params @ [pdecl]), p1, toks2)
                  else if kind parorcomma = token_Comma
                  then FuncParams_loop n p1 (snd (Pop toks2)) first (params @ [pdecl])
                  else FuncParams_loop n p1 toks2 first (params @ [pdecl])))"

definition FuncParams ::
  "nat \<Rightarrow> Parser \<Rightarrow> Tokens \<Rightarrow> ((VarDecl list + parse_error) \<times> Parser \<times> Tokens) fres" where
  "FuncParams n p toks0 =
     (case Peek toks0 of
        (None, toks) \<Rightarrow> Done (Inr EOT, p, toks)
      | (Some first, toks) \<Rightarrow>
          (case Accept toks token_RParen of
             (None, toks1) \<Rightarrow> Done (Inl [], p, toks1)
           | (Some err0, toks1) \<Rightarrow>
               bindf (FuncParams_loop n p toks1 first [])
                 (\<lambda>(r, p1, toks2). case r of
                     Inr e \<Rightarrow> Done (Inr e, p1, toks2)
                   | Inl params \<Rightarrow>
                       (case Accept toks2 token_RParen of
                          (Some err, toks3) \<Rightarrow>
                            (case parse_errorf p1 (Some first) ''unterminated parameter list: %w''
                                    (Some (TokenError err)) of
                               (e, p2) \<Rightarrow> Done (Inr e, p2, toks3))
                        | (None, toks3) \<Rightarrow> Done (Inl params, p1, toks3)))))"

text \<open>\<^verbatim>\<open>FuncDecl\<close> stores the declaration node before it parses the parameters.\<close>

definition FuncDecl :: "nat \<Rightarrow> Parser \<Rightarrow> Tokens \<Rightarrow> VarDecl \<Rightarrow> FunDecl presult" where
  "FuncDecl n p toks0 vd =
     (case Peek toks0 of
        (None, toks) \<Rightarrow> Done (Inr EOT, p, toks)
      | (Some first, toks) \<Rightarrow>
          (case Accept toks token_LParen of
             (Some err, toks1) \<Rightarrow>
               (case parse_errorf p (Some first) ''invalid function declaration: %w''
                       (Some (TokenError err)) of
                  (e, p1) \<Rightarrow> Done (Inr e, p1, toks1))
           | (None, toks1) \<Rightarrow>
               (case Store p first of
                  (i, p1) \<Rightarrow>
                    bindf (FuncParams n p1 toks1)
                      (\<lambda>(r, p2, toks2). case r of
                          Inr e \<Rightarrow> Done (Inr e, p2, toks2)
                        | Inl params \<Rightarrow>
                            Done (Inl (FunDecl i (VarDecl_Name vd) (VarDecl_Kind vd) params),
                                  p2, toks2)))))"

text \<open>The member loop of \<^verbatim>\<open>StructDef\<close>; \<open>cur\<close> is the head the loop condition looked at.\<close>

fun StructDef_loop ::
  "nat \<Rightarrow> Parser \<Rightarrow> Tokens \<Rightarrow> VarDecl list
     \<Rightarrow> ((VarDecl list + parse_error) \<times> Parser \<times> Tokens) fres" where
  "StructDef_loop 0 p toks ms = OutOfFuel"
| "StructDef_loop (Suc n) p toks0 ms =
     (case Peek toks0 of
        (None, toks) \<Rightarrow> Done (Inl ms, p, toks)
      | (Some cur, toks) \<Rightarrow>
          if kind cur = token_RCurly then Done (Inl ms, p, toks)
          else bindf (Type_parse p toks)
                 (\<lambda>(r, p1, toks1). case r of
                     Inr err \<Rightarrow>
                       (case parse_errorf p1 (Some cur) ''expecting struct member type, got %s''
                               None of
                          (e, p2) \<Rightarrow> Done (Inr e, p2, toks1))
                   | Inl mk \<Rightarrow>
                       (case Peek toks1 of
                          (None, toks2) \<Rightarrow> Panicked ''nil pointer dereference''
                        | (Some mid, toks2) \<Rightarrow>
                            if kind mid \<noteq> token_Id
                            then (case parse_errorf p1 (Some cur)
                                         ''expecting struct member name, got %s'' None of
                                    (e, p2) \<Rightarrow> Done (Inr e, p2, toks2))
                            else if IsReserved (val mid)
                            then (case parse_errorf p1 (Some mid)
                                         ''struct member %q is a reserved identifier'' None of
                                    (e, p2) \<Rightarrow> Done (Inr e, p2, toks2))
                            else (case Accept (snd (Pop toks2)) token_Semicolon of
                                    (Some err, toks3) \<Rightarrow>
                                      (case parse_errorf p1 (Some cur)
                                              ''struct definition member missing ;'' None of
                                         (e, p2) \<Rightarrow> Done (Inr e, p2, toks3))
                                  | (None, toks3) \<Rightarrow>
                                      StructDef_loop n p1 toks3 (ms @ [VarDecl 0 mk (val mid)])))))"

definition StructDef :: "nat \<Rightarrow> Parser \<Rightarrow> Tokens \<Rightarrow> string \<Rightarrow> Node presult" where
  "StructDef n p toks0 name =
     (case Peek toks0 of
        (None, toks) \<Rightarrow> Done (Inr EOT, p, toks)
      | (Some first, toks) \<Rightarrow>
          if kind first \<noteq> token_LCurly
          then Done (Inr (Err ''not a struct definition'' None), p, toks)
          else bindf (StructDef_loop n p (snd (Pop toks)) [])
                 (\<lambda>(r, p1, toks1). case r of
                     Inr e \<Rightarrow> Done (Inr e, p1, toks1)
                   | Inl ms \<Rightarrow>
                       (case Accept toks1 token_RCurly of
                          (Some err, toks2) \<Rightarrow>
                            fail_at p1 first ''struct definition missing }'' None toks2
                        | (None, toks2) \<Rightarrow>
                            if length ms = 0
                            then fail_at p1 first ''struct without any members'' None toks2
                            else (case Accept toks2 token_Semicolon of
                                    (Some err, toks3) \<Rightarrow>
                                      fail_at p1 first ''struct definition missing ;'' None toks3
                                  | (None, toks3) \<Rightarrow>
                                      (case Store p1 first of
                                         (i, p2) \<Rightarrow>
                                           Done (Inl (StructNode i name ms), p2, toks3))))))"

definition TopVarDecl :: "nat \<Rightarrow> Parser \<Rightarrow> Tokens \<Rightarrow> Node presult" where
  "TopVarDecl n p toks0 =
     (case Peek toks0 of
        (None, toks) \<Rightarrow> Done (Inr EOT, p, toks)
      | (Some first, toks) \<Rightarrow>
          bindf (Type_parse p toks)
            (\<lambda>(r, p1, toks1). case r of
                Inr e \<Rightarrow> Done (Inr e, p1, toks1)
              | Inl knd \<Rightarrow>
                 (case Peek toks1 of
                    (None, toks2) \<Rightarrow> Done (Inr EOT, p1, toks2)
                  | (Some next, toks2) \<Rightarrow>
                      if Kind_Kind knd = KIND_STRUCT \<and> Kind_PointerLevel knd = 0
                         \<and> Kind_ArrayLevel knd = 0 \<and> kind next = token_Semicolon
                      then Done (Inl (StructForwardDecl 0 (Kind_Name knd)), p1, snd (Pop toks2))
                      else if kind next \<noteq> token_Id \<and> kind next \<noteq> token_LCurly
                      then fail_at p1 first
                             ''not a var declaration or a struct definition, got %v'' None toks2
                      else
                        bindf (if Kind_Kind knd = KIND_STRUCT
                               then StructDef n p1 toks2 (Kind_Name knd)
                               else Done (Inr (Err ''not a struct'' None), p1, toks2))
                          (\<lambda>(r2, p2, toks3). case r2 of
                              Inl sd \<Rightarrow> Done (Inl sd, p2, toks3)
                            | Inr e \<Rightarrow>
                                if IsReserved (val next)
                                then fail_at p2 next
                                       ''reserved identifier %q for variable declaration'' None toks3
                                else (case Store p2 first of
                                        (i, p3) \<Rightarrow>
                                          Done (Inl (VarDeclNode (VarDecl i knd (val next))),
                                                p3, snd (Pop toks3)))))))"

text \<open>\<^verbatim>\<open>FuncDeclDef\<close> stores the \<^verbatim>\<open>FunDef\<close> node before it parses the body.\<close>

definition FuncDeclDef :: "nat \<Rightarrow> Parser \<Rightarrow> Tokens \<Rightarrow> VarDecl \<Rightarrow> Node presult" where
  "FuncDeclDef n p toks0 vd =
     (case Peek toks0 of
        (None, toks) \<Rightarrow> Done (Inr EOT, p, toks)
      | (Some first, toks) \<Rightarrow>
          bindf (FuncDecl n p toks vd)
            (\<lambda>(r, p1, toks1). case r of
                Inr e \<Rightarrow> Done (Inr e, p1, toks1)
              | Inl fd \<Rightarrow>
                 (case Accept toks1 token_Semicolon of
                    (None, toks2) \<Rightarrow> Done (Inl (FunDeclNode fd), p1, toks2)
                  | (Some err0, toks2) \<Rightarrow>
                      (case Store p1 first of
                         (i, p2) \<Rightarrow>
                           bindf (Block_parse n p2 toks2)
                             (\<lambda>(r2, p3, toks3). case r2 of
                                 Inl (Block bi body) \<Rightarrow> Done (Inl (FunDef i fd bi body), p3, toks3)
                               | Inl other \<Rightarrow> Panicked ''Block returned no block''
                               | Inr err \<Rightarrow>
                                   fail_at p3 first ''invalid function body for %q: %w''
                                     (Some err) toks3)))))"

definition TypedefDef :: "nat \<Rightarrow> Parser \<Rightarrow> Tokens \<Rightarrow> Node presult" where
  "TypedefDef n p toks0 =
     (case Peek toks0 of
        (None, toks) \<Rightarrow> Done (Inr (Err ''not a typedef definition'' None), p, toks)
      | (Some first, toks) \<Rightarrow>
          if kind first \<noteq> token_Id \<or> val first \<noteq> ''typedef''
          then Done (Inr (Err ''not a typedef definition'' None), p, toks)
          else bindf (Type_parse p (snd (Pop toks)))
                 (\<lambda>(r, p1, toks1). case r of
                     Inr err \<Rightarrow> fail_at p1 first ''invalid typedef kind: %w'' (Some err) toks1
                   | Inl tk \<Rightarrow>
                      (case Peek toks1 of
                         (None, toks2) \<Rightarrow>
                           fail_at p1 first ''expecting typedef identifier, got %s'' None toks2
                       | (Some aidtok, toks2) \<Rightarrow>
                           if kind aidtok \<noteq> token_Id
                           then fail_at p1 first ''expecting typedef identifier, got %s'' None toks2
                           else if IsReserved (val aidtok)
                           then fail_at p1 aidtok ''typedef identifier %q is reserved'' None toks2
                           else
                             bindf (case Accept (snd (Pop toks2)) token_LParen of
                                      (Some err0, toks3) \<Rightarrow> Done (Inl None, p1, toks3)
                                    | (None, toks3) \<Rightarrow>
                                        bindf (FuncParams n p1 toks3)
                                          (\<lambda>(r2, p2, toks4). case r2 of
                                              Inr e \<Rightarrow> Done (Inr e, p2, toks4)
                                            | Inl pp \<Rightarrow> Done (Inl (Some pp), p2, toks4)))
                               (\<lambda>(r3, p3, toks5). case r3 of
                                   Inr e \<Rightarrow> Done (Inr e, p3, toks5)
                                 | Inl pp \<Rightarrow>
                                    (case Accept toks5 token_Semicolon of
                                       (Some err, toks6) \<Rightarrow>
                                         fail_at p3 aidtok ''typedef missing ;'' None toks6
                                     | (None, toks6) \<Rightarrow>
                                        (case AddTypedef p3 aidtok (val aidtok) of
                                           (Some err, p4) \<Rightarrow>
                                             fail_at p4 aidtok ''invalid typedef: %w'' (Some err) toks6
                                         | (None, p4) \<Rightarrow>
                                            (case Store p4 first of
                                               (i, p5) \<Rightarrow>
                                                 Done (Inl (case pp of
                                                              None \<Rightarrow> Typedef i (val aidtok) tk
                                                            | Some ps \<Rightarrow>
                                                                TypedefFunc i (val aidtok) tk ps),
                                                       p5, toks6))))))))"

text \<open>\<^verbatim>\<open>GlobalDeclDef\<close>. A \<^verbatim>\<open>#use\<close> directive reads a file and runs the lexer on it; that is
  outside this embedding, and the branch is a panic here. When a variable declaration is
  not followed by a function declaration or definition, the error is recorded and the
  function returns the \<^verbatim>\<open>nil\<close> node with no error.\<close>

definition GlobalDeclDef :: "nat \<Rightarrow> Parser \<Rightarrow> Tokens \<Rightarrow> Node presult" where
  "GlobalDeclDef n p toks0 =
     (case Peek toks0 of
        (None, toks) \<Rightarrow> Done (Inr EOT, p, toks)
      | (Some first, toks) \<Rightarrow>
          if kind first = token_UseLibLit \<or> kind first = token_UseStrLit
          then Panicked ''#use directive: file access''
          else if kind first = token_Id then
            (if val first = ''typedef'' then TypedefDef n p toks
             else bindf (TopVarDecl n p toks)
                    (\<lambda>(r, p1, toks1). case r of
                        Inr e \<Rightarrow> fail_at p1 first ''invalid statement'' None toks1
                      | Inl (VarDeclNode vd) \<Rightarrow>
                          bindf (FuncDeclDef n p1 toks1 vd)
                            (\<lambda>(r2, p2, toks2). case r2 of
                                Inl fd \<Rightarrow> Done (Inl fd, p2, toks2)
                              | Inr err \<Rightarrow>
                                  (case parse_errorf p2 (Some first)
                                          ''invalid function definition/declaration: %w''
                                          (Some err) of
                                     (e, p3) \<Rightarrow> Done (Inl NilNode, p3, toks2)))
                      | Inl (StructForwardDecl i v) \<Rightarrow>
                          Done (Inl (StructForwardDecl i v), p1, toks1)
                      | Inl (StructNode i name ms) \<Rightarrow> Done (Inl (StructNode i name ms), p1, toks1)
                      | Inl other \<Rightarrow> Panicked ''unrecognized top var decl result''))
          else fail_at p first ''unexpected statement token: %s'' None toks)"

text \<open>\<^verbatim>\<open>Parse\<close>: the loop \<^verbatim>\<open>for toks.Len() > 0\<close>, then the verdict.\<close>

fun Parse_loop :: "nat \<Rightarrow> Parser \<Rightarrow> Tokens \<Rightarrow> (Parser \<times> Tokens) fres" where
  "Parse_loop 0 p toks = OutOfFuel"
| "Parse_loop (Suc n) p toks =
     (if length toks = 0 then Done (p, toks)
      else bindf (GlobalDeclDef n p (snd (Peek toks)))
             (\<lambda>(r, p1, toks1). case r of
                 Inl newnode \<Rightarrow> Parse_loop n (p1\<lparr> parser_nodes := parser_nodes p1 @ [newnode] \<rparr>) toks1
               | Inr err \<Rightarrow>
                   Parse_loop n p1
                     (snd (Pop (snd (Find toks1 [token_Semicolon, token_RCurly]))))))"

definition Parse :: "nat \<Rightarrow> Parser \<Rightarrow> Tokens \<Rightarrow> (parse_error option \<times> Parser \<times> Tokens) fres" where
  "Parse n p toks =
     bindf (Parse_loop n (p\<lparr> parser_errs := [], parser_nodes := [], parser_typedefs := {} \<rparr>) toks)
       (\<lambda>(p1, toks1). Done (if length (parser_errs p1) > 0 then Some ErrParse else None,
                            p1, toks1))"

section \<open>Package cfg\<close>

type_synonym BlockId = nat
type_synonym BranchId = nat

definition BLOCKID_ENTRY :: BlockId where "BLOCKID_ENTRY = 0"
definition BLOCKID_EXIT :: BlockId where "BLOCKID_EXIT = 1"

datatype BranchKind =
    BK_INVALID | BK_IFTRUE | BK_IFFALSE | BK_IFNOELSE | BK_WHILETRUE | BK_WHILEFALSE
  | BK_FORTRUE | BK_FORFALSE | BK_ALWAYS

text \<open>A branch: its identifier, the blocks it leaves and enters, and its \<^verbatim>\<open>Kind\<close> (the
  discriminator and the node that drives the branching; \<open>NilNode\<close> for \<^verbatim>\<open>nil\<close>). A
  \<^verbatim>\<open>*BasicBlock\<close> is the identifier of the block: \<^verbatim>\<open>newblock\<close> issues every identifier from 2 on
  once, 1 is the shared \<^verbatim>\<open>blockExit\<close>, and 0 is the entry block \<^verbatim>\<open>first\<close> that a \<^verbatim>\<open>CFG\<close> holds
  by value.\<close>

datatype Branch =
  Branch (Branch_Id: BranchId) (Branch_Kind: BranchKind) (Branch_Node: Node)
         (From: BlockId) (To: BlockId)

record BasicBlock =
  Id :: BlockId
  Stmts :: "Node list"
  Successors :: "Branch list"

text \<open>The process-wide counters \<^verbatim>\<open>blockid\<close> and \<^verbatim>\<open>branchid\<close>, and the blocks that live behind
  pointers.\<close>

record cfg_state =
  blockid :: BlockId
  branchid :: BranchId
  blocks :: "BlockId \<Rightarrow> BasicBlock option"

record CFG =
  first :: BasicBlock
  fundef :: Node

definition blockEntry :: BasicBlock where
  "blockEntry = \<lparr> Id = BLOCKID_ENTRY, Stmts = [], Successors = [] \<rparr>"

definition blockExit :: BasicBlock where
  "blockExit = \<lparr> Id = BLOCKID_EXIT, Stmts = [], Successors = [] \<rparr>"

text \<open>The state of the package when the process starts.\<close>

definition cfg_init :: cfg_state where
  "cfg_init = \<lparr> blockid = BLOCKID_EXIT, branchid = 0,
                 blocks = [BLOCKID_EXIT \<mapsto> blockExit] \<rparr>"

text \<open>The branch parent: where the fall-through edge of the current block goes (\<^verbatim>\<open>nil\<close>
  stands for \<^verbatim>\<open>blockExit\<close>), the node and the kind of that edge.\<close>

datatype branchParent = branchParent (bp_to: "BlockId option") (bp_node: Node) (bp_how: BranchKind)

text \<open>The loop context: the closure \<^verbatim>\<open>onBreak\<close> calls \<^verbatim>\<open>bb.newsucc\<close> with one branch parent,
  \<^verbatim>\<open>onContinue\<close> with another; each closure is the branch parent it passes.\<close>

datatype branchLoop = branchLoop (onBreak: branchParent) (onContinue: branchParent)

definition newblock :: "cfg_state \<Rightarrow> BlockId \<times> cfg_state" where
  "newblock st =
     (blockid st + 1,
      st\<lparr> blockid := blockid st + 1,
          blocks := (blocks st)(blockid st + 1 \<mapsto> \<lparr> Id = blockid st + 1, Stmts = [], Successors = [] \<rparr>) \<rparr>)"

text \<open>\<^verbatim>\<open>newstmt\<close> and \<^verbatim>\<open>newsucc\<close> on a block value; \<open>block_newsucc\<close> also takes and returns the
  branch counter.\<close>

definition block_newstmt :: "BasicBlock \<Rightarrow> Node \<Rightarrow> BasicBlock" where
  "block_newstmt bb n = bb\<lparr> Stmts := Stmts bb @ [n] \<rparr>"

definition block_newsucc :: "BlockId \<Rightarrow> BasicBlock \<Rightarrow> branchParent \<Rightarrow> BranchId \<Rightarrow> BasicBlock \<times> BranchId"
where
  "block_newsucc self bb rp bid =
     (bb\<lparr> Successors := Successors bb @
            [Branch (bid + 1) (bp_how rp) (bp_node rp) self
               (case bp_to rp of None \<Rightarrow> BLOCKID_EXIT | Some t \<Rightarrow> t)] \<rparr>,
      bid + 1)"

text \<open>The same on a block behind a pointer.\<close>

definition newstmt :: "BlockId \<Rightarrow> Node \<Rightarrow> cfg_state \<Rightarrow> cfg_state res" where
  "newstmt b n st =
     (case blocks st b of
        None \<Rightarrow> Panic ''nil pointer dereference''
      | Some bb \<Rightarrow> Ok (st\<lparr> blocks := (blocks st)(b \<mapsto> block_newstmt bb n) \<rparr>))"

definition newsucc :: "BlockId \<Rightarrow> branchParent \<Rightarrow> cfg_state \<Rightarrow> cfg_state res" where
  "newsucc b rp st =
     (case blocks st b of
        None \<Rightarrow> Panic ''nil pointer dereference''
      | Some bb \<Rightarrow>
          (case block_newsucc b bb rp (branchid st) of
             (bb', bid) \<Rightarrow> Ok (st\<lparr> branchid := bid, blocks := (blocks st)(b \<mapsto> bb') \<rparr>)))"

definition extractbody :: "Node \<Rightarrow> Node list res" where
  "extractbody n =
     (case n of Block i vs \<Rightarrow> Ok vs | NilNode \<Rightarrow> Panic ''nil body'' | _ \<Rightarrow> Ok [n])"

lemma extractbody_size:
  "extractbody n = Ok body \<Longrightarrow> size_list size body \<le> Suc (size n)"
  by (cases n) (auto simp: extractbody_def)

text \<open>
  \<^verbatim>\<open>form\<close> with \<^verbatim>\<open>newif\<close>, \<^verbatim>\<open>newwhile\<close>, \<^verbatim>\<open>newfor\<close> and \<^verbatim>\<open>newloop\<close>. The loop \<^verbatim>\<open>for i, n := range
  left\<close> of \<^verbatim>\<open>form\<close> is the recursion on the list: a statement that is no branch is appended
  and the loop goes on; every other case returns. \<^verbatim>\<open>newloop\<close> passes no loop context to
  the \<^verbatim>\<open>form\<close> of the block after the loop (\<^verbatim>\<open>form(afterloop, rp, nil, left)\<close>) and none to the
  \<^verbatim>\<open>form\<close> of the step block.
\<close>

function
    form :: "BlockId \<Rightarrow> branchParent \<Rightarrow> branchLoop option \<Rightarrow> Node list \<Rightarrow> cfg_state \<Rightarrow> cfg_state res"
and newif :: "BlockId \<Rightarrow> Node \<Rightarrow> branchParent \<Rightarrow> branchLoop option \<Rightarrow> Node list \<Rightarrow> cfg_state
               \<Rightarrow> cfg_state res"
and newwhile :: "BlockId \<Rightarrow> Node \<Rightarrow> branchParent \<Rightarrow> Node list \<Rightarrow> cfg_state \<Rightarrow> cfg_state res"
and newfor :: "BlockId \<Rightarrow> Node \<Rightarrow> branchParent \<Rightarrow> Node list \<Rightarrow> cfg_state \<Rightarrow> cfg_state res"
and newloop :: "BlockId \<Rightarrow> Node \<Rightarrow> Node list \<Rightarrow> BranchKind \<Rightarrow> BranchKind \<Rightarrow> branchParent
                 \<Rightarrow> Node list \<Rightarrow> Node \<Rightarrow> cfg_state \<Rightarrow> cfg_state res"
where
  "form b rp lp [] st = newsucc b rp st"
| "form b rp lp (n # left) st =
     (case n of
        IfNode i c t f \<Rightarrow> newif b n rp lp left st
      | For i init c oneach body \<Rightarrow>
          bindr (newstmt b init st) (\<lambda>st1. newfor b n rp left st1)
      | While i c body \<Rightarrow> newwhile b n rp left st
      | Return i e \<Rightarrow>
          bindr (newstmt b n st)
            (\<lambda>st1. newsucc b (branchParent (Some BLOCKID_EXIT) n BK_ALWAYS) st1)
      | Break i \<Rightarrow>
          (case lp of
             None \<Rightarrow> Panic ''missing loop params on break''
           | Some l \<Rightarrow> bindr (newsucc b (onBreak l) st) (\<lambda>st1. newstmt b n st1))
      | Continue i \<Rightarrow>
          (case lp of
             None \<Rightarrow> Panic ''missing loop params on continue''
           | Some l \<Rightarrow> bindr (newsucc b (onContinue l) st) (\<lambda>st1. newstmt b n st1))
      | _ \<Rightarrow> bindr (newstmt b n st) (\<lambda>st1. form b rp lp left st1))"
| "newif this n rp lp left st =
     (case n of
        IfNode i c t f \<Rightarrow>
     (case newblock st of
        (afterif, st1) \<Rightarrow>
          bindr (form afterif (branchParent (bp_to rp) (IfNode i c t f) BK_ALWAYS) lp left st1)
            (\<lambda>st2. case newblock st2 of
               (tb, st3) \<Rightarrow>
                 bindr (extractbody t)
                   (\<lambda>tbody.
                      bindr (form tb (branchParent (Some afterif) (IfNode i c t f) BK_ALWAYS)
                               lp tbody st3)
                        (\<lambda>st4.
                           bindr (newsucc this
                                    (branchParent (Some tb) (IfNode i c t f) BK_IFTRUE) st4)
                             (\<lambda>st5.
                                if f \<noteq> NilNode then
                                  (case newblock st5 of
                                     (fb, st6) \<Rightarrow>
                                       bindr (extractbody f)
                                         (\<lambda>fbody.
                                            bindr (form fb
                                                     (branchParent (Some afterif) (IfNode i c t f)
                                                        BK_ALWAYS) lp fbody st6)
                                              (\<lambda>st7. newsucc this
                                                        (branchParent (Some fb) (IfNode i c t f)
                                                           BK_IFFALSE) st7)))
                                else newsucc this
                                       (branchParent (Some afterif) (IfNode i c t f) BK_IFNOELSE)
                                       st5)))))
      | _ \<Rightarrow> Panic ''not an If'')"
| "newwhile this n rp left st =
     (case n of
        While i c body \<Rightarrow>
          bindr (extractbody body)
            (\<lambda>bd. newloop this n bd BK_WHILETRUE BK_WHILEFALSE rp left NilNode st)
      | _ \<Rightarrow> Panic ''not a While'')"
| "newfor this n rp left st =
     (case n of
        For i init c oneach body \<Rightarrow>
          bindr (extractbody body)
            (\<lambda>bd. newloop this n bd BK_FORTRUE BK_FORFALSE rp left oneach st)
      | _ \<Rightarrow> Panic ''not a For'')"
| "newloop this n body kt kf rp left step st =
     (case newblock st of
        (afterloop, st1) \<Rightarrow>
          bindr (form afterloop rp None left st1)
            (\<lambda>st2. case newblock st2 of
               (lb, st3) \<Rightarrow>
                 (case newblock st3 of
                    (sb, st4) \<Rightarrow>
                      bindr (form sb (branchParent (Some lb) n kt) None
                               (if step \<noteq> NilNode then [step] else []) st4)
                        (\<lambda>st5.
                           bindr (form lb (branchParent (Some sb) n BK_ALWAYS)
                                    (Some (branchLoop
                                             (branchParent (Some afterloop) n BK_ALWAYS)
                                             (branchParent (Some sb) n BK_ALWAYS)))
                                    body st5)
                             (\<lambda>st6.
                                bindr (newsucc sb (branchParent (Some afterloop) n kf) st6)
                                  (\<lambda>st7.
                                     bindr (newsucc this (branchParent (Some lb) n kt) st7)
                                       (\<lambda>st8. newsucc this
                                                 (branchParent (Some afterloop) n kf) st8)))))))"
  by pat_completeness auto


termination
proof (relation "measure (\<lambda>x. case x of
          Inl (Inl (b, rp, lp, left, st)) \<Rightarrow> 3 * size_list size left
        | Inl (Inr (this, n, rp, lp, left, st)) \<Rightarrow> 3 * (size n + size_list size left) + 2
        | Inr (Inl (this, n, rp, left, st)) \<Rightarrow> 3 * (size n + size_list size left) + 2
        | Inr (Inr (Inl (this, n, rp, left, st))) \<Rightarrow> 3 * (size n + size_list size left) + 2
        | Inr (Inr (Inr (this, n, body, kt, kf, rp, left, step, st))) \<Rightarrow>
            3 * max (size_list size body) (max (size_list size left) (Suc (size step))) + 1)",
       goal_cases)
qed (auto dest!: extractbody_size simp: max_def)

text \<open>\<^verbatim>\<open>Form\<close> builds the graph of one function definition. The entry block is a copy of
  \<^verbatim>\<open>blockEntry\<close> held by the \<^verbatim>\<open>CFG\<close>; every other block lives in the state.\<close>

definition Form :: "Node \<Rightarrow> cfg_state \<Rightarrow> (CFG \<times> cfg_state) res" where
  "Form fd st =
     (case fd of
        FunDef i d bi body \<Rightarrow>
          (case newblock st of
             (second, st1) \<Rightarrow>
               (case block_newsucc BLOCKID_ENTRY blockEntry
                       (branchParent (Some second) NilNode BK_ALWAYS) (branchid st1) of
                  (entry, bid) \<Rightarrow>
                    bindr (form second (branchParent (Some BLOCKID_EXIT) NilNode BK_ALWAYS) None
                             body (st1\<lparr> branchid := bid \<rparr>))
                      (\<lambda>st2. Ok (\<lparr> first = entry, fundef = fd \<rparr>, st2))))
      | _ \<Rightarrow> Panic ''not a FunDef'')"

text \<open>Dereferencing a \<^verbatim>\<open>*BasicBlock\<close> of a graph: the entry block is the one the \<^verbatim>\<open>CFG\<close>
  holds.\<close>

definition block_of :: "CFG \<Rightarrow> cfg_state \<Rightarrow> BlockId \<Rightarrow> BasicBlock option" where
  "block_of c st b = (if b = BLOCKID_ENTRY then Some (first c) else blocks st b)"

section \<open>Package ir\<close>

datatype ir_TypeKind = TYPE_INT32

datatype ir_Type = ir_Type (ir_Kind: ir_TypeKind) (ir_PointerLevel: int) (ir_Elements: int)

text \<open>A virtual register: name and generation. The anonymous temporaries have the empty
  name.\<close>

datatype ir_Variable = ir_Variable (Name: string) (Count: int)

text \<open>\<^verbatim>\<open>ir.Value\<close> is implemented by \<^verbatim>\<open>*Variable\<close> and \<^verbatim>\<open>*Numeric32i\<close>.\<close>

datatype ir_Value = ValueVariable ir_Variable | Numeric32i "32 word"

text \<open>The instructions; the fields are in the order of the Go struct declarations
  (\<^verbatim>\<open>Load\<close> and \<^verbatim>\<open>Store\<close>: type, \<^verbatim>\<open>To\<close>, \<^verbatim>\<open>From\<close>).\<close>

datatype Instruction =
    ir_Load ir_Type ir_Variable ir_Variable
  | ir_Store ir_Type ir_Variable ir_Variable
  | ir_Add ir_Type ir_Variable ir_Value ir_Value
  | ir_Mul ir_Type ir_Variable ir_Value ir_Value
  | ir_Xor ir_Type ir_Variable ir_Value ir_Value
  | ir_Mov ir_Type ir_Variable ir_Value
  | ir_Return ir_Type ir_Value
  | ir_Alloca ir_Type nat ir_Variable
  | ir_Label string

section \<open>Package ssa\<close>

text \<open>The generator's state: the counter of anonymous registers, the generation of each
  variable name and the instructions emitted so far. Go's \<^verbatim>\<open>int\<close> counters are 64 bits wide
  and are integers here (no run emits \<open>2^63\<close> instructions).\<close>

record SSA =
  reggen :: int
  generations :: "string \<Rightarrow> int option"
  Instructions :: "Instruction list"

definition typeInt_ir :: ir_Type where
  "typeInt_ir = ir_Type TYPE_INT32 0 0"

text \<open>\<^verbatim>\<open>generations.increase\<close>: 0 for a name seen for the first time, one more than before
  otherwise. \<^verbatim>\<open>generations.get\<close> panics on an unknown name.\<close>

definition increase :: "SSA \<Rightarrow> string \<Rightarrow> int \<times> SSA" where
  "increase s name =
     (case generations s name of
        None \<Rightarrow> (0, s\<lparr> generations := (generations s)(name \<mapsto> 0) \<rparr>)
      | Some g \<Rightarrow> (g + 1, s\<lparr> generations := (generations s)(name \<mapsto> g + 1) \<rparr>))"

definition generations_get :: "SSA \<Rightarrow> string \<Rightarrow> int res" where
  "generations_get s name =
     (case generations s name of None \<Rightarrow> Panic ''unknown generation'' | Some g \<Rightarrow> Ok g)"

definition emit :: "SSA \<Rightarrow> Instruction \<Rightarrow> SSA" where
  "emit s inst = s\<lparr> Instructions := Instructions s @ [inst] \<rparr>"

definition register :: "SSA \<Rightarrow> ir_Variable" where
  "register s = ir_Variable [] (reggen s)"

definition registerNew :: "SSA \<Rightarrow> ir_Variable \<times> SSA" where
  "registerNew s = (ir_Variable [] (reggen s + 1), s\<lparr> reggen := reggen s + 1 \<rparr>)"

definition getNumeric32i :: "SSA \<Rightarrow> Node \<Rightarrow> (ir_Variable \<times> SSA) res" where
  "getNumeric32i s n =
     (case n of
        Numeric i v b \<Rightarrow>
          (case registerNew s of
             (to, s1) \<Rightarrow>
               (let s2 = emit s1 (ir_Mov typeInt_ir to (Numeric32i v)) in Ok (register s2, s2)))
      | _ \<Rightarrow> Panic ''not a Numeric'')"

definition getNewVariable :: "SSA \<Rightarrow> string \<Rightarrow> ir_Variable \<times> SSA" where
  "getNewVariable s name =
     (case increase s name of
        (c, s1) \<Rightarrow> (ir_Variable name c, emit s1 (ir_Alloca typeInt_ir 4 (ir_Variable name c))))"

definition getCurrentVariable :: "SSA \<Rightarrow> string \<Rightarrow> ir_Variable res" where
  "getCurrentVariable s name = bindr (generations_get s name) (\<lambda>g. Ok (ir_Variable name g))"

text \<open>\<^verbatim>\<open>getNewStorable\<close>: the current generation for a \<^verbatim>\<open>Variable\<close> node, a new one (with its
  \<^verbatim>\<open>ALLOCA\<close>) for a \<^verbatim>\<open>VarDecl\<close>.\<close>

definition getNewStorable :: "SSA \<Rightarrow> Node \<Rightarrow> (ir_Variable \<times> SSA) res" where
  "getNewStorable s n =
     (case n of
        Variable i v \<Rightarrow> bindr (getCurrentVariable s v) (\<lambda>x. Ok (x, s))
      | VarDeclNode vd \<Rightarrow> Ok (getNewVariable s (VarDecl_Name vd))
      | _ \<Rightarrow> Panic ''XXX unhandled storable'')"

text \<open>\<^verbatim>\<open>emitLoadable\<close> and \<^verbatim>\<open>emitOpBinary\<close>. An operator other than \<^verbatim>\<open>+\<close> and \<^verbatim>\<open>*\<close> takes a
  fresh register and emits nothing. \<^verbatim>\<open>emitLoadable\<close> returns the register of the counter as
  it stands at the end.\<close>

fun emitOpBinary :: "Node \<Rightarrow> SSA \<Rightarrow> SSA res"
and emitLoadable :: "Node \<Rightarrow> SSA \<Rightarrow> (ir_Variable \<times> SSA) res"
where
  "emitOpBinary (OpBinary i op l r) s =
     bindr (emitLoadable l s)
       (\<lambda>(left, s1).
          bindr (emitLoadable r s1)
            (\<lambda>(right, s2).
               case registerNew s2 of
                 (to, s3) \<Rightarrow>
                   if op = OPBIN_ADD
                   then Ok (emit s3 (ir_Add typeInt_ir to (ValueVariable left) (ValueVariable right)))
                   else if op = OPBIN_MUL
                   then Ok (emit s3 (ir_Mul typeInt_ir to (ValueVariable left) (ValueVariable right)))
                   else Ok s3))"
| "emitOpBinary n s = Panic ''not an OpBinary''"
| "emitLoadable (Variable i v) s =
     bindr (getCurrentVariable s v)
       (\<lambda>from. case registerNew s of
                  (to, s1) \<Rightarrow>
                    (let s2 = emit s1 (ir_Load typeInt_ir to from) in Ok (register s2, s2)))"
| "emitLoadable (VarDeclNode vd) s =
     (case getNewVariable s (VarDecl_Name vd) of
        (from, s1) \<Rightarrow>
          (case registerNew s1 of
             (to, s2) \<Rightarrow>
               (let s3 = emit s2 (ir_Load typeInt_ir to from) in Ok (register s3, s3))))"
| "emitLoadable (Numeric i v b) s =
     bindr (getNumeric32i s (Numeric i v b)) (\<lambda>(x, s1). Ok (register s1, s1))"
| "emitLoadable (OpBinary i op l r) s =
     bindr (emitOpBinary (OpBinary i op l r) s) (\<lambda>s1. Ok (register s1, s1))"
| "emitLoadable n s = Panic ''XXX unhandled assignment source''"

definition emitReturn :: "Node \<Rightarrow> SSA \<Rightarrow> SSA res" where
  "emitReturn n s =
     (case n of
        Return i e \<Rightarrow>
          bindr (emitLoadable e s)
            (\<lambda>(w, s1). Ok (emit s1 (ir_Return typeInt_ir (ValueVariable w))))
      | _ \<Rightarrow> Panic ''not a Return'')"

text \<open>\<^verbatim>\<open>emitAssign\<close>: the store target first, then the value, then the \<^verbatim>\<open>STORE\<close>.\<close>

definition emitAssign :: "Node \<Rightarrow> SSA \<Rightarrow> SSA res" where
  "emitAssign n s =
     (case n of
        OpAssign i op to what \<Rightarrow>
          bindr (getNewStorable s to)
            (\<lambda>(target, s1).
               bindr (emitLoadable what s1)
                 (\<lambda>(from, s2). Ok (emit s2 (ir_Store typeInt_ir target from))))
      | _ \<Rightarrow> Panic ''not an OpAssign'')"

fun emitNode :: "Node \<Rightarrow> SSA \<Rightarrow> SSA res" where
  "emitNode (OpAssign i op to what) s = emitAssign (OpAssign i op to what) s"
| "emitNode (OpBinary i op l r) s = emitOpBinary (OpBinary i op l r) s"
| "emitNode (OpUnary i op to) s = emitNode to s"
| "emitNode (Return i e) s = emitReturn (Return i e) s"
| "emitNode n s = Panic ''XXX unhandled node''"

text \<open>\<^verbatim>\<open>emitOpUnary\<close> emits its operand as a node and nothing for the operator.\<close>

definition emitOpUnary :: "Node \<Rightarrow> SSA \<Rightarrow> SSA res" where
  "emitOpUnary n s = (case n of OpUnary i op to \<Rightarrow> emitNode to s | _ \<Rightarrow> Panic ''not an OpUnary'')"

fun emitStmts :: "Node list \<Rightarrow> SSA \<Rightarrow> SSA res" where
  "emitStmts [] s = Ok s"
| "emitStmts (stmt # stmts) s = bindr (emitNode stmt s) (\<lambda>s1. emitStmts stmts s1)"

text \<open>\<^verbatim>\<open>emitBlock\<close> follows every successor edge again and again, with no memory of the
  blocks it has seen, so on a graph with a cycle it does not return: the recursion is
  defined with fuel, one unit for each block entered.\<close>

fun emitBlock :: "nat \<Rightarrow> CFG \<Rightarrow> cfg_state \<Rightarrow> BlockId \<Rightarrow> SSA \<Rightarrow> SSA res option"
and emitSuccs :: "nat \<Rightarrow> CFG \<Rightarrow> cfg_state \<Rightarrow> Branch list \<Rightarrow> SSA \<Rightarrow> SSA res option"
where
  "emitBlock 0 c st b s = None"
| "emitBlock (Suc n) c st b s =
     (case block_of c st b of
        None \<Rightarrow> Some (Panic ''nil pointer dereference'')
      | Some bb \<Rightarrow>
          (case emitStmts (Stmts bb) s of
             Panic m \<Rightarrow> Some (Panic m)
           | Ok s1 \<Rightarrow> emitSuccs n c st (Successors bb) s1))"
| "emitSuccs n c st [] s = Some (Ok s)"
| "emitSuccs n c st (succ # succs) s =
     (case emitBlock n c st (To succ) s of
        None \<Rightarrow> None
      | Some (Panic m) \<Rightarrow> Some (Panic m)
      | Some (Ok s1) \<Rightarrow> emitSuccs n c st succs s1)"

definition build :: "nat \<Rightarrow> CFG \<Rightarrow> cfg_state \<Rightarrow> SSA \<Rightarrow> SSA res option" where
  "build n c st s = emitBlock n c st BLOCKID_ENTRY (emit s (ir_Label ''entry''))"

definition ssa_New :: "nat \<Rightarrow> CFG \<Rightarrow> cfg_state \<Rightarrow> SSA res option" where
  "ssa_New n c st = build n c st \<lparr> reggen = 0, generations = Map.empty, Instructions = [] \<rparr>"

section \<open>Package vm\<close>

text \<open>The interpreter: the functions in the order \<^verbatim>\<open>Run\<close> visits them (Go ranges over the map
  \<^verbatim>\<open>funcs\<close> in an unspecified order), the registers (a register never written reads as 0, as
  a missing key of a Go map does) and the memory cells.\<close>

record VM =
  funcs :: "(string \<times> SSA) list"
  regs :: "ir_Variable \<Rightarrow> 32 word"
  mem :: "32 word list"

definition vm_New :: VM where
  "vm_New = \<lparr> funcs = [], regs = (\<lambda>_. 0), mem = [] \<rparr>"

definition Insert :: "VM \<Rightarrow> string \<Rightarrow> SSA \<Rightarrow> VM" where
  "Insert vm name s = vm\<lparr> funcs := assign (funcs vm) name s \<rparr>"

text \<open>Indexing \<^verbatim>\<open>vm.mem\<close> with a register value (a signed 32-bit integer) panics outside the
  slice.\<close>

definition vm_Load :: "VM \<Rightarrow> ir_Variable \<Rightarrow> ir_Variable \<Rightarrow> VM res" where
  "vm_Load vm from to =
     (let fi = sint (regs vm from) in
      if fi < 0 \<or> fi \<ge> int (length (mem vm)) then Panic ''index out of range''
      else Ok (vm\<lparr> regs := (regs vm)(to := mem vm ! nat fi) \<rparr>))"

definition ExtractValue :: "VM \<Rightarrow> ir_Value \<Rightarrow> 32 word" where
  "ExtractValue vm v = (case v of ValueVariable t \<Rightarrow> regs vm t | Numeric32i x \<Rightarrow> x)"

definition vm_Set :: "VM \<Rightarrow> ir_Variable \<Rightarrow> ir_Value \<Rightarrow> VM" where
  "vm_Set vm to what = vm\<lparr> regs := (regs vm)(to := ExtractValue vm what) \<rparr>"

definition vm_Store :: "VM \<Rightarrow> ir_Variable \<Rightarrow> ir_Variable \<Rightarrow> VM res" where
  "vm_Store vm variable v =
     (let ptr = sint (regs vm variable) in
      if ptr < 0 \<or> ptr \<ge> int (length (mem vm)) then Panic ''index out of range''
      else Ok (vm\<lparr> mem := (mem vm)[nat ptr := regs vm v] \<rparr>))"

text \<open>\<^verbatim>\<open>Alloca\<close> appends a cell and returns its index as an \<^verbatim>\<open>int32\<close>.\<close>

definition vm_Alloca :: "VM \<Rightarrow> 32 word \<times> VM" where
  "vm_Alloca vm = (word_of_int (int (length (mem vm))), vm\<lparr> mem := mem vm @ [0] \<rparr>)"

definition BinOp ::
  "VM \<Rightarrow> ir_Variable \<Rightarrow> ir_Value \<Rightarrow> ir_Value \<Rightarrow> (32 word \<Rightarrow> 32 word \<Rightarrow> 32 word) \<Rightarrow> VM" where
  "BinOp vm to left right op =
     vm_Set vm to (Numeric32i (op (ExtractValue vm left) (ExtractValue vm right)))"

text \<open>One instruction of \<^verbatim>\<open>Run\<close>: the machine and the value \<^verbatim>\<open>*ret\<close>.\<close>

fun step :: "Instruction \<Rightarrow> VM \<times> 32 word \<Rightarrow> (VM \<times> 32 word) res" where
  "step (ir_Alloca t al to) (vm, ret) =
     (case vm_Alloca vm of (a, vm1) \<Rightarrow> Ok (vm1\<lparr> regs := (regs vm1)(to := a) \<rparr>, ret))"
| "step (ir_Mov t to what) (vm, ret) = Ok (vm_Set vm to what, ret)"
| "step (ir_Store t to from) (vm, ret) = bindr (vm_Store vm to from) (\<lambda>vm1. Ok (vm1, ret))"
| "step (ir_Load t to from) (vm, ret) = bindr (vm_Load vm from to) (\<lambda>vm1. Ok (vm1, ret))"
| "step (ir_Add t to l r) (vm, ret) = Ok (BinOp vm to l r (\<lambda>v1 v2. v1 + v2), ret)"
| "step (ir_Mul t to l r) (vm, ret) = Ok (BinOp vm to l r (\<lambda>v1 v2. v1 * v2), ret)"
| "step (ir_Xor t to l r) (vm, ret) = Ok (BinOp vm to l r (\<lambda>v1 v2. v1 XOR v2), ret)"
| "step (ir_Return t w) (vm, ret) = Ok (vm, ExtractValue vm w)"
| "step (ir_Label name) (vm, ret) = Ok (vm, ret)"

fun run_insts :: "Instruction list \<Rightarrow> VM \<times> 32 word \<Rightarrow> (VM \<times> 32 word) res" where
  "run_insts [] x = Ok x"
| "run_insts (inst # insts) x = bindr (step inst x) (\<lambda>y. run_insts insts y)"

fun run_funcs :: "(string \<times> SSA) list \<Rightarrow> VM \<times> 32 word \<Rightarrow> (VM \<times> 32 word) res" where
  "run_funcs [] x = Ok x"
| "run_funcs ((name, fus) # fs) x = bindr (run_insts (Instructions fus) x) (\<lambda>y. run_funcs fs y)"

text \<open>\<^verbatim>\<open>Run\<close> returns the value of the last \<^verbatim>\<open>RET\<close> it executed (0 when there was none).\<close>

definition Run :: "VM \<Rightarrow> (32 word \<times> VM) res" where
  "Run vm = bindr (run_funcs (funcs vm) (vm, 0)) (\<lambda>(vm1, ret). Ok (ret, vm1))"

section \<open>Programs and pipelines used in the properties\<close>

text \<open>A token with its kind and lexeme; the span plays no part.\<close>

definition lexeme :: "token_Kind \<Rightarrow> string \<Rightarrow> Token" where
  "lexeme k v = \<lparr>span = (0, 0, 0, 0), kind = k, val = v\<rparr>"

text \<open>The token streams of a few C0 programs, as \<^verbatim>\<open>lex.Lex\<close> produces them (a literal \<^verbatim>\<open>0\<close> is
  lexed as a hex number).\<close>

text \<open>The program of \<^verbatim>\<open>TestSimple\<close> in \<^verbatim>\<open>ssa_test.go\<close>: \<^verbatim>\<open>int f(){ int a=1; int b=a+3; a=a*2+b; return a+1; }\<close>.\<close>

definition prog_simple :: Tokens where
  "prog_simple =
    [lexeme token_Id ''int'', lexeme token_Id ''f'', lexeme token_LParen ''('',
     lexeme token_RParen '')'', lexeme token_LCurly ''{'', lexeme token_Id ''int'',
     lexeme token_Id ''a'', lexeme token_Assign ''='', lexeme token_DecNum ''1'',
     lexeme token_Semicolon '';'', lexeme token_Id ''int'', lexeme token_Id ''b'',
     lexeme token_Assign ''='', lexeme token_Id ''a'', lexeme token_Plus ''+'',
     lexeme token_DecNum ''3'', lexeme token_Semicolon '';'', lexeme token_Id ''a'',
     lexeme token_Assign ''='', lexeme token_Id ''a'', lexeme token_Star ''*'',
     lexeme token_DecNum ''2'', lexeme token_Plus ''+'', lexeme token_Id ''b'',
     lexeme token_Semicolon '';'', lexeme token_Id ''return'', lexeme token_Id ''a'',
     lexeme token_Plus ''+'', lexeme token_DecNum ''1'', lexeme token_Semicolon '';'',
     lexeme token_RCurly ''}'']"

text \<open>A declaration of \<^verbatim>\<open>x\<close> followed by one more assignment to it: \<^verbatim>\<open>int f(){ int x=1; x=2; return x; }\<close>.\<close>

definition prog_reassign :: Tokens where
  "prog_reassign =
    [lexeme token_Id ''int'', lexeme token_Id ''f'', lexeme token_LParen ''('',
     lexeme token_RParen '')'', lexeme token_LCurly ''{'', lexeme token_Id ''int'',
     lexeme token_Id ''x'', lexeme token_Assign ''='', lexeme token_DecNum ''1'',
     lexeme token_Semicolon '';'', lexeme token_Id ''x'', lexeme token_Assign ''='',
     lexeme token_DecNum ''2'', lexeme token_Semicolon '';'', lexeme token_Id ''return'',
     lexeme token_Id ''x'', lexeme token_Semicolon '';'', lexeme token_RCurly ''}'']"

text \<open>A \<^verbatim>\<open>break\<close> that follows an inner loop in the body of a loop: \<^verbatim>\<open>void f(){ while(true){ while(true){} break; } }\<close>.\<close>

definition prog_break_after_loop :: Tokens where
  "prog_break_after_loop =
    [lexeme token_Id ''void'', lexeme token_Id ''f'', lexeme token_LParen ''('',
     lexeme token_RParen '')'', lexeme token_LCurly ''{'', lexeme token_Id ''while'',
     lexeme token_LParen ''('', lexeme token_True ''true'', lexeme token_RParen '')'',
     lexeme token_LCurly ''{'', lexeme token_Id ''while'', lexeme token_LParen ''('',
     lexeme token_True ''true'', lexeme token_RParen '')'', lexeme token_LCurly ''{'',
     lexeme token_RCurly ''}'', lexeme token_Id ''break'', lexeme token_Semicolon '';'',
     lexeme token_RCurly ''}'', lexeme token_RCurly ''}'']"

text \<open>A \<^verbatim>\<open>break\<close> that follows a conditional in the body of a loop: \<^verbatim>\<open>void f(){ while(true){ if(true){} break; } }\<close>.\<close>

definition prog_break_after_if :: Tokens where
  "prog_break_after_if =
    [lexeme token_Id ''void'', lexeme token_Id ''f'', lexeme token_LParen ''('',
     lexeme token_RParen '')'', lexeme token_LCurly ''{'', lexeme token_Id ''while'',
     lexeme token_LParen ''('', lexeme token_True ''true'', lexeme token_RParen '')'',
     lexeme token_LCurly ''{'', lexeme token_Id ''if'', lexeme token_LParen ''('',
     lexeme token_True ''true'', lexeme token_RParen '')'', lexeme token_LCurly ''{'',
     lexeme token_RCurly ''}'', lexeme token_Id ''break'', lexeme token_Semicolon '';'',
     lexeme token_RCurly ''}'', lexeme token_RCurly ''}'']"

text \<open>A conditional expression whose condition is itself a conditional expression: \<^verbatim>\<open>void c() { (true ? true : false) ? 1 : 0; }\<close>.\<close>

definition prog_ternary_cond :: Tokens where
  "prog_ternary_cond =
    [lexeme token_Id ''void'', lexeme token_Id ''c'', lexeme token_LParen ''('',
     lexeme token_RParen '')'', lexeme token_LCurly ''{'', lexeme token_LParen ''('',
     lexeme token_True ''true'', lexeme token_Quest ''?'', lexeme token_True ''true'',
     lexeme token_Colon '':'', lexeme token_False ''false'', lexeme token_RParen '')'',
     lexeme token_Quest ''?'', lexeme token_DecNum ''1'', lexeme token_Colon '':'',
     lexeme token_HexNum ''0'', lexeme token_Semicolon '';'', lexeme token_RCurly ''}'']"

text \<open>A conditional expression on its own: \<^verbatim>\<open>void c() { true ? 1 : 0; }\<close>.\<close>

definition prog_ternary :: Tokens where
  "prog_ternary =
    [lexeme token_Id ''void'', lexeme token_Id ''c'', lexeme token_LParen ''('',
     lexeme token_RParen '')'', lexeme token_LCurly ''{'', lexeme token_True ''true'',
     lexeme token_Quest ''?'', lexeme token_DecNum ''1'', lexeme token_Colon '':'',
     lexeme token_HexNum ''0'', lexeme token_Semicolon '';'', lexeme token_RCurly ''}'']"

text \<open>
  The stages as the tests of the repository chain them (\<^verbatim>\<open>do\<close> in \<^verbatim>\<open>ssa_test.go\<close>): parse and
  require no parse error, analyze and require no analysis error, form the graph of the first
  top-level node, lower it, insert the result into a fresh machine as \<^verbatim>\<open>f\<close> and run. \<open>None\<close>
  stands for a stage that did not deliver (an error, a panic or exhausted fuel).
\<close>

definition parsed :: "nat \<Rightarrow> Tokens \<Rightarrow> Parser option" where
  "parsed n toks =
     (case Parse n parse_New toks of
        Done (None, p, rest) \<Rightarrow> Some p
      | _ \<Rightarrow> None)"

definition analysis_errors :: "nat \<Rightarrow> Tokens \<Rightarrow> (Node \<times> analyze_error) list option" where
  "analysis_errors n toks =
     (case parsed n toks of
        None \<Rightarrow> None
      | Some p \<Rightarrow>
          (case Analyze (analyze_New (parser_fn p)) (parser_nodes p) of
             Ok (es, s) \<Rightarrow> Some es
           | Panic m \<Rightarrow> None))"

definition analyzed :: "nat \<Rightarrow> Tokens \<Rightarrow> Node list option" where
  "analyzed n toks =
     (if analysis_errors n toks = Some [] then map_option parser_nodes (parsed n toks) else None)"

definition formed :: "nat \<Rightarrow> Tokens \<Rightarrow> (CFG \<times> cfg_state) res option" where
  "formed n toks =
     (case analyzed n toks of
        Some (fd # nodes) \<Rightarrow> Some (Form fd cfg_init)
      | _ \<Rightarrow> None)"

definition lowered :: "nat \<Rightarrow> Tokens \<Rightarrow> SSA option" where
  "lowered n toks =
     (case formed n toks of
        Some (Ok (c, st)) \<Rightarrow> (case ssa_New n c st of Some (Ok s) \<Rightarrow> Some s | _ \<Rightarrow> None)
      | _ \<Rightarrow> None)"

definition pipeline :: "nat \<Rightarrow> Tokens \<Rightarrow> 32 word option" where
  "pipeline n toks =
     (case lowered n toks of
        None \<Rightarrow> None
      | Some s \<Rightarrow> (case Run (Insert vm_New ''f'' s) of Ok (r, vm) \<Rightarrow> Some r | Panic m \<Rightarrow> None))"

text \<open>The targets of the \<^verbatim>\<open>STORE\<close> instructions of a listing, in order.\<close>

fun store_targets :: "Instruction list \<Rightarrow> ir_Variable list" where
  "store_targets [] = []"
| "store_targets (ir_Store ty to from # rest) = to # store_targets rest"
| "store_targets (i # rest) = store_targets rest"

text \<open>A loop with a plain body: \<^verbatim>\<open>void f(){ while(true){ 1; } }\<close>.\<close>

definition prog_while :: Tokens where
  "prog_while =
    [lexeme token_Id ''void'', lexeme token_Id ''f'', lexeme token_LParen ''('',
     lexeme token_RParen '')'', lexeme token_LCurly ''{'', lexeme token_Id ''while'',
     lexeme token_LParen ''('', lexeme token_True ''true'', lexeme token_RParen '')'',
     lexeme token_LCurly ''{'', lexeme token_DecNum ''1'', lexeme token_Semicolon '';'',
     lexeme token_RCurly ''}'', lexeme token_RCurly ''}'']"

text \<open>A loop with a \<^verbatim>\<open>break\<close> and a \<^verbatim>\<open>continue\<close> in its body: \<^verbatim>\<open>void f(){ for(int i=0; i<3; i++){ if(true) break; else continue; } }\<close>.\<close>

definition prog_for_break_continue :: Tokens where
  "prog_for_break_continue =
    [lexeme token_Id ''void'', lexeme token_Id ''f'', lexeme token_LParen ''('',
     lexeme token_RParen '')'', lexeme token_LCurly ''{'', lexeme token_Id ''for'',
     lexeme token_LParen ''('', lexeme token_Id ''int'', lexeme token_Id ''i'',
     lexeme token_Assign ''='', lexeme token_HexNum ''0'', lexeme token_Semicolon '';'',
     lexeme token_Id ''i'', lexeme token_Lt ''<'', lexeme token_DecNum ''3'',
     lexeme token_Semicolon '';'', lexeme token_Id ''i'', lexeme token_DPlus ''++'',
     lexeme token_RParen '')'', lexeme token_LCurly ''{'', lexeme token_Id ''if'',
     lexeme token_LParen ''('', lexeme token_True ''true'', lexeme token_RParen '')'',
     lexeme token_Id ''break'', lexeme token_Semicolon '';'', lexeme token_Id ''else'',
     lexeme token_Id ''continue'', lexeme token_Semicolon '';'', lexeme token_RCurly ''}'',
     lexeme token_RCurly ''}'']"

text \<open>The edges that leave a block of a graph: kind and target, in the order they were
  added.\<close>

definition edges :: "CFG \<times> cfg_state \<Rightarrow> BlockId \<Rightarrow> (BranchKind \<times> BlockId) list" where
  "edges g b =
     (case block_of (fst g) (snd g) b of
        None \<Rightarrow> []
      | Some bb \<Rightarrow> map (\<lambda>e. (Branch_Kind e, To e)) (Successors bb))"

text \<open>The variable tables along a scope chain, from the scope itself up to the root.\<close>

fun chain :: "scope option \<Rightarrow> (string \<Rightarrow> Type option) list" where
  "chain None = []"
| "chain (Some (Scope p n vs)) = vs # chain p"

text \<open>Two struct types of the same name, the second with one more field than the first.\<close>

definition struct_one_field :: Type where
  "struct_one_field =
     NewTypeExtra TYPE_STRUCT 0 0
       (ExtraStruct (Struct ''s'' [StructField ''a'' (NewType TYPE_INT 0 0)]))"

definition struct_two_fields :: Type where
  "struct_two_fields =
     NewTypeExtra TYPE_STRUCT 0 0
       (ExtraStruct (Struct ''s'' [StructField ''a'' (NewType TYPE_INT 0 0),
                                   StructField ''b'' (NewType TYPE_INT 0 0)]))"



text \<open>
  The semantic types the analyzer builds, relative to its table of struct definitions
  (\<^verbatim>\<open>res.Structs\<close>). \<^verbatim>\<open>KindToType\<close> gives a plain type no payload, a struct type the
  definition registered under the name (\<^verbatim>\<open>addStruct\<close> registers one definition for a name and
  refuses a second), a forward-declared struct its name, and a function type its signature;
  the fields of a struct and the types of a signature are built the same way.
\<close>

primrec registered_Type :: "(string \<Rightarrow> Struct option) \<Rightarrow> Type \<Rightarrow> bool"
and registered_Extra :: "(string \<Rightarrow> Struct option) \<Rightarrow> ExtraType \<Rightarrow> TypeEnum \<Rightarrow> bool"
and registered_Function :: "(string \<Rightarrow> Struct option) \<Rightarrow> Function \<Rightarrow> bool"
and registered_Struct :: "(string \<Rightarrow> Struct option) \<Rightarrow> Struct \<Rightarrow> bool"
and registered_Types :: "(string \<Rightarrow> Struct option) \<Rightarrow> Type list \<Rightarrow> bool"
and registered_Field :: "(string \<Rightarrow> Struct option) \<Rightarrow> StructField \<Rightarrow> bool"
and registered_Fields :: "(string \<Rightarrow> Struct option) \<Rightarrow> StructField list \<Rightarrow> bool"
where
  "registered_Type structs (Type t p a e) = registered_Extra structs e t"
| "registered_Extra structs NoExtra t =
     (t \<noteq> TYPE_STRUCT \<and> t \<noteq> TYPE_STRUCT_FWD \<and> t \<noteq> TYPE_FUNC)"
| "registered_Extra structs (ExtraStruct s) t =
     (t = TYPE_STRUCT \<and> registered_Struct structs s)"
| "registered_Extra structs (ExtraStructForward sf) t = (t = TYPE_STRUCT_FWD)"
| "registered_Extra structs (ExtraFunction f) t =
     (t = TYPE_FUNC \<and> registered_Function structs f)"
| "registered_Function structs (Function r ps) =
     (registered_Type structs r \<and> registered_Types structs ps)"
| "registered_Struct structs (Struct n fs) =
     (structs n = Some (Struct n fs) \<and> registered_Fields structs fs)"
| "registered_Types structs [] = True"
| "registered_Types structs (x # xs) =
     (registered_Type structs x \<and> registered_Types structs xs)"
| "registered_Field structs (StructField n ty) = registered_Type structs ty"
| "registered_Fields structs [] = True"
| "registered_Fields structs (x # xs) =
     (registered_Field structs x \<and> registered_Fields structs xs)"






text \<open>The tables of an analyzer hold built types only: every struct, typedef, function
  typedef and function in them is built over the table of structs.\<close>

definition tables_registered :: "Analyzer \<Rightarrow> bool" where
  "tables_registered s \<longleftrightarrow>
     (\<forall>n st. Structs (res s) n = Some st \<longrightarrow> registered_Struct (Structs (res s)) st)
     \<and> (\<forall>n t. Typedefs (res s) n = Some t \<longrightarrow> registered_Type (Structs (res s)) t)
     \<and> (\<forall>n f. TypedefFuncs (res s) n = Some f \<longrightarrow> registered_Function (Structs (res s)) f)
     \<and> (\<forall>n a f. Functions (res s) n = Some (a, f) \<longrightarrow> registered_Function (Structs (res s)) f)"



text \<open>A block whose first statement is a block with a statement that lacks its semicolon: \<^verbatim>\<open>{ { 1 1; } x; }\<close>.\<close>

definition block_nested_bad :: Tokens where
  "block_nested_bad =
    [lexeme token_LCurly ''{'', lexeme token_LCurly ''{'', lexeme token_DecNum ''1'',
     lexeme token_DecNum ''1'', lexeme token_Semicolon '';'', lexeme token_RCurly ''}'',
     lexeme token_Id ''x'', lexeme token_Semicolon '';'', lexeme token_RCurly ''}'']"

text \<open>
  Numeric literals as the lexer delivers them: a \<^verbatim>\<open>DecNum\<close> is a digit from 1 to 9 followed
  by decimal digits, a \<^verbatim>\<open>HexNum\<close> is \<^verbatim>\<open>0\<close> alone or \<^verbatim>\<open>0x\<close> (or \<^verbatim>\<open>0X\<close>) followed by at least
  one hexadecimal digit. The value of a literal is the value of its digits in its base.
\<close>

definition is_dec_digit :: "char \<Rightarrow> bool" where
  "is_dec_digit c \<longleftrightarrow> 48 \<le> (of_char c :: int) \<and> (of_char c :: int) \<le> 57"

definition is_hex_digit :: "char \<Rightarrow> bool" where
  "is_hex_digit c \<longleftrightarrow>
     is_dec_digit c \<or> 97 \<le> (of_char c :: int) \<and> (of_char c :: int) \<le> 102
       \<or> 65 \<le> (of_char c :: int) \<and> (of_char c :: int) \<le> 70"

definition dec_literal :: "string \<Rightarrow> bool" where
  "dec_literal s \<longleftrightarrow> s \<noteq> [] \<and> hd s \<noteq> CHR ''0'' \<and> (\<forall>c\<in>set s. is_dec_digit c)"

definition hex_literal :: "string \<Rightarrow> bool" where
  "hex_literal s \<longleftrightarrow>
     s = ''0''
     \<or> (take 2 s = ''0x'' \<or> take 2 s = ''0X'') \<and> drop 2 s \<noteq> []
         \<and> (\<forall>c\<in>set (drop 2 s). is_hex_digit c)"

definition numeric_literal :: "Token \<Rightarrow> bool" where
  "numeric_literal t \<longleftrightarrow>
     kind t = token_DecNum \<and> dec_literal (val t)
     \<or> kind t = token_HexNum \<and> hex_literal (val t)"

definition literal_base :: "Token \<Rightarrow> int" where
  "literal_base t = (if kind t = token_HexNum then 16 else 10)"

definition literal_digits :: "Token \<Rightarrow> string" where
  "literal_digits t =
     (if kind t = token_HexNum \<and> val t \<noteq> ''0'' then drop 2 (val t) else val t)"

definition digit_of :: "char \<Rightarrow> int" where
  "digit_of c =
     (let n = (of_char c :: int) in
      if is_dec_digit c then n - 48 else if 97 \<le> n then n - 87 else n - 55)"

definition digits_value :: "int \<Rightarrow> string \<Rightarrow> int" where
  "digits_value base ds = foldl (\<lambda>acc c. acc * base + digit_of c) 0 ds"

definition literal_value :: "Token \<Rightarrow> int" where
  "literal_value t = digits_value (literal_base t) (literal_digits t)"

text \<open>
  Whether a call of \<^verbatim>\<open>Stmt\<close> made by the statement loop of \<^verbatim>\<open>Block\<close> returns an error: the
  calls are those the loop makes one after the other from the stream behind the opening
  brace, each in the state its predecessor left, up to the closing brace or the end of the
  stream. Only the result of the call counts: a nested block that fails inside \<^verbatim>\<open>Stmt\<close> and
  is dropped there does not make the call return an error. The fuel is that of
  \<open>Block_loop\<close>.
\<close>

fun stmt_call_fails :: "nat \<Rightarrow> Parser \<Rightarrow> Tokens \<Rightarrow> bool" where
  "stmt_call_fails 0 p toks0 = False"
| "stmt_call_fails (Suc n) p toks0 =
     (case Peek toks0 of
        (None, toks) \<Rightarrow> False
      | (Some t, toks) \<Rightarrow>
          if kind t = token_RCurly then False
          else (case Stmt n p toks of
                  Done (Inr err, p1, toks1) \<Rightarrow> True
                | Done (Inl stmt, p1, toks1) \<Rightarrow> stmt_call_fails n p1 toks1
                | _ \<Rightarrow> False))"

text \<open>The token streams of \<^verbatim>\<open>{ 1; }\<close> and of \<^verbatim>\<open>{ ); 1; }\<close>.\<close>

definition block_good :: Tokens where
  "block_good =
     [lexeme token_LCurly ''{'', lexeme token_DecNum ''1'', lexeme token_Semicolon '';'',
      lexeme token_RCurly ''}'']"

definition block_bad :: Tokens where
  "block_bad =
     [lexeme token_LCurly ''{'', lexeme token_RParen '')'', lexeme token_Semicolon '';'',
      lexeme token_DecNum ''1'', lexeme token_Semicolon '';'', lexeme token_RCurly ''}'']"

section \<open>Properties of the token FIFO\<close>

lemma Pop_Cons: "Pop (tok # rest) = (Some tok, rest)"
  by (cases rest) simp_all

lemma Peek_Nil: "Peek [] = (None, [])"
  by (simp add: Peek.simps)

lemma Peek_Cons:
  "Peek (tok # rest) = (if is_comment tok then Peek rest else (Some tok, tok # rest))"
  by (subst Peek.simps) (simp add: Pop_Cons)

lemma Peek_dropWhile:
  "Peek toks = (case dropWhile is_comment toks of [] \<Rightarrow> None | tok # _ \<Rightarrow> Some tok,
                dropWhile is_comment toks)"
  by (induction toks) (simp_all add: Peek_Nil Peek_Cons)

text \<open>
  Claim C9. \<^verbatim>\<open>Peek\<close> removes the leading comment tokens from the stream for good: the
  stream it leaves is the old one without its leading run of \<^verbatim>\<open>CommentOne\<close> and
  \<^verbatim>\<open>CommentMulti\<close> tokens. The token it returns is never a comment, and a \<^verbatim>\<open>PeekAll\<close> or a
  \<^verbatim>\<open>Pop\<close> that follows returns that same token, so neither can return a comment that stood
  before it. On the empty stream \<^verbatim>\<open>Peek\<close>, \<^verbatim>\<open>PeekAll\<close> and \<^verbatim>\<open>Pop\<close> return \<^verbatim>\<open>nil\<close>.
\<close>

theorem Peek_drops_comments:
  "snd (Peek toks) = dropWhile is_comment toks
   \<and> PeekAll (snd (Peek toks)) = fst (Peek toks)
   \<and> fst (Pop (snd (Peek toks))) = fst (Peek toks)
   \<and> (case fst (Peek toks) of None \<Rightarrow> dropWhile is_comment toks = []
        | Some tok \<Rightarrow> \<not> is_comment tok \<and> dropWhile is_comment toks \<noteq> []
                     \<and> tok = hd (dropWhile is_comment toks))
   \<and> fst (Peek []) = None \<and> PeekAll [] = None \<and> fst (Pop []) = None"
proof -
  define d where "d = dropWhile is_comment toks"
  have P: "Peek toks = (case d of [] \<Rightarrow> None | tok # _ \<Rightarrow> Some tok, d)"
    unfolding d_def by (rule Peek_dropWhile)
  have nc: "\<not> is_comment (hd d)" if "d \<noteq> []"
    using that hd_dropWhile unfolding d_def by blast
  have main: "snd (Peek toks) = d
   \<and> PeekAll (snd (Peek toks)) = fst (Peek toks)
   \<and> fst (Pop (snd (Peek toks))) = fst (Peek toks)
   \<and> (case fst (Peek toks) of None \<Rightarrow> d = []
        | Some tok \<Rightarrow> \<not> is_comment tok \<and> d \<noteq> [] \<and> tok = hd d)"
    using nc by (cases d) (simp_all add: P PeekAll_def Pop_Cons)
  have empty: "fst (Peek []) = None \<and> PeekAll [] = None \<and> fst (Pop []) = None"
    by (simp add: Peek_Nil PeekAll_def)
  show ?thesis
    using main empty unfolding d_def by blast
qed

theorem Peek_drops_comments_witness:
  "snd (Peek [\<lparr>span = (0,0,0,0), kind = token_CommentOne, val = ''x''\<rparr>,
              \<lparr>span = (0,0,0,0), kind = token_CommentMulti, val = ''y''\<rparr>,
              \<lparr>span = (0,0,0,0), kind = token_DecNum, val = ''1''\<rparr>,
              \<lparr>span = (0,0,0,0), kind = token_CommentOne, val = ''z''\<rparr>])
     = [\<lparr>span = (0,0,0,0), kind = token_DecNum, val = ''1''\<rparr>,
        \<lparr>span = (0,0,0,0), kind = token_CommentOne, val = ''z''\<rparr>]"
  using Peek_drops_comments
    [of "[\<lparr>span = (0,0,0,0), kind = token_CommentOne, val = ''x''\<rparr>,
          \<lparr>span = (0,0,0,0), kind = token_CommentMulti, val = ''y''\<rparr>,
          \<lparr>span = (0,0,0,0), kind = token_DecNum, val = ''1''\<rparr>,
          \<lparr>span = (0,0,0,0), kind = token_CommentOne, val = ''z''\<rparr>]"]
  by (simp add: is_comment_def)

section \<open>Properties of type matching\<close>








text \<open>
  The table of struct definitions matters. \<^verbatim>\<open>StructFields.Matches\<close> walks the fields of its
  receiver and indexes the other list without comparing the lengths (\<^verbatim>\<open>Types.Matches\<close> does
  compare them). Two struct types of one name with different fields cannot both come from
  the table; on such a pair built by hand, the shorter one matches the longer one and the
  comparison the other way round indexes past the end.
\<close>

lemma Matches_struct_prefix_outside_table:
  "Type_Matches struct_one_field struct_two_fields = Ok True
   \<and> Type_Matches struct_two_fields struct_one_field = Panic ''index out of range''
   \<and> \<not> (registered_Type structs struct_one_field \<and> registered_Type structs struct_two_fields)"
  by (auto simp add: struct_one_field_def struct_two_fields_def NewTypeExtra_def NewType_def)

text \<open>
  The analyzer builds such types. A fresh analyzer has empty tables; \<^verbatim>\<open>KindToType\<close> leaves the
  tables alone and returns a type built over the table of structs; a type stays built when
  a struct is registered under a name that was free; and \<^verbatim>\<open>addStruct\<close>, \<^verbatim>\<open>addTypedef\<close>,
  \<^verbatim>\<open>addTypedefFunc\<close> and \<^verbatim>\<open>setFunction\<close> keep the tables built.
\<close>

lemma tables_registered_New: "tables_registered (analyze_New name)"
  by (simp add: tables_registered_def analyze_New_def)

lemma registered_Type_sel:
  "registered_Type structs td \<Longrightarrow> registered_Extra structs (Type_Extra td) (Type_Type td)"
  by (cases td) simp

lemma KindToType_res:
  assumes "KindToType s k = Ok (r, s')"
  shows "res s' = res s"
  using assms
  by (cases "Kind_Kind k"; cases "getTypedef s (Kind_Name k)";
      cases "getTypedefFunc s (Kind_Name k)"; cases "getStruct s (Kind_Name k)";
      cases "getStructFwd s (Kind_Name k)")
     (auto simp add: KindToType_def errorf_def split: if_splits)

lemma KindToType_registered:
  assumes "tables_registered s" and "KindToType s k = Ok (r, s')"
  shows "res s' = res s \<and> (\<forall>t. r = Inl t \<longrightarrow> registered_Type (Structs (res s)) t)"
proof -
  note E = KindToType_res [OF assms(2)]
  have TD: "registered_Extra (Structs (res s')) (Type_Extra t) (Type_Type t)"
    if "Typedefs (res s') n = Some t" for n t
    using assms(1) that registered_Type_sel unfolding tables_registered_def E by blast
  have TF: "registered_Function (Structs (res s')) f"
    if "TypedefFuncs (res s') n = Some f" for n f
    using assms(1) that unfolding tables_registered_def E by blast
  have ST: "registered_Struct (Structs (res s')) st"
    if "Structs (res s') n = Some st" for n st
    using assms(1) that unfolding tables_registered_def E by blast
  have "registered_Type (Structs (res s')) t" if "r = Inl t" for t
  proof (cases "Kind_Kind k")
    case KIND_TYPEDEF
    with assms(2) that show ?thesis
      by (cases "getTypedef s (Kind_Name k)"; cases "getTypedefFunc s (Kind_Name k)")
         (auto simp add: KindToType_def getTypedef_def getTypedefFunc_def errorf_def
            split: if_splits intro: TD TF)
  next
    case KIND_STRUCT
    with assms(2) that show ?thesis
      by (cases "getStruct s (Kind_Name k)"; cases "getStructFwd s (Kind_Name k)")
         (auto simp add: KindToType_def getStruct_def getStructFwd_def errorf_def
            split: if_splits intro: ST)
  next
    case KIND_INT
    with assms(2) that show ?thesis by (auto simp add: KindToType_def)
  next
    case KIND_BOOL
    with assms(2) that show ?thesis by (auto simp add: KindToType_def)
  next
    case KIND_STRING
    with assms(2) that show ?thesis by (auto simp add: KindToType_def)
  next
    case KIND_VOID
    with assms(2) that show ?thesis by (auto simp add: KindToType_def)
  next
    case KIND_CHAR
    with assms(2) that show ?thesis by (auto simp add: KindToType_def)
  qed
  with E show ?thesis by simp
qed

lemma registered_Types_set:
  "registered_Types structs ts \<longleftrightarrow> (\<forall>t\<in>set ts. registered_Type structs t)"
  by (induction ts) simp_all

lemma registered_Fields_set:
  "registered_Fields structs fs \<longleftrightarrow> (\<forall>f\<in>set fs. registered_Field structs f)"
  by (induction fs) simp_all

lemma registered_fresh:
  assumes "structs nm = None"
  shows "registered_Type structs a \<longrightarrow> registered_Type (structs(nm \<mapsto> str)) a"
  and "\<forall>t. registered_Extra structs e t \<longrightarrow> registered_Extra (structs(nm \<mapsto> str)) e t"
  and "registered_Function structs f \<longrightarrow> registered_Function (structs(nm \<mapsto> str)) f"
  and "registered_Struct structs s \<longrightarrow> registered_Struct (structs(nm \<mapsto> str)) s"
  and "registered_Field structs sf \<longrightarrow> registered_Field (structs(nm \<mapsto> str)) sf"
proof (induction a and e and f and s and sf)
  case (Type t p a e)
  then show ?case by simp
next
  case NoExtra
  show ?case by simp
next
  case (ExtraFunction f)
  then show ?case by simp
next
  case (ExtraStruct s)
  then show ?case by simp
next
  case (ExtraStructForward sf)
  show ?case by simp
next
  case (Function r ps)
  then show ?case by (simp add: registered_Types_set)
next
  case (Struct n fs)
  from assms have "n \<noteq> nm" if "structs n = Some (Struct n fs)" using that by auto
  with Struct show ?case by (auto simp add: registered_Fields_set)
next
  case (StructField n ty)
  then show ?case by simp
qed

lemma tables_registered_res: "res s' = res s \<Longrightarrow> tables_registered s' = tables_registered s"
  by (simp add: tables_registered_def)

lemma StructFieldsFromVarDecls_registered:
  assumes "tables_registered s" and "registered_Fields (Structs (res s)) ret"
    and "StructFieldsFromVarDecls s vds ret = Ok ((sf, err), s')"
  shows "res s' = res s \<and> registered_Fields (Structs (res s)) sf"
  using assms
proof (induction vds arbitrary: s ret)
  case Nil
  then show ?case by simp
next
  case (Cons vd vds)
  show ?case
  proof (cases "KindToType s (VarDecl_Kind vd)")
    case (Panic m)
    with Cons.prems(3) show ?thesis by simp
  next
    case (Ok x)
    obtain r s1 where x: "x = (r, s1)" by (cases x)
    from KindToType_registered [OF Cons.prems(1) Ok [unfolded x]]
    have E: "res s1 = res s"
      and R: "\<And>t. r = Inl t \<Longrightarrow> registered_Type (Structs (res s)) t" by simp_all
    show ?thesis
    proof (cases r)
      case (Inr e)
      with Cons.prems Ok x E show ?thesis by auto
    next
      case (Inl t)
      show ?thesis
      proof (cases "Type_Type t = TYPE_STRUCT_FWD \<and> Type_PointerLevel t = 0")
        case True
        with Cons.prems Ok x E Inl show ?thesis by auto
      next
        case False
        with Cons.prems(3) Ok x Inl
        have S: "StructFieldsFromVarDecls s1 vds (ret @ [StructField (VarDecl_Name vd) t])
                   = Ok ((sf, err), s')" by auto
        have T1: "tables_registered s1"
          using Cons.prems(1) tables_registered_res [OF E] by simp
        have F1: "registered_Fields (Structs (res s1))
                    (ret @ [StructField (VarDecl_Name vd) t])"
          using Cons.prems(2) R [OF Inl] E by (simp add: registered_Fields_set)
        from Cons.IH [OF T1 F1 S] E show ?thesis by simp
      qed
    qed
  qed
qed

lemma TypesFromVarDecls_registered:
  assumes "tables_registered s" and "registered_Types (Structs (res s)) ret"
    and "TypesFromVarDecls s vds ret = Ok ((ts, err), s')"
  shows "res s' = res s \<and> registered_Types (Structs (res s)) ts"
  using assms
proof (induction vds arbitrary: s ret)
  case Nil
  then show ?case by simp
next
  case (Cons vd vds)
  show ?case
  proof (cases "KindToType s (VarDecl_Kind vd)")
    case (Panic m)
    with Cons.prems(3) show ?thesis by simp
  next
    case (Ok x)
    obtain r s1 where x: "x = (r, s1)" by (cases x)
    from KindToType_registered [OF Cons.prems(1) Ok [unfolded x]]
    have E: "res s1 = res s"
      and R: "\<And>t. r = Inl t \<Longrightarrow> registered_Type (Structs (res s)) t" by simp_all
    show ?thesis
    proof (cases r)
      case (Inr e)
      with Cons.prems Ok x E show ?thesis by auto
    next
      case (Inl t)
      with Cons.prems(3) Ok x
      have S: "TypesFromVarDecls s1 vds (ret @ [t]) = Ok ((ts, err), s')" by auto
      have T1: "tables_registered s1"
        using Cons.prems(1) tables_registered_res [OF E] by simp
      have F1: "registered_Types (Structs (res s1)) (ret @ [t])"
        using Cons.prems(2) R [OF Inl] E by (simp add: registered_Types_set)
      from Cons.IH [OF T1 F1 S] E show ?thesis by simp
    qed
  qed
qed

lemma tables_registered_fresh_struct:
  assumes "tables_registered s" and "Structs (res s) name = None"
    and "registered_Fields (Structs (res s)) sf"
  shows "tables_registered
           (s\<lparr> res := (res s)\<lparr> Structs := (Structs (res s))(name \<mapsto> Struct name sf) \<rparr> \<rparr>)"
proof -
  let ?new = "(Structs (res s))(name \<mapsto> Struct name sf)"
  note F = registered_fresh [where structs = "Structs (res s)" and nm = name
                               and str = "Struct name sf", OF assms(2)]
  have N: "registered_Struct ?new (Struct name sf)"
    using assms(3) F(5) by (auto simp add: registered_Fields_set)
  show ?thesis
    using assms(1) N F(1,3,4)
    unfolding tables_registered_def by (auto split: if_splits)
qed

lemma addStruct_registered:
  assumes "tables_registered s" and "addStruct s name members = Ok (e, s')"
  shows "tables_registered s'"
proof (cases "Structs (res s) name")
  case (Some st)
  with assms show ?thesis by (simp add: addStruct_def)
next
  case None
  show ?thesis
  proof (cases "StructFieldsFromVarDecls s members []")
    case (Panic m)
    with assms(2) None show ?thesis by (simp add: addStruct_def StructFromNode_def)
  next
    case (Ok x)
    obtain sf err s1 where x: "x = ((sf, err), s1)" by (cases x) auto
    from StructFieldsFromVarDecls_registered [OF assms(1) _ Ok [unfolded x]]
    have E: "res s1 = res s" and R: "registered_Fields (Structs (res s)) sf" by simp_all
    have T1: "tables_registered s1"
      using assms(1) tables_registered_res [OF E] by simp
    show ?thesis
    proof (cases err)
      case (Some e1)
      with assms(2) None Ok x T1 show ?thesis
        by (auto simp add: addStruct_def StructFromNode_def)
    next
      case none: None
      from assms(2) None Ok x none
      have s': "s' = s1\<lparr> res := (res s1)\<lparr> Structs :=
                       (Structs (res s1))(name \<mapsto> Struct name sf) \<rparr> \<rparr>"
        by (auto simp add: addStruct_def StructFromNode_def)
      from None E have N1: "Structs (res s1) name = None" by simp
      from R E have R1: "registered_Fields (Structs (res s1)) sf" by simp
      from tables_registered_fresh_struct [OF T1 N1 R1] show ?thesis unfolding s' .
    qed
  qed
qed

lemma addTypedef_registered:
  assumes "tables_registered s" and "addTypedef s name k = Ok (e, s')"
  shows "tables_registered s'"
proof (cases "Typedefs (res s) name")
  case (Some td)
  with assms show ?thesis by (simp add: addTypedef_def)
next
  case None
  show ?thesis
  proof (cases "KindToType s k")
    case (Panic m)
    with assms(2) None show ?thesis by (simp add: addTypedef_def TypedefFromNode_def)
  next
    case (Ok x)
    obtain r s1 where x: "x = (r, s1)" by (cases x)
    from KindToType_registered [OF assms(1) Ok [unfolded x]]
    have E: "res s1 = res s"
      and R: "\<And>t. r = Inl t \<Longrightarrow> registered_Type (Structs (res s)) t" by simp_all
    have T1: "tables_registered s1"
      using assms(1) tables_registered_res [OF E] by simp
    show ?thesis
    proof (cases r)
      case (Inr e1)
      with assms(2) None Ok x T1 show ?thesis
        by (auto simp add: addTypedef_def TypedefFromNode_def)
    next
      case (Inl td)
      from assms(2) None Ok x Inl
      have s': "s' = s1\<lparr> res := (res s1)\<lparr> Typedefs := (Typedefs (res s1))(name \<mapsto> td) \<rparr> \<rparr>"
        by (auto simp add: addTypedef_def TypedefFromNode_def)
      from T1 R [OF Inl] E show ?thesis
        unfolding s' tables_registered_def by (auto split: if_splits)
    qed
  qed
qed

lemma FunctionFromNodeTypedefFunc_registered:
  assumes "tables_registered s"
    and "FunctionFromNodeTypedefFunc s rets params = Ok (r, s')"
  shows "res s' = res s \<and> (\<forall>f. r = Inl f \<longrightarrow> registered_Function (Structs (res s)) f)"
proof (cases "KindToType s rets")
  case (Panic m)
  with assms(2) show ?thesis by (simp add: FunctionFromNodeTypedefFunc_def)
next
  case (Ok x)
  obtain r1 s1 where x: "x = (r1, s1)" by (cases x)
  from KindToType_registered [OF assms(1) Ok [unfolded x]]
  have E: "res s1 = res s"
    and R: "\<And>t. r1 = Inl t \<Longrightarrow> registered_Type (Structs (res s)) t" by simp_all
  have T1: "tables_registered s1"
    using assms(1) tables_registered_res [OF E] by simp
  show ?thesis
  proof (cases r1)
    case (Inr e1)
    with assms(2) Ok x E show ?thesis by (auto simp add: FunctionFromNodeTypedefFunc_def)
  next
    case (Inl t)
    show ?thesis
    proof (cases "TypesFromVarDecls s1 params []")
      case (Panic m)
      with assms(2) Ok x Inl show ?thesis by (simp add: FunctionFromNodeTypedefFunc_def)
    next
      case ok2: (Ok y)
      obtain ts err s2 where y: "y = ((ts, err), s2)" by (cases y) auto
      from TypesFromVarDecls_registered [OF T1 _ ok2 [unfolded y]]
      have E2: "res s2 = res s1" and R2: "registered_Types (Structs (res s1)) ts"
        by simp_all
      from assms(2) Ok x Inl ok2 y E E2 R [OF Inl] R2 show ?thesis
        by (cases err) (auto simp add: FunctionFromNodeTypedefFunc_def)
    qed
  qed
qed

lemma FunctionFromNodeFunDecl_registered:
  assumes "tables_registered s" and "FunctionFromNodeFunDecl s n = Ok (r, s')"
  shows "res s' = res s \<and> (\<forall>f. r = Inl f \<longrightarrow> registered_Function (Structs (res s)) f)"
proof (cases "TypesFromVarDecls s (FunDecl_Params n) []")
  case (Panic m)
  with assms(2) show ?thesis by (simp add: FunctionFromNodeFunDecl_def)
next
  case (Ok y)
  obtain ts err s1 where y: "y = ((ts, err), s1)" by (cases y) auto
  from TypesFromVarDecls_registered [OF assms(1) _ Ok [unfolded y]]
  have E: "res s1 = res s" and R: "registered_Types (Structs (res s)) ts" by simp_all
  have T1: "tables_registered s1"
    using assms(1) tables_registered_res [OF E] by simp
  show ?thesis
  proof (cases err)
    case (Some e1)
    with assms(2) Ok y E show ?thesis by (auto simp add: FunctionFromNodeFunDecl_def)
  next
    case None
    show ?thesis
    proof (cases "KindToType s1 (FunDecl_Returns n)")
      case (Panic m)
      with assms(2) Ok y None show ?thesis by (simp add: FunctionFromNodeFunDecl_def)
    next
      case ok2: (Ok x)
      obtain r1 s2 where x: "x = (r1, s2)" by (cases x)
      from KindToType_registered [OF T1 ok2 [unfolded x]]
      have E2: "res s2 = res s1"
        and R2: "\<And>t. r1 = Inl t \<Longrightarrow> registered_Type (Structs (res s1)) t" by simp_all
      from assms(2) Ok y None ok2 x E E2 R R2 show ?thesis
        by (cases r1) (auto simp add: FunctionFromNodeFunDecl_def)
    qed
  qed
qed

lemma addTypedefFunc_registered:
  assumes "tables_registered s" and "addTypedefFunc s name rets params = Ok (e, s')"
  shows "tables_registered s'"
proof (cases "TypedefFuncs (res s) name")
  case (Some f)
  with assms show ?thesis by (simp add: addTypedefFunc_def)
next
  case None
  show ?thesis
  proof (cases "FunctionFromNodeTypedefFunc s rets params")
    case (Panic m)
    with assms(2) None show ?thesis by (simp add: addTypedefFunc_def)
  next
    case (Ok x)
    obtain r s1 where x: "x = (r, s1)" by (cases x)
    from FunctionFromNodeTypedefFunc_registered [OF assms(1) Ok [unfolded x]]
    have E: "res s1 = res s"
      and R: "\<And>f. r = Inl f \<Longrightarrow> registered_Function (Structs (res s)) f" by simp_all
    have T1: "tables_registered s1"
      using assms(1) tables_registered_res [OF E] by simp
    show ?thesis
    proof (cases r)
      case (Inr e1)
      with assms(2) None Ok x T1 show ?thesis by (auto simp add: addTypedefFunc_def)
    next
      case (Inl f)
      from assms(2) None Ok x Inl
      have s': "s' = s1\<lparr> res := (res s1)\<lparr> TypedefFuncs :=
                       (TypedefFuncs (res s1))(name \<mapsto> f) \<rparr> \<rparr>"
        by (auto simp add: addTypedefFunc_def)
      from T1 R [OF Inl] E show ?thesis
        unfolding s' tables_registered_def by (auto split: if_splits)
    qed
  qed
qed

lemma setFunction_registered:
  assumes "tables_registered s" and "setFunction s fd = Ok (e, s')"
  shows "tables_registered s'"
proof (cases "FunctionFromNodeFunDecl s fd")
  case (Panic m)
  with assms(2) show ?thesis by (simp add: setFunction_def)
next
  case (Ok x)
  obtain r s1 where x: "x = (r, s1)" by (cases x)
  from FunctionFromNodeFunDecl_registered [OF assms(1) Ok [unfolded x]]
  have E: "res s1 = res s"
    and R: "\<And>f. r = Inl f \<Longrightarrow> registered_Function (Structs (res s)) f" by simp_all
  have T1: "tables_registered s1"
    using assms(1) tables_registered_res [OF E] by simp
  show ?thesis
  proof (cases r)
    case (Inr e1)
    with assms(2) Ok x T1 show ?thesis by (auto simp add: setFunction_def)
  next
    case (Inl f)
    have U: "tables_registered
               (s1\<lparr> res := (res s1)\<lparr> Functions :=
                        (Functions (res s1))(FunDecl_Name fd \<mapsto> (nextfunc s1, f)) \<rparr>,
                    nextfunc := nextfunc s1 + 1 \<rparr>)"
      using T1 R [OF Inl] E unfolding tables_registered_def by (auto split: if_splits)
    from assms(2) Ok x Inl T1 U show ?thesis
      by (auto simp add: setFunction_def bindr_def split: option.splits res.splits if_splits)
  qed
qed

lemma registered_plain_types:
  "registered_Type structs typeInt \<and> registered_Type structs typeBool
   \<and> registered_Type structs typeChar \<and> registered_Type structs typeVoid"
  by (simp add: typeInt_def typeBool_def typeChar_def typeVoid_def NewType_def)

lemma registered_level_changes:
  assumes "registered_Type structs t"
  shows "registered_Type structs (IncPtr t) \<and> registered_Type structs (IncArray t)
     \<and> (\<forall>t'. DecPtr t = Ok t' \<longrightarrow> registered_Type structs t')
     \<and> (\<forall>t'. DecArray t = Ok t' \<longrightarrow> registered_Type structs t')"
  using assms
  by (cases t) (auto simp add: IncPtr_def IncArray_def DecPtr_def DecArray_def split: if_splits)

lemma registered_field_type:
  assumes "registered_Fields structs fs" and "StructFields_Find fs name = Some f"
  shows "registered_Type structs (StructField_Type f)"
  using assms
proof (induction fs)
  case Nil
  then show ?case by simp
next
  case (Cons x xs)
  then show ?case by (cases x; cases f) (auto split: if_splits)
qed

section \<open>Properties of scopes\<close>

lemma scope_get_chain:
  "scope_get s x = (case List.find (\<lambda>vs. vs x \<noteq> None) (chain s) of
                      None \<Rightarrow> None | Some vs \<Rightarrow> vs x)"
proof (induction s x rule: scope_get.induct)
  case (1 name)
  show ?case by simp
next
  case (2 p n vs name)
  then show ?case by (cases "vs name") simp_all
qed

lemma scope_get_None_iff: "scope_get s x = None \<longleftrightarrow> (\<forall>vs\<in>set (chain s). vs x = None)"
proof (induction s x rule: scope_get.induct)
  case (1 name)
  show ?case by simp
next
  case (2 p n vs name)
  then show ?case by (cases "vs name") simp_all
qed

text \<open>
  Claim C3. Looking an identifier up in a scope returns its innermost binding: the binding
  in the first table of the chain (the scope itself, then its parent, and so on) that binds
  it, and nothing when no table does. Adding an identifier fails with
  \<^verbatim>\<open>errVarAlreadyDefined\<close>, leaving the scope as it was, exactly when some table of the
  chain binds it; otherwise the identifier is bound in the scope itself.
\<close>

theorem scope_lookup_innermost_add_no_shadowing:
  "scope_get s x = (case List.find (\<lambda>vs. vs x \<noteq> None) (chain s) of
                      None \<Rightarrow> None | Some vs \<Rightarrow> vs x)
   \<and> (scope_add (Some sc) name knd = Ok (Some errVarAlreadyDefined, Some sc)
        \<longleftrightarrow> (\<exists>vs\<in>set (chain (Some sc)). vs name \<noteq> None))
   \<and> (scope_add (Some sc) name knd
          = Ok (None, Some (Scope (parent sc) (scope_node sc) ((vars sc)(name \<mapsto> knd))))
        \<longleftrightarrow> (\<forall>vs\<in>set (chain (Some sc)). vs name = None))"
proof -
  have N: "scope_get (Some sc) name = None \<longleftrightarrow> (\<forall>vs\<in>set (chain (Some sc)). vs name = None)"
    by (rule scope_get_None_iff)
  have A: "scope_add (Some sc) name knd = Ok (Some errVarAlreadyDefined, Some sc)
        \<longleftrightarrow> (\<exists>vs\<in>set (chain (Some sc)). vs name \<noteq> None)"
    using N by (cases "scope_get (Some sc) name = None") (simp_all del: scope_get.simps)
  have B: "scope_add (Some sc) name knd
          = Ok (None, Some (Scope (parent sc) (scope_node sc) ((vars sc)(name \<mapsto> knd))))
        \<longleftrightarrow> (\<forall>vs\<in>set (chain (Some sc)). vs name = None)"
    using N by (cases "scope_get (Some sc) name = None") (simp_all del: scope_get.simps)
  from scope_get_chain [of s x] A B show ?thesis by blast
qed

theorem scope_lookup_innermost_add_no_shadowing_witness:
  "scope_get (Some (Scope (Some (Scope None NilNode [''x'' \<mapsto> NewType TYPE_INT 0 0,
                                                   ''y'' \<mapsto> NewType TYPE_INT 0 0]))
                    NilNode [''y'' \<mapsto> NewType TYPE_BOOL 0 0])) ''y''
     = Some (NewType TYPE_BOOL 0 0)
   \<and> scope_add (Some (Scope (Some (Scope None NilNode [''x'' \<mapsto> NewType TYPE_INT 0 0,
                                                      ''y'' \<mapsto> NewType TYPE_INT 0 0]))
                       NilNode [''y'' \<mapsto> NewType TYPE_BOOL 0 0])) ''x'' (NewType TYPE_CHAR 0 0)
     = Ok (Some errVarAlreadyDefined,
           Some (Scope (Some (Scope None NilNode [''x'' \<mapsto> NewType TYPE_INT 0 0,
                                                 ''y'' \<mapsto> NewType TYPE_INT 0 0]))
                  NilNode [''y'' \<mapsto> NewType TYPE_BOOL 0 0]))"
  using scope_lookup_innermost_add_no_shadowing
    [of "Some (Scope (Some (Scope None NilNode [''x'' \<mapsto> NewType TYPE_INT 0 0,
                                               ''y'' \<mapsto> NewType TYPE_INT 0 0]))
                NilNode [''y'' \<mapsto> NewType TYPE_BOOL 0 0])"
        "''y''"
        "Scope (Some (Scope None NilNode [''x'' \<mapsto> NewType TYPE_INT 0 0,
                                         ''y'' \<mapsto> NewType TYPE_INT 0 0]))
           NilNode [''y'' \<mapsto> NewType TYPE_BOOL 0 0]"
        "''x''" "NewType TYPE_CHAR 0 0"]
  by simp

section \<open>Properties of the equality check\<close>









section \<open>Properties of the ternary bookkeeping\<close>

text \<open>
  Claim C7 says that after analysis every valid pair of \<^verbatim>\<open>?\<close> and \<^verbatim>\<open>:\<close> has the count 2, so
  that only a \<^verbatim>\<open>:\<close> without its \<^verbatim>\<open>?\<close> is reported; the comment of \<^verbatim>\<open>MarkTernaryVal\<close> says the
  same. \<^verbatim>\<open>checkTernaryCond\<close> returns before it counts when the condition has no type, and a
  conditional expression is never given one. So in
  \<^verbatim>\<open>void c() { (true ? true : false) ? 1 : 0; }\<close> the outer pair, whose condition is the
  inner conditional expression, stays at 1 and is reported as
  \<^verbatim>\<open>ErrTernaryMissingCond\<close>, the only diagnostic of the analysis.
\<close>

theorem valid_ternary_pair_reported:
  "map_option (map snd) (analysis_errors 20 prog_ternary_cond) = Some [ErrTernaryMissingCond]"
  by code_simp

theorem valid_ternary_pair_reported_witness:
  "analysis_errors 20 prog_ternary_cond \<noteq> Some []"
  using valid_ternary_pair_reported by auto

section \<open>Properties of numeric literals\<close>

lemma digit_val_hex:
  "is_hex_digit c \<Longrightarrow> digit_val c = Some (digit_of c) \<and> 0 \<le> digit_of c \<and> digit_of c < 16"
  by (auto simp add: is_hex_digit_def is_dec_digit_def digit_val_def digit_of_def Let_def)

lemma digit_val_dec:
  "is_dec_digit c \<Longrightarrow> digit_val c = Some (digit_of c) \<and> 0 \<le> digit_of c \<and> digit_of c < 10"
  by (auto simp add: is_dec_digit_def digit_val_def digit_of_def Let_def)

lemma parse_digits_value:
  assumes "\<forall>c\<in>set ds. digit_val c = Some (digit_of c) \<and> 0 \<le> digit_of c \<and> digit_of c < base"
  shows "parse_digits base ds acc = Some (foldl (\<lambda>acc c. acc * base + digit_of c) acc ds)"
  using assms by (induction ds arbitrary: acc) simp_all

lemma foldl_digits_nonneg:
  assumes "\<forall>c\<in>set ds. 0 \<le> digit_of c" and "0 \<le> acc" and "0 \<le> base"
  shows "0 \<le> foldl (\<lambda>acc c. acc * base + digit_of c) acc ds"
  using assms by (induction ds arbitrary: acc) simp_all

lemma is_dec_digit_not_sign: "is_dec_digit c \<Longrightarrow> c \<noteq> CHR ''+'' \<and> c \<noteq> CHR ''-''"
  by (auto simp add: is_dec_digit_def)

lemma is_hex_digit_not_sign: "is_hex_digit c \<Longrightarrow> c \<noteq> CHR ''+'' \<and> c \<noteq> CHR ''-''"
  by (auto simp add: is_hex_digit_def is_dec_digit_def)

lemma literal_digits_ok:
  assumes "numeric_literal t"
  shows "literal_digits t \<noteq> []
     \<and> hd (literal_digits t) \<noteq> CHR ''+'' \<and> hd (literal_digits t) \<noteq> CHR ''-''
     \<and> (\<forall>c\<in>set (literal_digits t).
           digit_val c = Some (digit_of c) \<and> 0 \<le> digit_of c \<and> digit_of c < literal_base t)"
proof (cases "kind t = token_HexNum")
  case True
  with assms have H: "hex_literal (val t)" by (simp add: numeric_literal_def)
  show ?thesis
  proof (cases "val t = ''0''")
    case z: True
    with True show ?thesis
      by (simp add: literal_digits_def literal_base_def digit_val_def digit_of_def
            is_dec_digit_def)
  next
    case nz: False
    with H have ne: "drop 2 (val t) \<noteq> []" and hx: "\<forall>c\<in>set (drop 2 (val t)). is_hex_digit c"
      by (simp_all add: hex_literal_def)
    from ne have "hd (drop 2 (val t)) \<in> set (drop 2 (val t))" by simp
    with hx have "is_hex_digit (hd (drop 2 (val t)))" by blast
    then have sg: "hd (drop 2 (val t)) \<noteq> CHR ''+'' \<and> hd (drop 2 (val t)) \<noteq> CHR ''-''"
      by (rule is_hex_digit_not_sign)
    from hx have dg: "\<forall>c\<in>set (drop 2 (val t)).
        digit_val c = Some (digit_of c) \<and> 0 \<le> digit_of c \<and> digit_of c < 16"
      using digit_val_hex by blast
    from True nz ne sg dg show ?thesis
      by (simp add: literal_digits_def literal_base_def)
  qed
next
  case False
  with assms have D: "dec_literal (val t)" by (simp add: numeric_literal_def)
  then have ne: "val t \<noteq> []" and dd: "\<forall>c\<in>set (val t). is_dec_digit c"
    by (simp_all add: dec_literal_def)
  from ne have "hd (val t) \<in> set (val t)" by simp
  with dd have "is_dec_digit (hd (val t))" by blast
  then have sg: "hd (val t) \<noteq> CHR ''+'' \<and> hd (val t) \<noteq> CHR ''-''"
    by (rule is_dec_digit_not_sign)
  from dd have dg: "\<forall>c\<in>set (val t).
      digit_val c = Some (digit_of c) \<and> 0 \<le> digit_of c \<and> digit_of c < 10"
    using digit_val_dec by blast
  from False ne sg dg show ?thesis
    by (simp add: literal_digits_def literal_base_def)
qed

lemma literal_value_nonneg:
  assumes "numeric_literal t"
  shows "0 \<le> literal_value t"
proof -
  from literal_digits_ok [OF assms]
  have "\<forall>c\<in>set (literal_digits t). 0 \<le> digit_of c" by blast
  moreover have "0 \<le> literal_base t" by (simp add: literal_base_def)
  ultimately show ?thesis
    unfolding literal_value_def digits_value_def
    by (intro foldl_digits_nonneg) simp_all
qed

lemma ParseInt_literal:
  assumes "numeric_literal t"
  shows "ParseInt (literal_digits t) (literal_base t) 32
           = (if literal_value t < 2 ^ 31 then Some (literal_value t) else None)"
proof -
  from literal_digits_ok [OF assms]
  have ne: "literal_digits t \<noteq> []"
    and sg: "hd (literal_digits t) \<noteq> CHR ''+''" "hd (literal_digits t) \<noteq> CHR ''-''"
    and dg: "\<forall>c\<in>set (literal_digits t).
           digit_val c = Some (digit_of c) \<and> 0 \<le> digit_of c \<and> digit_of c < literal_base t"
    by blast+
  have pd: "parse_digits (literal_base t) (literal_digits t) 0 = Some (literal_value t)"
    unfolding literal_value_def digits_value_def by (rule parse_digits_value [OF dg])
  from ne sg pd show ?thesis
    by (simp add: ParseInt_def Let_def)
qed

lemma expratom_num_literal:
  assumes "numeric_literal this"
  shows "expratom_num p this (this # rest) =
     (if literal_value this < 2 ^ 31
      then Done (Inl (Numeric (globalid p + 1) (word_of_int (literal_value this))
                        (literal_base this)),
                 snd (Store p this), rest)
      else Done (Inr (Err ''invalid integer: %w'' (Some (Err ''strconv.ParseInt'' None))),
                 p\<lparr> parser_errs := parser_errs p
                      @ [(Some this,
                          Err ''invalid integer: %w'' (Some (Err ''strconv.ParseInt'' None)))] \<rparr>,
                 rest))"
proof -
  have nb: "\<not> (kind this = token_HexNum \<and> val this \<noteq> ''0'' \<and> length (val this) < 2)"
  proof
    assume A: "kind this = token_HexNum \<and> val this \<noteq> ''0'' \<and> length (val this) < 2"
    with assms have "drop 2 (val this) \<noteq> []"
      by (simp add: numeric_literal_def hex_literal_def)
    with A show False by simp
  qed
  have P: "ParseInt (if kind this = token_HexNum \<and> val this \<noteq> ''0'' then drop 2 (val this)
                     else val this)
             (if kind this = token_HexNum then 16 else 10) 32
           = (if literal_value this < 2 ^ 31 then Some (literal_value this) else None)"
    using ParseInt_literal [OF assms] by (simp add: literal_digits_def literal_base_def)
  show ?thesis
    unfolding expratom_num_def Let_def
    using nb
    by (simp only: P if_False Pop_Cons snd_conv)
       (simp add: Store_def parse_errorf_def literal_base_def)
qed

lemma expratom_num_branch:
  assumes "kind this = token_DecNum \<or> kind this = token_HexNum"
  shows "expratom (Suc n) p (this # rest) = expratom_num p this (this # rest)"
  using assms
  by (auto simp add: expratom_body_def Peek_Cons is_comment_def)

lemma sint_word_of_int_32:
  assumes "0 \<le> v" and "v < 2 ^ 31"
  shows "sint (word_of_int v :: 32 word) = v"
proof -
  have "sint (word_of_int v :: 32 word) = signed_take_bit 31 v"
    by (simp add: sint_sbintrunc')
  also have "\<dots> = v"
    using assms by (intro signed_take_bit_int_eq_self) simp_all
  finally show ?thesis .
qed

text \<open>
  Claim C8. On a decimal literal (a digit from 1 to 9, then decimal digits) or a hex literal
  (\<^verbatim>\<open>0\<close> alone, or \<^verbatim>\<open>0x\<close> and hexadecimal digits) at the head of the stream, \<^verbatim>\<open>expratom\<close>
  consumes the token and, when the value of the literal is below \<open>2^31\<close>, returns a
  \<^verbatim>\<open>Numeric\<close> node with a fresh identifier that carries the value as a signed 32-bit
  integer and the base, 10 or 16. When the value does not fit a signed 32-bit integer it
  returns the error \<^verbatim>\<open>invalid integer\<close> and records it.
\<close>

theorem expratom_numeric_literal:
  assumes "numeric_literal this"
  shows "expratom (Suc n) p (this # rest) =
     (if literal_value this < 2 ^ 31
      then Done (Inl (Numeric (globalid p + 1) (word_of_int (literal_value this))
                        (literal_base this)),
                 snd (Store p this), rest)
      else Done (Inr (Err ''invalid integer: %w'' (Some (Err ''strconv.ParseInt'' None))),
                 p\<lparr> parser_errs := parser_errs p
                      @ [(Some this,
                          Err ''invalid integer: %w'' (Some (Err ''strconv.ParseInt'' None)))] \<rparr>,
                 rest))
   \<and> (literal_value this < 2 ^ 31
        \<longrightarrow> sint (word_of_int (literal_value this) :: 32 word) = literal_value this)
   \<and> (literal_base this = 10 \<or> literal_base this = 16)"
proof -
  from assms have K: "kind this = token_DecNum \<or> kind this = token_HexNum"
    by (auto simp add: numeric_literal_def)
  have A: "expratom (Suc n) p (this # rest) = expratom_num p this (this # rest)"
    by (rule expratom_num_branch [OF K])
  have B: "literal_value this < 2 ^ 31
        \<longrightarrow> sint (word_of_int (literal_value this) :: 32 word) = literal_value this"
    using sint_word_of_int_32 [OF literal_value_nonneg [OF assms]] by blast
  have C: "literal_base this = 10 \<or> literal_base this = 16"
    by (simp add: literal_base_def)
  from A B C expratom_num_literal [OF assms, of p rest] show ?thesis by simp
qed

theorem expratom_numeric_literal_witness:
  "expratom 1 parse_New [lexeme token_HexNum ''0x7fffffff'', lexeme token_Semicolon '';'']
     = Done (Inl (Numeric 1 2147483647 16),
             snd (Store parse_New (lexeme token_HexNum ''0x7fffffff'')),
             [lexeme token_Semicolon '';''])
   \<and> sint (2147483647 :: 32 word) = 2147483647"
  using expratom_numeric_literal
    [of "lexeme token_HexNum ''0x7fffffff''" 0 parse_New "[lexeme token_Semicolon '';'']"]
  by (simp add: numeric_literal_def hex_literal_def is_hex_digit_def is_dec_digit_def
        literal_value_def literal_base_def literal_digits_def digits_value_def digit_of_def
        lexeme_def parse_New_def NewFile_def)

lemma expratom_literal_examples:
  "(case expratom 1 parse_New [lexeme token_HexNum ''0''] of
      Done (r, p, rest) \<Rightarrow> r = Inl (Numeric 1 0 16) | _ \<Rightarrow> False)
   \<and> (case expratom 1 parse_New [lexeme token_DecNum ''2147483647''] of
        Done (r, p, rest) \<Rightarrow> r = Inl (Numeric 1 2147483647 10) | _ \<Rightarrow> False)
   \<and> (case expratom 1 parse_New [lexeme token_DecNum ''2147483648''] of
        Done (r, p, rest) \<Rightarrow>
          r = Inr (Err ''invalid integer: %w'' (Some (Err ''strconv.ParseInt'' None)))
          \<and> length (parser_errs p) = 1
      | _ \<Rightarrow> False)
   \<and> (case expratom 1 parse_New [lexeme token_HexNum ''0x80000000''] of
        Done (r, p, rest) \<Rightarrow>
          r = Inr (Err ''invalid integer: %w'' (Some (Err ''strconv.ParseInt'' None)))
      | _ \<Rightarrow> False)"
  by code_simp

section \<open>Properties of block parsing\<close>

lemma Peek_None: "Peek toks = (None, r) \<Longrightarrow> r = []"
  by (simp add: Peek_dropWhile split: list.splits)

lemma Peek_Some: "Peek toks = (Some t, r) \<Longrightarrow> r \<noteq> [] \<and> hd r = t \<and> Peek r = (Some t, r)"
proof -
  assume A: "Peek toks = (Some t, r)"
  define d where "d = dropWhile is_comment toks"
  have nc: "\<not> is_comment (hd d)" if "d \<noteq> []"
    using that hd_dropWhile unfolding d_def by blast
  have P: "Peek toks = (case d of [] \<Rightarrow> None | tok # _ \<Rightarrow> Some tok, d)"
    unfolding d_def by (rule Peek_dropWhile)
  from A P have r: "r = d" and dn: "d \<noteq> []" and t: "t = hd d"
    by (cases d; simp)+
  from dn nc have "Peek d = (Some (hd d), d)" by (cases d) (simp_all add: Peek_Cons)
  with r dn t show ?thesis by simp
qed

lemma snd_Pop_tl: "snd (Pop toks) = tl toks"
  by (cases toks) (simp_all add: Pop_Cons)

lemma Find_dropWhile:
  "snd (Find toks kinds) = dropWhile (\<lambda>t. is_comment t \<or> kind t \<notin> set kinds) toks"
proof (induction toks)
  case Nil
  show ?case by (subst Find.simps) (simp add: Peek_Nil)
next
  case (Cons t toks)
  show ?case
  proof (cases "is_comment t")
    case True
    have "Find (t # toks) kinds = Find toks kinds"
      by (subst Find.simps, subst (2) Find.simps) (simp add: Peek_Cons True)
    with Cons True show ?thesis by simp
  next
    case False
    then show ?thesis
      by (subst Find.simps) (simp add: Peek_Cons Pop_Cons Cons)
  qed
qed

lemma Block_loop_flag:
  "Block_loop n p toks stmts e = Done ((stmts', e'), p', rest)
   \<Longrightarrow> (e' \<longleftrightarrow> e \<or> stmt_call_fails n p toks)
       \<and> (rest = [] \<or> kind (hd rest) = token_RCurly \<and> Peek rest = (Some (hd rest), rest))"
proof (induction n arbitrary: p toks stmts e)
  case 0
  then show ?case by simp
next
  case (Suc n)
  obtain ot toks1 where P: "Peek toks = (ot, toks1)" by (cases "Peek toks")
  show ?case
  proof (cases ot)
    case None
    with P Suc.prems Peek_None [of toks toks1] show ?thesis
      by (simp add: Block_loop_body_def)
  next
    case (Some t)
    note PS = Peek_Some [OF P [unfolded Some]]
    show ?thesis
    proof (cases "kind t = token_RCurly")
      case True
      with P Some Suc.prems PS show ?thesis
        by (auto simp add: Block_loop_body_def)
    next
      case False
      show ?thesis
      proof (cases "Stmt n p toks1")
        case (Done x)
        obtain r p1 toks2 where x: "x = (r, p1, toks2)" by (cases x)
        show ?thesis
        proof (cases r)
          case (Inl stmt)
          with P Some False Done x Suc.prems
          have "Block_loop n p1 toks2 (stmts @ [stmt]) e = Done ((stmts', e'), p', rest)"
            by (simp add: Block_loop_body_def)
          from Suc.IH [OF this] P Some False Done x Inl show ?thesis by simp
        next
          case (Inr err)
          with P Some False Done x Suc.prems
          have "Block_loop n p1 (snd (Pop (snd (Find toks2 [token_Semicolon, token_RCurly]))))
                  (stmts @ [NilNode]) True = Done ((stmts', e'), p', rest)"
            by (simp add: Block_loop_body_def)
          from Suc.IH [OF this] P Some False Done x Inr show ?thesis by simp
        qed
      next
        case (Panicked m)
        with P Some False Suc.prems show ?thesis
          by (simp add: Block_loop_body_def bindf_def)
      next
        case OutOfFuel
        with P Some False Suc.prems show ?thesis
          by (simp add: Block_loop_body_def bindf_def)
      qed
    qed
  qed
qed

lemma Block_loop_resync:
  assumes "Peek body = (Some t, ts)" and "kind t \<noteq> token_RCurly"
    and "Stmt m q ts = Done (Inr err, q1, ts1)"
  shows "Block_loop (Suc m) q body stmts0 e0
     = Block_loop m q1
         (tl (dropWhile (\<lambda>t. is_comment t \<or> kind t \<notin> {token_Semicolon, token_RCurly}) ts1))
         (stmts0 @ [NilNode]) True"
  using assms by (simp add: Block_loop_body_def snd_Pop_tl Find_dropWhile)

lemma Block_parse_result:
  assumes "Peek toks = (Some brace, toks1)" and "kind brace = token_LCurly"
    and "Block_loop n p (snd (Pop toks1)) [] False = Done ((stmts, e), p1, rest)"
  shows "Block_parse (Suc n) p toks =
     (if rest = []
      then Done (Inr (Err ''block not terminated: %w'' (Some (TokenError token_EOT))),
                 p1\<lparr> parser_errs := parser_errs p1
                       @ [(Some brace, Err ''block not terminated: %w''
                                         (Some (TokenError token_EOT)))] \<rparr>,
                 [])
      else if stmt_call_fails n p (snd (Pop toks1))
      then Done (Inr (Err ''block contained errors'' None), p1, tl rest)
      else Done (Inl (Block (globalid p1 + 1) stmts), snd (Store p1 brace), tl rest))"
proof -
  from Block_loop_flag [OF assms(3)]
  have e: "e \<longleftrightarrow> stmt_call_fails n p (snd (Pop toks1))"
    and r: "rest = [] \<or> kind (hd rest) = token_RCurly \<and> Peek rest = (Some (hd rest), rest)"
    by simp_all
  show ?thesis
  proof (cases "rest = []")
    case True
    with assms e show ?thesis
      by (simp add: Block_body_def Accept_def Peek_Nil parse_errorf_def)
  next
    case False
    with r have "kind (hd rest) = token_RCurly" and "Peek rest = (Some (hd rest), rest)"
      by simp_all
    with assms e False show ?thesis
      by (simp add: Block_body_def Accept_def snd_Pop_tl Store_def)
  qed
qed

text \<open>
  What \<^verbatim>\<open>Block\<close> returns for the blocks \<^verbatim>\<open>{ 1; }\<close> and \<^verbatim>\<open>{ ); 1; }\<close>, and for \<^verbatim>\<open>{ 1;\<close> with the
  closing brace missing.
\<close>

lemma Block_parse_examples:
  "(case Block_parse 7 parse_New block_good of
      Done (Inl (Block i stmts), p, rest) \<Rightarrow> stmts = [Numeric 1 1 10] \<and> rest = []
    | _ \<Rightarrow> False)
   \<and> \<not> stmt_call_fails 6 parse_New (snd (Pop block_good))
   \<and> (case Block_parse 7 parse_New block_bad of
        Done (Inr err, p, rest) \<Rightarrow>
          err = Err ''block contained errors'' None \<and> length (parser_errs p) = 1 \<and> rest = []
      | _ \<Rightarrow> False)
   \<and> stmt_call_fails 6 parse_New (snd (Pop block_bad))
   \<and> (case Block_parse 7 parse_New (butlast block_good) of
        Done (Inr err, p, rest) \<Rightarrow>
          err = Err ''block not terminated: %w'' (Some (TokenError token_EOT))
      | _ \<Rightarrow> False)"
  by code_simp

text \<open>
  Claim C10 says that \<^verbatim>\<open>Block\<close> returns no node when a statement inside the braces failed to
  parse. The statement loop of \<^verbatim>\<open>Block\<close> sets \<^verbatim>\<open>inerror\<close> when its call of \<^verbatim>\<open>Stmt\<close> returns an
  error, and \<^verbatim>\<open>Stmt\<close> returns the error of every part it parses, except that of the block it
  tries first: when that block fails, \<^verbatim>\<open>Stmt\<close> drops the error and parses a statement from
  what the failed block left of the stream. In \<^verbatim>\<open>{ { 1 1; } x; }\<close> the inner block fails with
  \<^verbatim>\<open>block contained errors\<close> (its statement lacks the semicolon), \<^verbatim>\<open>Stmt\<close> goes on and returns
  \<^verbatim>\<open>x\<close>, the loop sees no error, and the outer \<^verbatim>\<open>Block\<close> returns a \<^verbatim>\<open>Block\<close> node that holds
  \<^verbatim>\<open>x\<close> alone.
\<close>

theorem nested_block_failure_swallowed:
  "(case Block_parse 12 parse_New (snd (Pop block_nested_bad)) of
      Done (Inr err, p, rest) \<Rightarrow> err = Err ''block contained errors'' None
    | _ \<Rightarrow> False)
   \<and> (case Block_parse 12 parse_New block_nested_bad of
        Done (Inl (Block i stmts), p, rest) \<Rightarrow>
          stmts = [Variable 2 ''x''] \<and> rest = []
          \<and> map snd (parser_errs p) = [Err ''statement missing ;'' None]
      | _ \<Rightarrow> False)"
  by code_simp

theorem nested_block_failure_swallowed_witness:
  "(case Block_parse 12 parse_New block_nested_bad of
      Done (Inl n, p, rest) \<Rightarrow> True
    | _ \<Rightarrow> False)"
  using nested_block_failure_swallowed
  by (auto split: fres.splits sum.splits)

section \<open>Properties of control-flow graph formation\<close>

text \<open>
  The edges of two loops whose bodies hold no further loop. Block 2 is the block the loop
  is met in, 3 the block after the loop, 4 the loop body and 5 the step block; in the second
  graph 6 is the block after the conditional, 7 its true block with the \<^verbatim>\<open>break\<close> and 8 its
  false block with the \<^verbatim>\<open>continue\<close>.
\<close>

lemma loop_edges_examples:
  "(case formed 20 prog_while of
      Some (Ok g) \<Rightarrow>
        map (edges g) [2, 3, 4, 5]
          = [[(BK_WHILETRUE, 4), (BK_WHILEFALSE, 3)], [(BK_ALWAYS, 1)], [(BK_ALWAYS, 5)],
             [(BK_WHILETRUE, 4), (BK_WHILEFALSE, 3)]]
    | _ \<Rightarrow> False)
   \<and> (case formed 20 prog_for_break_continue of
        Some (Ok g) \<Rightarrow>
          map (edges g) [2, 3, 4, 5, 6, 7, 8]
            = [[(BK_FORTRUE, 4), (BK_FORFALSE, 3)], [(BK_ALWAYS, 1)],
               [(BK_IFTRUE, 7), (BK_IFFALSE, 8)], [(BK_FORTRUE, 4), (BK_FORFALSE, 3)],
               [(BK_ALWAYS, 5)], [(BK_ALWAYS, 3)], [(BK_ALWAYS, 5)]]
      | _ \<Rightarrow> False)"
  by code_simp

text \<open>
  Claim C6 says that a \<^verbatim>\<open>break\<close> inside the body of a loop adds an \<^verbatim>\<open>ALWAYS\<close> edge to the
  block after the loop. \<^verbatim>\<open>newloop\<close> forms the statements that follow a loop with no loop
  context at all (\<^verbatim>\<open>newif\<close> hands the context of the enclosing loop on). So in
  \<^verbatim>\<open>void f(){ while(true){ while(true){} break; } }\<close>, which parses and passes the analyzer
  without a diagnostic, the \<^verbatim>\<open>break\<close> of the outer body is formed without loop context, and
  \<^verbatim>\<open>Form\<close> panics instead of adding the edge.
\<close>

theorem break_after_inner_loop_panics:
  "(case formed 20 prog_break_after_loop of
      Some (Panic m) \<Rightarrow> m = ''missing loop params on break''
    | _ \<Rightarrow> False)"
  by code_simp

theorem break_after_inner_loop_panics_witness:
  "\<exists>m. formed 20 prog_break_after_loop = Some (Panic m)"
  using break_after_inner_loop_panics
  by (simp split: option.splits res.splits)

section \<open>Properties of the lowering of assignments\<close>

lemma getNewStorable_Variable:
  "getNewStorable s (Variable i x) =
     (case generations s x of
        None \<Rightarrow> Panic ''unknown generation''
      | Some g \<Rightarrow> Ok (ir_Variable x g, s))"
  by (simp add: getNewStorable_def getCurrentVariable_def generations_get_def
           split: option.split)

text \<open>
  Claim C1 says that every assignment to a variable bumps its generation, so that
  successive \<^verbatim>\<open>STORE\<close> instructions to a variable carry strictly increasing counters; the
  comment in \<^verbatim>\<open>emitAssign\<close> says the same. \<^verbatim>\<open>getNewStorable\<close> bumps the generation only for
  a declaration: for an assignment to a variable that exists it returns the current
  generation. In the instructions emitted for \<^verbatim>\<open>int f(){ int x=1; x=2; return x; }\<close> both
  stores go to generation 0 of \<^verbatim>\<open>x\<close>.
\<close>

theorem reassignment_stores_to_same_generation:
  "map_option (store_targets \<circ> Instructions) (lowered 12 prog_reassign)
     = Some [ir_Variable ''x'' 0, ir_Variable ''x'' 0]"
  by code_simp

theorem reassignment_stores_to_same_generation_witness:
  "\<exists>s. lowered 12 prog_reassign = Some s \<and> \<not> distinct (store_targets (Instructions s))"
  using reassignment_stores_to_same_generation
  by (cases "lowered 12 prog_reassign") simp_all

section \<open>Properties of the pipeline\<close>

text \<open>
  Claim C2. Parsing the program
  \<^verbatim>\<open>int f(){ int a=1; int b=a+3; a=a*2+b; return a+1; }\<close>, analyzing it, forming the
  control-flow graph of \<^verbatim>\<open>f\<close>, lowering it and running the result in the interpreter
  delivers a value, and that value read as a signed 32-bit integer is 7.
\<close>

theorem pipeline_simple_returns_7:
  "map_option sint (pipeline 12 prog_simple) = Some 7"
  by code_simp

theorem pipeline_simple_returns_7_witness:
  "\<exists>r. pipeline 12 prog_simple = Some r \<and> sint r = 7"
  using pipeline_simple_returns_7 by (cases "pipeline 12 prog_simple") simp_all


end
